theory Spec2Isabelle
  imports Complex_Main "HOL-Library.Word"
begin

text \<open>
  A shallow embedding of \<open>matrixMulCUBLAS.cpp\<close>, a benchmark that multiplies two matrices
  on a GPU a hundred times and compares each result with the first one, and of the two
  functions with which it can lower and restore the power limit of the device. The
  embedding follows the source function by function; the vendor libraries the source
  calls are parameters.
\<close>

section \<open>Machine integers and floating-point operations\<close>

text \<open>
  Unsigned dimensions, counters and indices are 32-bit words, with the wrap-around of
  the C arithmetic. Signed counters stay far from their bounds and are integers.
\<close>

type_synonym u32 = "32 word"

subsection \<open>Floating point as a parameter\<close>

text \<open>
  The source computes in \<open>float\<close> and \<open>double\<close>. Their values and operations are
  parameters of the embedding: \<open>'f\<close> stands for \<open>float\<close>, \<open>'d\<close> for \<open>double\<close>, and a record
  holds the operations the source uses. \<open>f_of_real\<close> and \<open>d_of_real\<close> give the value of a
  literal or of an integer converted to the type; \<open>d_of_f\<close> is the promotion of a \<open>float\<close>
  to \<open>double\<close> and \<open>f_of_d\<close> the narrowing \<open>(float)\<close> of a \<open>double\<close>. Nothing is assumed of
  them, so what is proved of the code holds for IEEE arithmetic as for any other.
\<close>

record ('f, 'd) fpu =
  f_of_real :: "real \<Rightarrow> 'f"
  d_of_real :: "real \<Rightarrow> 'd"
  d_of_f :: "'f \<Rightarrow> 'd"
  f_of_d :: "'d \<Rightarrow> 'f"
  f_div :: "'f \<Rightarrow> 'f \<Rightarrow> 'f"
  d_add :: "'d \<Rightarrow> 'd \<Rightarrow> 'd"
  d_mul :: "'d \<Rightarrow> 'd \<Rightarrow> 'd"
  d_div :: "'d \<Rightarrow> 'd \<Rightarrow> 'd"

text \<open>
  A buffer is the memory reached from a base pointer: the element at each offset.
\<close>

type_synonym 'f buffer = "nat \<Rightarrow> 'f"

subsection \<open>Instances of the arithmetic\<close>

text \<open>
  Four instances serve the concrete examples and the numerical claims. In \<open>rounded_fpu\<close>
  both types are the reals and every operation is the exact one followed by a rounding
  (\<open>rf\<close> to single, \<open>rd\<close> to double precision); it is meant for divisors other than
  zero. \<open>exact_fpu\<close> rounds nothing.
\<close>

definition rounded_fpu :: "(real \<Rightarrow> real) \<Rightarrow> (real \<Rightarrow> real) \<Rightarrow> (real, real) fpu" where
  "rounded_fpu rf rd =
     \<lparr> f_of_real = rf, d_of_real = rd, d_of_f = (\<lambda>x. x), f_of_d = rf,
       f_div = (\<lambda>x y. rf (x / y)), d_add = (\<lambda>x y. rd (x + y)),
       d_mul = (\<lambda>x y. rd (x * y)), d_div = (\<lambda>x y. rd (x / y)) \<rparr>"

definition exact_fpu :: "(real, real) fpu" where
  "exact_fpu = rounded_fpu (\<lambda>x. x) (\<lambda>x. x)"

text \<open>
  \<open>ieee_fpu\<close> rounds as IEEE 754 arithmetic does in its default mode: \<open>round_to p x\<close> is
  the number with \<open>p\<close> significant bits nearest to \<open>x\<close>, the one with an even significand
  when two are equally near; \<open>float\<close> has 24 significant bits and \<open>double\<close> 53.
  \<open>exponent x\<close> is the integer \<open>e\<close> with \<open>2^e \<le> |x| < 2^(e+1)\<close>, computed from the number of
  bits of an integer. The range of the exponent is not bounded: the instance is meant
  for values far from overflow and from the subnormal numbers.
\<close>

fun bit_length :: "nat \<Rightarrow> nat" where
  "bit_length n = (if n = 0 then 0 else Suc (bit_length (n div 2)))"

declare bit_length.simps [simp del]

definition exponent :: "real \<Rightarrow> int" where
  "exponent x =
     (if 1 \<le> \<bar>x\<bar> then int (bit_length (nat \<lfloor>\<bar>x\<bar>\<rfloor>)) - 1
      else - int (bit_length (nat (\<lceil>1 / \<bar>x\<bar>\<rceil> - 1))))"

definition round_even :: "real \<Rightarrow> int" where
  "round_even x =
     (let f = \<lfloor>x\<rfloor> in
      if x - of_int f < 1 / 2 then f
      else if 1 / 2 < x - of_int f then f + 1
      else if even f then f else f + 1)"

definition round_to :: "nat \<Rightarrow> real \<Rightarrow> real" where
  "round_to p x =
     (if x = 0 then 0
      else let ulp = 2 powi (exponent x + 1 - int p)
           in of_int (round_even (x / ulp)) * ulp)"

definition binary32 :: "real \<Rightarrow> real" where
  "binary32 = round_to 24"

definition binary64 :: "real \<Rightarrow> real" where
  "binary64 = round_to 53"

definition ieee_fpu :: "(real, real) fpu" where
  "ieee_fpu = rounded_fpu binary32 binary64"



section \<open>The reference routine \<open>matrixMulCPU\<close>\<close>

text \<open>
  The three nested \<open>for\<close> loops of \<open>matrixMulCPU\<close>, innermost first. The counters \<open>i\<close>,
  \<open>j\<close>, \<open>k\<close> and the index expressions \<open>i * wA + k\<close>, \<open>k * wB + j\<close>, \<open>i * wB + j\<close> are
  \<open>unsigned int\<close>, hence 32-bit words; an index selects the element at its unsigned value.
  A counter is incremented only while it is below its bound, so each loop terminates.
  The inner loop starts from \<open>double sum = 0\<close> and adds \<open>a * b\<close> for the promoted elements;
  the store \<open>C[i * wB + j] = (float)sum\<close> narrows. \<open>C\<close> is passed in and returned; \<open>A\<close> and
  \<open>B\<close> are only read and are taken not to overlap \<open>C\<close>.
\<close>

function matrixMulCPU_k ::
  "('f, 'd) fpu \<Rightarrow> 'f buffer \<Rightarrow> 'f buffer \<Rightarrow> u32 \<Rightarrow> u32 \<Rightarrow> u32 \<Rightarrow> u32 \<Rightarrow> u32 \<Rightarrow> 'd \<Rightarrow> 'd"
  where
  "matrixMulCPU_k fp A B wA wB i j k sum_d =
     (if k < wA then
        (let a = d_of_f fp (A (unat (i * wA + k)));
             b = d_of_f fp (B (unat (k * wB + j)))
         in matrixMulCPU_k fp A B wA wB i j (k + 1) (d_add fp sum_d (d_mul fp a b)))
      else sum_d)"
  by pat_completeness auto
termination
  apply (relation "measure (\<lambda>(fp, A, B, wA, wB, i, j, k, sum_d). unat wA - unat k)")
   apply simp
  apply simp
  apply unat_arith
  done

function matrixMulCPU_j ::
  "('f, 'd) fpu \<Rightarrow> 'f buffer \<Rightarrow> 'f buffer \<Rightarrow> 'f buffer \<Rightarrow> u32 \<Rightarrow> u32 \<Rightarrow> u32 \<Rightarrow> u32 \<Rightarrow> 'f buffer"
  where
  "matrixMulCPU_j fp C A B wA wB i j =
     (if j < wB then
        (let sum_d = matrixMulCPU_k fp A B wA wB i j 0 (d_of_real fp 0)
         in matrixMulCPU_j fp (C(unat (i * wB + j) := f_of_d fp sum_d)) A B wA wB i (j + 1))
      else C)"
  by pat_completeness auto
termination
  apply (relation "measure (\<lambda>(fp, C, A, B, wA, wB, i, j). unat wB - unat j)")
   apply simp
  apply simp
  apply unat_arith
  done

function matrixMulCPU_i ::
  "('f, 'd) fpu \<Rightarrow> 'f buffer \<Rightarrow> 'f buffer \<Rightarrow> 'f buffer \<Rightarrow> u32 \<Rightarrow> u32 \<Rightarrow> u32 \<Rightarrow> u32 \<Rightarrow> 'f buffer"
  where
  "matrixMulCPU_i fp C A B hA wA wB i =
     (if i < hA then
        matrixMulCPU_i fp (matrixMulCPU_j fp C A B wA wB i 0) A B hA wA wB (i + 1)
      else C)"
  by pat_completeness auto
termination
  apply (relation "measure (\<lambda>(fp, C, A, B, hA, wA, wB, i). unat hA - unat i)")
   apply simp
  apply simp
  apply unat_arith
  done

definition matrixMulCPU ::
  "('f, 'd) fpu \<Rightarrow> 'f buffer \<Rightarrow> 'f buffer \<Rightarrow> 'f buffer \<Rightarrow> u32 \<Rightarrow> u32 \<Rightarrow> u32 \<Rightarrow> 'f buffer"
  where
  "matrixMulCPU fp C A B hA wA wB = matrixMulCPU_i fp C A B hA wA wB 0"

text \<open>
  The entry of the product as the specification writes it:
  \<open>(float)(\<Sum>k. (double)A[i*wA+k] * (double)B[k*wB+j])\<close>, the sum taken from left to right.
\<close>

definition product_cell ::
  "('f, 'd) fpu \<Rightarrow> 'f buffer \<Rightarrow> 'f buffer \<Rightarrow> u32 \<Rightarrow> u32 \<Rightarrow> u32 \<Rightarrow> u32 \<Rightarrow> 'f"
  where
  "product_cell fp A B wA wB i j =
     f_of_d fp
       (foldl (\<lambda>s k. d_add fp s
                 (d_mul fp (d_of_f fp (A (unat (i * wA + k)))) (d_of_f fp (B (unat (k * wB + j))))))
          (d_of_real fp 0) (map of_nat [0..<unat wA]))"

section \<open>The power transitions \<open>undervolte\<close> and \<open>resetvolte\<close>\<close>

text \<open>
  The device-management library is not part of the repository. A call returns
  \<open>NVML_SUCCESS\<close> or an error code; the calls the two functions make are the constructors
  of \<open>nvml_call\<close>, with their arguments (device index; power limit in milliwatts; memory
  and graphics clock in MHz; the auto-boost state).
\<close>

datatype nvmlReturn_t = NVML_SUCCESS | NVML_ERROR nat

datatype nvmlEnableState_t = NVML_FEATURE_DISABLED | NVML_FEATURE_ENABLED

datatype nvml_call =
    Init
  | DeviceGetHandleByIndex int
  | DeviceSetPowerManagementLimit nat
  | DeviceSetApplicationsClocks nat nat
  | DeviceResetApplicationsClocks
  | DeviceSetAutoBoostedClocksEnabled nvmlEnableState_t

text \<open>
  The settings of device 0 that the calls write, the library as a parameter (the status
  of the \<open>n\<close>-th call made, and \<open>nvmlErrorString\<close>), the lines written to standard output
  (\<open>cout << text\<close>, or \<open>printf\<close> with its format, the device index and the error text), and
  the machine: device, calls made so far, output.
\<close>

record gpu =
  power_limit :: nat
  applications_clocks :: "(nat \<times> nat) option"
  auto_boost :: nvmlEnableState_t

record nvml =
  nvml_result :: "nat \<Rightarrow> nvml_call \<Rightarrow> nvmlReturn_t"
  nvmlErrorString :: "nvmlReturn_t \<Rightarrow> string"

datatype console_line = Cout string | Printf string int string

record machine =
  gpu0 :: gpu
  nvml_calls :: "nvml_call list"
  console :: "console_line list"

text \<open>
  Modelled from the spec: the device-management library, which is not in the repository.
  The spec lists its operations as set power limit, set and reset application clock
  frequencies, enable and disable automatic boosting: a successful call writes the
  setting it names, and initialisation and handle resolution write nothing. A call that
  fails changes nothing.
\<close>

definition nvml_effect :: "nvml_call \<Rightarrow> gpu \<Rightarrow> gpu" where
  "nvml_effect c g =
     (case c of
        DeviceSetPowerManagementLimit limit \<Rightarrow> g\<lparr>power_limit := limit\<rparr>
      | DeviceSetApplicationsClocks mem graphics \<Rightarrow> g\<lparr>applications_clocks := Some (mem, graphics)\<rparr>
      | DeviceResetApplicationsClocks \<Rightarrow> g\<lparr>applications_clocks := None\<rparr>
      | DeviceSetAutoBoostedClocksEnabled enabled \<Rightarrow> g\<lparr>auto_boost := enabled\<rparr>
      | _ \<Rightarrow> g)"

text \<open>
  Making a call: it is recorded, its status is the library's, and its effect takes
  place when the status is success.
\<close>

definition nvml_issue :: "nvml \<Rightarrow> nvml_call \<Rightarrow> machine \<Rightarrow> nvmlReturn_t \<times> machine" where
  "nvml_issue lib c w =
     (let result = nvml_result lib (length (nvml_calls w)) c
      in (result,
          w\<lparr>nvml_calls := nvml_calls w @ [c],
            gpu0 := (if result = NVML_SUCCESS then nvml_effect c (gpu0 w) else gpu0 w)\<rparr>))"

definition print_line :: "console_line \<Rightarrow> machine \<Rightarrow> machine" where
  "print_line l w = w\<lparr>console := console w @ [l]\<rparr>"

text \<open>
  The two functions, statement by statement. Each is \<open>void\<close>: every \<open>return\<close> and the end
  of the body give the caller the one value of type \<open>unit\<close>.
\<close>

definition undervolte :: "nvml \<Rightarrow> machine \<Rightarrow> unit \<times> machine" where
  "undervolte lib w =
     (case nvml_issue lib Init w of (r0, w0) \<Rightarrow>
      if r0 \<noteq> NVML_SUCCESS then ((), print_line (Cout ''init error'') w0)
      else
       (let i = 0 in
        case nvml_issue lib (DeviceGetHandleByIndex i) w0 of (result, w1) \<Rightarrow>
        if NVML_SUCCESS \<noteq> result
        then ((), print_line (Printf ''Failed to get handle for device %i: %s\<newline>'' i
                                (nvmlErrorString lib result)) w1)
        else
         (case nvml_issue lib (DeviceSetPowerManagementLimit 30000) w1 of (result, w2) \<Rightarrow>
          if NVML_SUCCESS \<noteq> result
          then ((), print_line (Printf ''Failed to set power limit of device %i: %s\<newline>'' i
                                  (nvmlErrorString lib result)) w2)
          else
           (case nvml_issue lib (DeviceSetApplicationsClocks 3510 1885) w2 of (result, w3) \<Rightarrow>
            if NVML_SUCCESS \<noteq> result
            then ((), print_line (Printf ''Failed to set clock of device %i: %s\<newline>'' i
                                    (nvmlErrorString lib result)) w3)
            else
             (let set = NVML_FEATURE_DISABLED in
              case nvml_issue lib (DeviceSetAutoBoostedClocksEnabled set) w3 of (result, w4) \<Rightarrow>
              if NVML_SUCCESS \<noteq> result
              then ((), print_line (Printf ''Failed to disable autoboost of device %i: %s\<newline>'' i
                                      (nvmlErrorString lib result)) w4)
              else ((), w4))))))"

definition resetvolte :: "nvml \<Rightarrow> machine \<Rightarrow> unit \<times> machine" where
  "resetvolte lib w =
     (case nvml_issue lib Init w of (r0, w0) \<Rightarrow>
      if r0 \<noteq> NVML_SUCCESS then ((), print_line (Cout ''init error'') w0)
      else
       (let i = 0 in
        case nvml_issue lib (DeviceGetHandleByIndex i) w0 of (result, w1) \<Rightarrow>
        if NVML_SUCCESS \<noteq> result
        then ((), print_line (Printf ''Failed to get handle for device %i: %s\<newline>'' i
                                (nvmlErrorString lib result)) w1)
        else
         (case nvml_issue lib (DeviceSetPowerManagementLimit 38500) w1 of (result, w2) \<Rightarrow>
          if NVML_SUCCESS \<noteq> result
          then ((), print_line (Printf ''Failed to set power limit of device %i: %s\<newline>'' i
                                  (nvmlErrorString lib result)) w2)
          else
           (case nvml_issue lib DeviceResetApplicationsClocks w2 of (result, w3) \<Rightarrow>
            if NVML_SUCCESS \<noteq> result
            then ((), print_line (Printf ''Failed to reset clock of device %i: %s\<newline>'' i
                                    (nvmlErrorString lib result)) w3)
            else
             (let set = NVML_FEATURE_ENABLED in
              case nvml_issue lib (DeviceSetAutoBoostedClocksEnabled set) w3 of (result, w4) \<Rightarrow>
              if NVML_SUCCESS \<noteq> result
              then ((), print_line (Printf ''Failed to disable autoboost of device %i: %s\<newline>'' i
                                      (nvmlErrorString lib result)) w4)
              else ((), w4))))))"

subsection \<open>Notions used in the statements about the transitions\<close>

text \<open>
  The calls of each transition in order; the position of the first call that fails when
  the calls are made from call number \<open>n\<close> on; the device after a sequence of successful
  calls.
\<close>

definition to_constrained :: "nvml_call list" where
  "to_constrained =
     [Init, DeviceGetHandleByIndex 0, DeviceSetPowerManagementLimit 30000,
      DeviceSetApplicationsClocks 3510 1885,
      DeviceSetAutoBoostedClocksEnabled NVML_FEATURE_DISABLED]"

definition to_normal :: "nvml_call list" where
  "to_normal =
     [Init, DeviceGetHandleByIndex 0, DeviceSetPowerManagementLimit 38500,
      DeviceResetApplicationsClocks,
      DeviceSetAutoBoostedClocksEnabled NVML_FEATURE_ENABLED]"

fun first_failure :: "nvml \<Rightarrow> nat \<Rightarrow> nvml_call list \<Rightarrow> nat option" where
  "first_failure lib n [] = None"
| "first_failure lib n (c # cs) =
     (if nvml_result lib n c = NVML_SUCCESS then map_option Suc (first_failure lib (Suc n) cs)
      else Some 0)"

definition applied :: "nvml_call list \<Rightarrow> gpu \<Rightarrow> gpu" where
  "applied cs g = foldl (\<lambda>g c. nvml_effect c g) g cs"

text \<open>
  Concrete libraries and machines for the examples: a library whose calls all succeed,
  one whose \<open>k\<close>-th call fails with error code 4, and a machine with a given power limit.
\<close>

definition nvml_ok :: nvml where
  "nvml_ok =
     \<lparr>nvml_result = (\<lambda>n c. NVML_SUCCESS),
      nvmlErrorString = (\<lambda>r. if r = NVML_SUCCESS then ''Success'' else ''Insufficient Permissions'')\<rparr>"

definition nvml_failing_at :: "nat \<Rightarrow> nvml" where
  "nvml_failing_at k = nvml_ok\<lparr>nvml_result := (\<lambda>n c. if n = k then NVML_ERROR 4 else NVML_SUCCESS)\<rparr>"

definition machine0 :: "nat \<Rightarrow> machine" where
  "machine0 limit =
     \<lparr>gpu0 = \<lparr>power_limit = limit, applications_clocks = None, auto_boost = NVML_FEATURE_ENABLED\<rparr>,
      nvml_calls = [], console = []\<rparr>"

section \<open>The benchmark driver \<open>matrixMultiply\<close>\<close>

subsection \<open>Data\<close>

text \<open>
  \<open>sMatrixSize\<close> is the struct of the six \<open>unsigned int\<close> dimensions.
\<close>

record sMatrixSize =
  uiWA :: u32
  uiHA :: u32
  uiWB :: u32
  uiHB :: u32
  uiWC :: u32
  uiHC :: u32

text \<open>
  The arguments of one \<open>cublasSgemm\<close> call, apart from the handle and the three device
  pointers: the two operation flags, the \<open>int\<close> dimensions \<open>m\<close>, \<open>n\<close>, \<open>k\<close>, the factors
  \<open>alpha\<close> and \<open>beta\<close> and the three leading dimensions.
\<close>

datatype cublasOperation_t = CUBLAS_OP_N | CUBLAS_OP_T

record 'f sgemm_call =
  sg_transa :: cublasOperation_t
  sg_transb :: cublasOperation_t
  sg_m :: int
  sg_n :: int
  sg_k :: int
  sg_alpha :: 'f
  sg_lda :: int
  sg_ldb :: int
  sg_beta :: 'f
  sg_ldc :: int

text \<open>
  What the run acquires: four host buffers (\<open>malloc\<close>), four device buffers
  (\<open>cudaMalloc\<close>), two events (\<open>cudaEventCreate\<close>) and the library handle
  (\<open>cublasCreate\<close>).
\<close>

datatype resource =
    Host_A | Host_B | Host_C | Host_C2
  | Dev_A | Dev_B | Dev_C | Dev_C2
  | Event_start | Event_stop | Cublas_handle

text \<open>
  The calls wrapped in \<open>checkCudaErrors\<close>, in the order of the source. The calls around a
  multiplication carry the number of that multiplication: 0 for the first one (into
  \<open>d_C2\<close>), \<open>j + 1\<close> for trial \<open>j\<close>.
\<close>

datatype callsite =
    Malloc_d_A | Malloc_d_B | Malloc_d_C | Malloc_d_C2
  | Memcpy_A | Memcpy_B
  | EventCreate_start | EventCreate_stop | CublasCreate
  | EventRecord_start nat | Sgemm nat | EventRecord_stop nat
  | EventSynchronize nat | EventElapsedTime nat | Memcpy_result nat
  | CublasDestroy | Free_d_A | Free_d_B | Free_d_C | Free_d_C2

text \<open>
  The libraries are not part of the repository; their behaviour is a parameter. A
  \<open>runtime\<close> gives the status each checked call returns (0 is success), what the device
  writes into the output buffer at each multiplication (it may differ from call to call,
  as a device at a reduced voltage may), the time \<open>cudaEventElapsedTime\<close> reports for each
  multiplication, the comparator \<open>sdkCompareL2fe\<close> of the samples' helper header, the
  values \<open>rand()\<close> returns after \<open>srand(seed)\<close> with \<open>RAND_MAX\<close>, the contents of newly
  allocated memory, and what the macro \<open>checkCudaErrors\<close> leaves held when it ends the
  run (see below).
\<close>

record 'f runtime =
  cuda_status :: "callsite \<Rightarrow> nat"
  device_sgemm :: "nat \<Rightarrow> 'f sgemm_call \<Rightarrow> 'f buffer \<Rightarrow> 'f buffer \<Rightarrow> 'f buffer \<Rightarrow> 'f buffer"
  elapsed_ms :: "nat \<Rightarrow> 'f"
  sdkCompareL2fe :: "'f buffer \<Rightarrow> 'f buffer \<Rightarrow> u32 \<Rightarrow> 'f \<Rightarrow> bool"
  rand_value :: "nat \<Rightarrow> nat \<Rightarrow> int"
  RAND_MAX :: int
  fresh :: "resource \<Rightarrow> 'f buffer"
  on_failure :: "callsite \<Rightarrow> resource list \<Rightarrow> resource list"

text \<open>
  Standard output, one entry per \<open>printf\<close> with the values it prints (a \<open>float\<close> argument
  of \<open>printf\<close> is promoted to \<open>double\<close>). \<open>Performance\<close> holds the trial number (none for
  the first multiplication), \<open>gigaFlops\<close>, the time and the operation count. \<open>PrintDiff\<close>
  stands for everything \<open>printDiff\<close> prints for its six arguments: its text plays no part
  in any property below.
\<close>

datatype ('f, 'd) line =
    Text string
  | Performance "int option" 'd 'd 'd
  | PrintDiff "'f buffer" "'f buffer" u32 u32 int 'f
  | Comparing bool
  | Total_test int int
  | Failure_rate 'd
  | Average_perf 'd

text \<open>
  The state of the run: the contents of the eight buffers, the resources held (those
  acquired and not released), the device-management side of the machine (the settings of
  the device, the device-management calls made and their output), standard output, the
  state of \<open>rand()\<close> (seed and number of values drawn), and the locals \<open>msecTotal\<close>,
  \<open>fail_count\<close> and \<open>total_perf\<close>.
\<close>

record ('f, 'd) state =
  h_A :: "'f buffer"
  h_B :: "'f buffer"
  h_C :: "'f buffer"
  h_C2 :: "'f buffer"
  d_A :: "'f buffer"
  d_B :: "'f buffer"
  d_C :: "'f buffer"
  d_C2 :: "'f buffer"
  held :: "resource list"
  power_ctl :: machine
  stdout :: "('f, 'd) line list"
  rand_seed :: nat
  rand_count :: nat
  msecTotal :: 'f
  fail_count :: int
  total_perf :: 'f

subsection \<open>Statements and fatal errors\<close>

text \<open>
  A statement either continues with a new state or ends the run at a call site, with
  the state in which the run ends.
\<close>

type_synonym ('f, 'd) outcome = "(callsite \<times> ('f, 'd) state) + ('f, 'd) state"
type_synonym ('f, 'd) step = "('f, 'd) state \<Rightarrow> ('f, 'd) outcome"

text \<open>
  Modelled from the spec: \<open>checkCudaErrors\<close> is a macro of the samples' helper header,
  which is not in the repository. The spec has every failure of an allocation, a transfer
  or the multiply primitive fatal: a call that returns a status other than success ends
  the run at once, and no later statement of \<open>matrixMultiply\<close> is executed. The effect of
  a failed call does not take place. What the macro releases before the run ends is not
  decided here: it is the parameter \<open>on_failure\<close> of the runtime, which gives, for the
  failing call and the resources held when the macro is reached, the resources still
  held when the run ends.
\<close>

definition checkCudaErrors ::
  "'f runtime \<Rightarrow> callsite \<Rightarrow> (('f, 'd) state \<Rightarrow> ('f, 'd) state) \<Rightarrow> ('f, 'd) step" where
  "checkCudaErrors rt site effect s =
     (if cuda_status rt site = 0 then Inr (effect s)
      else Inl (site, s\<lparr>held := on_failure rt site (held s)\<rparr>))"

text \<open>
  A statement that cannot fail, and the execution of a sequence of statements up to the
  first fatal error.
\<close>

definition stmt :: "(('f, 'd) state \<Rightarrow> ('f, 'd) state) \<Rightarrow> ('f, 'd) step" where
  "stmt effect s = Inr (effect s)"

fun run :: "('f, 'd) step list \<Rightarrow> ('f, 'd) step" where
  "run [] s = Inr s"
| "run (f # fs) s = (case f s of Inl e \<Rightarrow> Inl e | Inr s' \<Rightarrow> run fs s')"

definition printf :: "('f, 'd) line \<Rightarrow> ('f, 'd) state \<Rightarrow> ('f, 'd) state" where
  "printf l s = s\<lparr>stdout := stdout s @ [l]\<rparr>"

text \<open>
  Acquiring appends to the resources held; releasing removes.
\<close>

definition acquire :: "resource \<Rightarrow> ('f, 'd) state \<Rightarrow> ('f, 'd) state" where
  "acquire r s = s\<lparr>held := held s @ [r]\<rparr>"

definition release :: "resource \<Rightarrow> ('f, 'd) state \<Rightarrow> ('f, 'd) state" where
  "release r s = s\<lparr>held := remove1 r (held s)\<rparr>"

text \<open>
  Modelled from the spec: the runtime's host-device copy, which is not in the repository.
  \<open>cudaMemcpy(dst, src, count, kind)\<close> copies \<open>count\<close> bytes, that is \<open>count / sizeof(float)\<close>
  elements, and leaves the rest of \<open>dst\<close> as it was.
\<close>

definition cudaMemcpy :: "'f buffer \<Rightarrow> 'f buffer \<Rightarrow> u32 \<Rightarrow> 'f buffer" where
  "cudaMemcpy dst src count = (\<lambda>p. if p < unat count div 4 then src p else dst p)"

subsection \<open>\<open>randomInit\<close>\<close>

text \<open>
  \<open>for (int i = 0; i < size; ++i) data[i] = rand() / (float)RAND_MAX;\<close> The \<open>int\<close>
  returned by \<open>rand()\<close> is converted to \<open>float\<close> for the division. The routine returns the
  buffer and the number of values drawn so far.
\<close>

function randomInit_loop ::
  "('f, 'd) fpu \<Rightarrow> 'f runtime \<Rightarrow> nat \<Rightarrow> 'f buffer \<times> nat \<Rightarrow> int \<Rightarrow> int \<Rightarrow> 'f buffer \<times> nat" where
  "randomInit_loop fp rt seed (data, c) i size_n =
     (if i < size_n then
        randomInit_loop fp rt seed
          (data(nat i := f_div fp (f_of_real fp (real_of_int (rand_value rt seed c)))
                                  (f_of_real fp (real_of_int (RAND_MAX rt)))),
           Suc c)
          (i + 1) size_n
      else (data, c))"
  by pat_completeness auto
termination
  by (relation "measure (\<lambda>(fp, rt, seed, dc, i, size_n). nat (size_n - i))") auto

definition randomInit ::
  "('f, 'd) fpu \<Rightarrow> 'f runtime \<Rightarrow> nat \<Rightarrow> 'f buffer \<times> nat \<Rightarrow> int \<Rightarrow> 'f buffer \<times> nat" where
  "randomInit fp rt seed dc size_n = randomInit_loop fp rt seed dc 0 size_n"

subsection \<open>Constants of the run\<close>

text \<open>
  \<open>n = 10240\<close> for all six dimensions; the element counts are products in \<open>unsigned int\<close>
  and the byte counts are \<open>sizeof(float)\<close> times those, stored in \<open>unsigned int\<close>.
\<close>

definition matrix_size :: sMatrixSize where
  "matrix_size = \<lparr>uiWA = 10240, uiHA = 10240, uiWB = 10240, uiHB = 10240, uiWC = 10240, uiHC = 10240\<rparr>"

definition size_A :: u32 where "size_A = uiWA matrix_size * uiHA matrix_size"
definition mem_size_A :: u32 where "mem_size_A = 4 * size_A"
definition size_B :: u32 where "size_B = uiWB matrix_size * uiHB matrix_size"
definition mem_size_B :: u32 where "mem_size_B = 4 * size_B"
definition size_C :: u32 where "size_C = uiWC matrix_size * uiHC matrix_size"
definition mem_size_C :: u32 where "mem_size_C = 4 * size_C"

definition nIter :: int where "nIter = 100"

text \<open>
  The arguments of both \<open>cublasSgemm\<close> calls of the source, for a descriptor \<open>ms\<close>: no
  transposition, \<open>m = uiWB\<close>, \<open>n = uiHA\<close>, \<open>k = uiWA\<close>, leading dimensions \<open>uiWB\<close>, \<open>uiWA\<close>,
  \<open>uiWB\<close>. The \<open>unsigned int\<close> fields are converted to the \<open>int\<close> parameters. The left
  operand is \<open>d_B\<close> and the right operand \<open>d_A\<close> (see \<open>cublasSgemm_into_C2\<close>).
\<close>

definition invoker_call :: "'f \<Rightarrow> 'f \<Rightarrow> sMatrixSize \<Rightarrow> 'f sgemm_call" where
  "invoker_call al be ms =
     \<lparr>sg_transa = CUBLAS_OP_N, sg_transb = CUBLAS_OP_N,
      sg_m = sint (uiWB ms), sg_n = sint (uiHA ms), sg_k = sint (uiWA ms),
      sg_alpha = al, sg_lda = sint (uiWB ms), sg_ldb = sint (uiWA ms),
      sg_beta = be, sg_ldc = sint (uiWB ms)\<rparr>"

text \<open>
  \<open>2.0 * (double)uiHC * (double)uiWC * (double)uiHB\<close>, and
  \<open>(flopsPerMatrixMul * 1.0e-9f) / (msecPerMatrixMul / 1000.0f)\<close>: the divisor is a \<open>float\<close>
  quotient, promoted for the \<open>double\<close> division.
\<close>

definition flopsPerMatrixMul :: "('f, 'd) fpu \<Rightarrow> 'd" where
  "flopsPerMatrixMul fp =
     d_mul fp
       (d_mul fp
          (d_mul fp (d_of_real fp 2) (d_of_real fp (real (unat (uiHC matrix_size)))))
          (d_of_real fp (real (unat (uiWC matrix_size)))))
       (d_of_real fp (real (unat (uiHB matrix_size))))"

definition gigaFlops :: "('f, 'd) fpu \<Rightarrow> 'f \<Rightarrow> 'd" where
  "gigaFlops fp msecPerMatrixMul =
     d_div fp (d_mul fp (flopsPerMatrixMul fp) (d_of_f fp (f_of_real fp (1 / 10 ^ 9))))
              (d_of_f fp (f_div fp msecPerMatrixMul (f_of_real fp 1000)))"

subsection \<open>The statements of the run\<close>

text \<open>
  The multiplication into \<open>d_C2\<close> (the first one) and into \<open>d_C\<close> (the trials): left
  operand \<open>d_B\<close>, right operand \<open>d_A\<close>, \<open>alpha = 1.0f\<close>, \<open>beta = 0.0f\<close>. What the device
  writes is the runtime's.
\<close>

definition cublasSgemm_into_C2 :: "('f, 'd) fpu \<Rightarrow> 'f runtime \<Rightarrow> nat \<Rightarrow> ('f, 'd) state \<Rightarrow> ('f, 'd) state" where
  "cublasSgemm_into_C2 fp rt call s =
     s\<lparr>d_C2 := device_sgemm rt call
                  (invoker_call (f_of_real fp 1) (f_of_real fp 0) matrix_size)
                  (d_B s) (d_A s) (d_C2 s)\<rparr>"

definition cublasSgemm_into_C :: "('f, 'd) fpu \<Rightarrow> 'f runtime \<Rightarrow> nat \<Rightarrow> ('f, 'd) state \<Rightarrow> ('f, 'd) state" where
  "cublasSgemm_into_C fp rt call s =
     s\<lparr>d_C := device_sgemm rt call
                 (invoker_call (f_of_real fp 1) (f_of_real fp 0) matrix_size)
                 (d_B s) (d_A s) (d_C s)\<rparr>"

text \<open>
  \<open>randomInit(h_A, size_A)\<close> and \<open>randomInit(h_B, size_B)\<close>; the \<open>unsigned int\<close> size becomes
  the \<open>int\<close> parameter.
\<close>

definition fill_h_A :: "('f, 'd) fpu \<Rightarrow> 'f runtime \<Rightarrow> ('f, 'd) state \<Rightarrow> ('f, 'd) state" where
  "fill_h_A fp rt s =
     (let (data, c) = randomInit fp rt (rand_seed s) (h_A s, rand_count s) (sint size_A)
      in s\<lparr>h_A := data, rand_count := c\<rparr>)"

definition fill_h_B :: "('f, 'd) fpu \<Rightarrow> 'f runtime \<Rightarrow> ('f, 'd) state \<Rightarrow> ('f, 'd) state" where
  "fill_h_B fp rt s =
     (let (data, c) = randomInit fp rt (rand_seed s) (h_B s, rand_count s) (sint size_B)
      in s\<lparr>h_B := data, rand_count := c\<rparr>)"

text \<open>
  The performance line, \<open>total_perf += gigaFlops\<close> (a \<open>float\<close> plus a \<open>double\<close>, stored
  back into the \<open>float\<close>), and the check of a trial: \<open>sdkCompareL2fe(h_C2, h_C, size_C,
  1.0e-10f)\<close>, on failure \<open>printDiff\<close> and \<open>fail_count++\<close>, then the PASS or FAIL line.
\<close>

definition report_performance ::
  "('f, 'd) fpu \<Rightarrow> int option \<Rightarrow> ('f, 'd) state \<Rightarrow> ('f, 'd) state" where
  "report_performance fp label s =
     printf (Performance label (gigaFlops fp (msecTotal s)) (d_of_f fp (msecTotal s))
               (flopsPerMatrixMul fp)) s"

definition accumulate_perf :: "('f, 'd) fpu \<Rightarrow> ('f, 'd) state \<Rightarrow> ('f, 'd) state" where
  "accumulate_perf fp s =
     s\<lparr>total_perf := f_of_d fp (d_add fp (d_of_f fp (total_perf s)) (gigaFlops fp (msecTotal s)))\<rparr>"

definition check_result :: "('f, 'd) fpu \<Rightarrow> 'f runtime \<Rightarrow> ('f, 'd) state \<Rightarrow> ('f, 'd) state" where
  "check_result fp rt s =
     (let resCUBLAS = sdkCompareL2fe rt (h_C2 s) (h_C s) size_C (f_of_real fp (1 / 10 ^ 10));
          s1 = (if resCUBLAS \<noteq> True
                then (printf (PrintDiff (h_C2 s) (h_C s) (uiWC matrix_size) (uiHC matrix_size) 100
                                (f_of_real fp (1 / 10 ^ 5))) s)
                       \<lparr>fail_count := fail_count s + 1\<rparr>
                else s)
      in printf (Comparing resCUBLAS) s1)"

text \<open>
  The run in four parts. First the allocations, the inputs and their transfer, the
  events and the handle. \<open>malloc\<close> is taken to succeed: the source does not test its
  result.
\<close>

definition prologue :: "('f, 'd) fpu \<Rightarrow> 'f runtime \<Rightarrow> ('f, 'd) step list" where
  "prologue fp rt =
     [stmt (\<lambda>s. acquire Host_A (s\<lparr>h_A := fresh rt Host_A\<rparr>)),
      stmt (\<lambda>s. acquire Host_B (s\<lparr>h_B := fresh rt Host_B\<rparr>)),
      stmt (\<lambda>s. acquire Host_C (s\<lparr>h_C := fresh rt Host_C\<rparr>)),
      stmt (\<lambda>s. acquire Host_C2 (s\<lparr>h_C2 := fresh rt Host_C2\<rparr>)),
      checkCudaErrors rt Malloc_d_A (\<lambda>s. acquire Dev_A (s\<lparr>d_A := fresh rt Dev_A\<rparr>)),
      checkCudaErrors rt Malloc_d_B (\<lambda>s. acquire Dev_B (s\<lparr>d_B := fresh rt Dev_B\<rparr>)),
      checkCudaErrors rt Malloc_d_C (\<lambda>s. acquire Dev_C (s\<lparr>d_C := fresh rt Dev_C\<rparr>)),
      checkCudaErrors rt Malloc_d_C2 (\<lambda>s. acquire Dev_C2 (s\<lparr>d_C2 := fresh rt Dev_C2\<rparr>)),
      stmt (\<lambda>s. s\<lparr>rand_seed := 2006, rand_count := 0\<rparr>),
      stmt (fill_h_A fp rt),
      stmt (fill_h_B fp rt),
      checkCudaErrors rt Memcpy_A (\<lambda>s. s\<lparr>d_A := cudaMemcpy (d_A s) (h_A s) mem_size_A\<rparr>),
      checkCudaErrors rt Memcpy_B (\<lambda>s. s\<lparr>d_B := cudaMemcpy (d_B s) (h_B s) mem_size_B\<rparr>),
      checkCudaErrors rt EventCreate_start (acquire Event_start),
      checkCudaErrors rt EventCreate_stop (acquire Event_stop),
      checkCudaErrors rt CublasCreate (acquire Cublas_handle)]"

text \<open>
  The first multiplication, announced as "normal power" (the call of \<open>resetvolte\<close> before
  it is a comment), its performance line and the copy of \<open>d_C2\<close> to \<open>h_C2\<close>; then the
  announcement of the trials as "low power" (the call of \<open>undervolte\<close> after it is a
  comment) and the initialisation of the statistics. No statement of the run writes
  \<open>power_ctl\<close>.
\<close>

definition baseline :: "('f, 'd) fpu \<Rightarrow> 'f runtime \<Rightarrow> ('f, 'd) step list" where
  "baseline fp rt =
     [stmt (printf (Text ''Computing result using CUBLAS (normal power)...\<newline>'')),
      checkCudaErrors rt (EventRecord_start 0) (\<lambda>s. s),
      checkCudaErrors rt (Sgemm 0) (cublasSgemm_into_C2 fp rt 0),
      checkCudaErrors rt (EventRecord_stop 0) (\<lambda>s. s),
      checkCudaErrors rt (EventSynchronize 0) (\<lambda>s. s),
      stmt (\<lambda>s. s\<lparr>msecTotal := f_of_real fp 0\<rparr>),
      checkCudaErrors rt (EventElapsedTime 0) (\<lambda>s. s\<lparr>msecTotal := elapsed_ms rt 0\<rparr>),
      stmt (report_performance fp None),
      checkCudaErrors rt (Memcpy_result 0) (\<lambda>s. s\<lparr>h_C2 := cudaMemcpy (h_C2 s) (d_C2 s) mem_size_C\<rparr>),
      stmt (printf (Text ''Computing result using CUBLAS (low power)...\<newline>'')),
      stmt (\<lambda>s. s\<lparr>fail_count := 0, total_perf := f_of_d fp (d_of_real fp 0)\<rparr>)]"

text \<open>
  The body of the trial loop for trial \<open>j\<close>, and the loop \<open>for (int j = 0; j < nIter; j++)\<close>.
\<close>

definition trial :: "('f, 'd) fpu \<Rightarrow> 'f runtime \<Rightarrow> int \<Rightarrow> ('f, 'd) step list" where
  "trial fp rt j =
     (let call = Suc (nat j) in
      [checkCudaErrors rt (EventRecord_start call) (\<lambda>s. s),
       checkCudaErrors rt (Sgemm call) (cublasSgemm_into_C fp rt call),
       checkCudaErrors rt (EventRecord_stop call) (\<lambda>s. s),
       checkCudaErrors rt (EventSynchronize call) (\<lambda>s. s),
       stmt (\<lambda>s. s\<lparr>msecTotal := f_of_real fp 0\<rparr>),
       checkCudaErrors rt (EventElapsedTime call) (\<lambda>s. s\<lparr>msecTotal := elapsed_ms rt call\<rparr>),
       stmt (report_performance fp (Some j)),
       stmt (accumulate_perf fp),
       checkCudaErrors rt (Memcpy_result call) (\<lambda>s. s\<lparr>h_C := cudaMemcpy (h_C s) (d_C s) mem_size_C\<rparr>),
       stmt (check_result fp rt)])"

function trials :: "('f, 'd) fpu \<Rightarrow> 'f runtime \<Rightarrow> int \<Rightarrow> ('f, 'd) step" where
  "trials fp rt j s =
     (if j < nIter then
        (case run (trial fp rt j) s of
           Inl e \<Rightarrow> Inl e
         | Inr s' \<Rightarrow> trials fp rt (j + 1) s')
      else Inr s)"
  by pat_completeness auto
termination
  by (relation "measure (\<lambda>(fp, rt, j, s). nat (nIter - j))") auto

text \<open>
  The three summary lines, \<open>cublasDestroy\<close>, the four \<open>free\<close> and the four \<open>cudaFree\<close>.
  The source has no \<open>cudaEventDestroy\<close>.
\<close>

definition epilogue :: "('f, 'd) fpu \<Rightarrow> 'f runtime \<Rightarrow> ('f, 'd) step list" where
  "epilogue fp rt =
     [stmt (\<lambda>s. printf (Total_test nIter (fail_count s)) s),
      stmt (\<lambda>s. printf (Failure_rate (d_of_f fp
               (f_div fp (f_of_real fp (real_of_int (fail_count s)))
                         (f_of_real fp (real_of_int nIter))))) s),
      stmt (\<lambda>s. printf (Average_perf (d_of_f fp
               (f_div fp (total_perf s) (f_of_real fp (real_of_int nIter))))) s),
      checkCudaErrors rt CublasDestroy (release Cublas_handle),
      stmt (release Host_A),
      stmt (release Host_B),
      stmt (release Host_C),
      stmt (release Host_C2),
      checkCudaErrors rt Free_d_A (release Dev_A),
      checkCudaErrors rt Free_d_B (release Dev_B),
      checkCudaErrors rt Free_d_C (release Dev_C),
      checkCudaErrors rt Free_d_C2 (release Dev_C2)]"

text \<open>
  \<open>matrixMultiply\<close> returns 0 when no checked call failed. \<open>main\<close> prints its banner and
  returns what \<open>matrixMultiply\<close> returns; its call of \<open>resetvolte\<close> is a comment.
\<close>

definition matrixMultiply ::
  "('f, 'd) fpu \<Rightarrow> 'f runtime \<Rightarrow> ('f, 'd) state \<Rightarrow> (callsite \<times> ('f, 'd) state) + (int \<times> ('f, 'd) state)" where
  "matrixMultiply fp rt s =
     (case run (prologue fp rt @ baseline fp rt @ [trials fp rt 0] @ epilogue fp rt) s of
        Inl e \<Rightarrow> Inl e
      | Inr s' \<Rightarrow> Inr (0, s'))"

definition main ::
  "('f, 'd) fpu \<Rightarrow> 'f runtime \<Rightarrow> ('f, 'd) state \<Rightarrow> (callsite \<times> ('f, 'd) state) + (int \<times> ('f, 'd) state)" where
  "main fp rt s =
     (let matrix_result = matrixMultiply fp rt (printf (Text ''[Matrix Multiply CUBLAS] - Starting...\<newline>'') s)
      in matrix_result)"

section \<open>Notions used in the statements about the run\<close>

declare trials.simps [simp del] randomInit_loop.simps [simp del]

text \<open>
  Every checked call returns success.
\<close>

definition all_succeed :: "'f runtime \<Rightarrow> bool" where
  "all_succeed rt = (\<forall>site. cuda_status rt site = 0)"

text \<open>
  The values a run computes when nothing fails, written without the state: the
  arguments of the multiplications; the inputs \<open>randomInit\<close> produces after \<open>srand(2006)\<close>
  and their device copies; what the first multiplication leaves in \<open>d_C2\<close>; the order in
  which resources are acquired.
\<close>

definition call_args :: "('f, 'd) fpu \<Rightarrow> 'f sgemm_call" where
  "call_args fp = invoker_call (f_of_real fp 1) (f_of_real fp 0) matrix_size"

definition input_A :: "('f, 'd) fpu \<Rightarrow> 'f runtime \<Rightarrow> 'f buffer \<times> nat" where
  "input_A fp rt = randomInit fp rt 2006 (fresh rt Host_A, 0) (sint size_A)"

definition input_B :: "('f, 'd) fpu \<Rightarrow> 'f runtime \<Rightarrow> 'f buffer \<times> nat" where
  "input_B fp rt = randomInit fp rt 2006 (fresh rt Host_B, snd (input_A fp rt)) (sint size_B)"

definition device_A :: "('f, 'd) fpu \<Rightarrow> 'f runtime \<Rightarrow> 'f buffer" where
  "device_A fp rt = cudaMemcpy (fresh rt Dev_A) (fst (input_A fp rt)) mem_size_A"

definition device_B :: "('f, 'd) fpu \<Rightarrow> 'f runtime \<Rightarrow> 'f buffer" where
  "device_B fp rt = cudaMemcpy (fresh rt Dev_B) (fst (input_B fp rt)) mem_size_B"

definition first_result :: "('f, 'd) fpu \<Rightarrow> 'f runtime \<Rightarrow> 'f buffer" where
  "first_result fp rt =
     device_sgemm rt 0 (call_args fp) (device_B fp rt) (device_A fp rt) (fresh rt Dev_C2)"

definition acquisition_order :: "resource list" where
  "acquisition_order =
     [Host_A, Host_B, Host_C, Host_C2, Dev_A, Dev_B, Dev_C, Dev_C2,
      Event_start, Event_stop, Cublas_handle]"

text \<open>
  The effect of one trial in which no call fails, and the state after the first \<open>n\<close>
  trials.
\<close>

definition trial_effect ::
  "('f, 'd) fpu \<Rightarrow> 'f runtime \<Rightarrow> int \<Rightarrow> ('f, 'd) state \<Rightarrow> ('f, 'd) state" where
  "trial_effect fp rt j s =
     check_result fp rt
       ((\<lambda>s. s\<lparr>h_C := cudaMemcpy (h_C s) (d_C s) mem_size_C\<rparr>)
          (accumulate_perf fp
             (report_performance fp (Some j)
                ((cublasSgemm_into_C fp rt (Suc (nat j)) s)\<lparr>msecTotal := elapsed_ms rt (Suc (nat j))\<rparr>))))"

definition after_trials ::
  "('f, 'd) fpu \<Rightarrow> 'f runtime \<Rightarrow> ('f, 'd) state \<Rightarrow> nat \<Rightarrow> ('f, 'd) state" where
  "after_trials fp rt s n = foldl (\<lambda>s j. trial_effect fp rt (int j) s) s [0..<n]"

text \<open>
  The resources \<open>matrixMultiply\<close> has acquired and not released when it makes the checked
  call at a site, read off the order of its statements: the four \<open>malloc\<close> come first,
  each \<open>cudaMalloc\<close>, \<open>cudaEventCreate\<close> and \<open>cublasCreate\<close> adds what it acquires, every call
  from the first multiplication to \<open>cublasDestroy\<close> is made with all eleven held, and the
  four \<open>cudaFree\<close> come after \<open>cublasDestroy\<close> and the four \<open>free\<close>.
\<close>

fun held_at :: "callsite \<Rightarrow> resource list" where
  "held_at Malloc_d_A = [Host_A, Host_B, Host_C, Host_C2]"
| "held_at Malloc_d_B = [Host_A, Host_B, Host_C, Host_C2, Dev_A]"
| "held_at Malloc_d_C = [Host_A, Host_B, Host_C, Host_C2, Dev_A, Dev_B]"
| "held_at Malloc_d_C2 = [Host_A, Host_B, Host_C, Host_C2, Dev_A, Dev_B, Dev_C]"
| "held_at Memcpy_A = [Host_A, Host_B, Host_C, Host_C2, Dev_A, Dev_B, Dev_C, Dev_C2]"
| "held_at Memcpy_B = [Host_A, Host_B, Host_C, Host_C2, Dev_A, Dev_B, Dev_C, Dev_C2]"
| "held_at EventCreate_start = [Host_A, Host_B, Host_C, Host_C2, Dev_A, Dev_B, Dev_C, Dev_C2]"
| "held_at EventCreate_stop =
     [Host_A, Host_B, Host_C, Host_C2, Dev_A, Dev_B, Dev_C, Dev_C2, Event_start]"
| "held_at CublasCreate =
     [Host_A, Host_B, Host_C, Host_C2, Dev_A, Dev_B, Dev_C, Dev_C2, Event_start, Event_stop]"
| "held_at (EventRecord_start n) = acquisition_order"
| "held_at (Sgemm n) = acquisition_order"
| "held_at (EventRecord_stop n) = acquisition_order"
| "held_at (EventSynchronize n) = acquisition_order"
| "held_at (EventElapsedTime n) = acquisition_order"
| "held_at (Memcpy_result n) = acquisition_order"
| "held_at CublasDestroy = acquisition_order"
| "held_at Free_d_A = [Dev_A, Dev_B, Dev_C, Dev_C2, Event_start, Event_stop]"
| "held_at Free_d_B = [Dev_B, Dev_C, Dev_C2, Event_start, Event_stop]"
| "held_at Free_d_C = [Dev_C, Dev_C2, Event_start, Event_stop]"
| "held_at Free_d_C2 = [Dev_C2, Event_start, Event_stop]"

text \<open>
  A statement between the acquisitions and the clean-up: when it continues, the
  resources held are as before; when it aborts, the status of the failing call is not
  success and the macro is reached with all eleven resources held.
\<close>

definition keeps_held :: "'f runtime \<Rightarrow> ('f, 'd) step \<Rightarrow> bool" where
  "keeps_held rt f =
     (\<forall>s. case f s of
             Inl (site, s') \<Rightarrow>
               cuda_status rt site \<noteq> 0 \<and> held_at site = acquisition_order
               \<and> held s' = on_failure rt site (held s)
           | Inr s' \<Rightarrow> held s' = held s)"

text \<open>
  The contents of \<open>d_C\<close> and \<open>h_C\<close> after \<open>n\<close> trials; the candidate compared in trial \<open>j\<close> (the
  host copy of its result); the host copy of the first result; the verdict of trial \<open>j\<close>;
  the lines a trial prints; the number of failed trials and the accumulated throughput
  after \<open>n\<close> trials.
\<close>

primrec trial_buffers :: "('f, 'd) fpu \<Rightarrow> 'f runtime \<Rightarrow> nat \<Rightarrow> 'f buffer \<times> 'f buffer" where
  "trial_buffers fp rt 0 = (fresh rt Dev_C, fresh rt Host_C)"
| "trial_buffers fp rt (Suc j) =
     (let dc = device_sgemm rt (Suc j) (call_args fp) (device_B fp rt) (device_A fp rt)
                 (fst (trial_buffers fp rt j))
      in (dc, cudaMemcpy (snd (trial_buffers fp rt j)) dc mem_size_C))"

definition candidate :: "('f, 'd) fpu \<Rightarrow> 'f runtime \<Rightarrow> nat \<Rightarrow> 'f buffer" where
  "candidate fp rt j = snd (trial_buffers fp rt (Suc j))"

definition baseline_copy :: "('f, 'd) fpu \<Rightarrow> 'f runtime \<Rightarrow> 'f buffer" where
  "baseline_copy fp rt = cudaMemcpy (fresh rt Host_C2) (first_result fp rt) mem_size_C"

definition verdict :: "('f, 'd) fpu \<Rightarrow> 'f runtime \<Rightarrow> nat \<Rightarrow> bool" where
  "verdict fp rt j =
     sdkCompareL2fe rt (baseline_copy fp rt) (candidate fp rt j) size_C (f_of_real fp (1 / 10 ^ 10))"

definition trial_lines :: "('f, 'd) fpu \<Rightarrow> 'f runtime \<Rightarrow> nat \<Rightarrow> ('f, 'd) line list" where
  "trial_lines fp rt j =
     [Performance (Some (int j)) (gigaFlops fp (elapsed_ms rt (Suc j)))
        (d_of_f fp (elapsed_ms rt (Suc j))) (flopsPerMatrixMul fp)]
     @ (if verdict fp rt j then []
        else [PrintDiff (baseline_copy fp rt) (candidate fp rt j) (uiWC matrix_size)
                (uiHC matrix_size) 100 (f_of_real fp (1 / 10 ^ 5))])
     @ [Comparing (verdict fp rt j)]"

definition failures :: "('f, 'd) fpu \<Rightarrow> 'f runtime \<Rightarrow> nat \<Rightarrow> int" where
  "failures fp rt n = int (length (filter (\<lambda>j. \<not> verdict fp rt j) [0..<n]))"

definition perf_sum :: "('f, 'd) fpu \<Rightarrow> 'f runtime \<Rightarrow> nat \<Rightarrow> 'f" where
  "perf_sum fp rt n =
     foldl (\<lambda>t j. f_of_d fp (d_add fp (d_of_f fp t) (gigaFlops fp (elapsed_ms rt (Suc j)))))
       (f_of_d fp (d_of_real fp 0)) [0..<n]"

text \<open>
  What holds of the inputs and of the reference throughout the trial loop; the summary
  lines for given statistics; the verdicts among printed lines; the last three lines
  printed.
\<close>

definition trial_ready :: "('f, 'd) fpu \<Rightarrow> 'f runtime \<Rightarrow> ('f, 'd) state \<Rightarrow> bool" where
  "trial_ready fp rt s =
     (d_A s = device_A fp rt \<and> d_B s = device_B fp rt \<and> h_C2 s = baseline_copy fp rt)"

definition summary_lines :: "('f, 'd) fpu \<Rightarrow> int \<Rightarrow> 'f \<Rightarrow> ('f, 'd) line list" where
  "summary_lines fp failed perf =
     [Total_test nIter failed,
      Failure_rate (d_of_f fp (f_div fp (f_of_real fp (real_of_int failed))
                                        (f_of_real fp (real_of_int nIter)))),
      Average_perf (d_of_f fp (f_div fp perf (f_of_real fp (real_of_int nIter))))]"

fun verdicts_printed :: "('f, 'd) line list \<Rightarrow> bool list" where
  "verdicts_printed [] = []"
| "verdicts_printed (Comparing b # ls) = b # verdicts_printed ls"
| "verdicts_printed (l # ls) = verdicts_printed ls"

definition summary_printed :: "('f, 'd) line list \<Rightarrow> ('f, 'd) line list" where
  "summary_printed ls = drop (length ls - 3) ls"

text \<open>
  Concrete runtimes and states for the examples: a runtime whose calls all succeed,
  with a device that writes nothing, a fixed measured time, a comparator that tests the
  first element only, a generator that always returns \<open>RAND_MAX\<close> and a macro that
  releases nothing; the same runtime with one failing call, and that one with a macro
  that releases all it is handed; a runtime whose device writes 5 everywhere; a runtime
  whose device writes 1 in the first three trials and 0 otherwise, each multiplication
  taking 2000 ms; a state in which nothing is held or printed, with device 0 at its
  nominal power limit.
\<close>

definition sample_runtime :: "'f \<Rightarrow> 'f \<Rightarrow> 'f runtime" where
  "sample_runtime fill msec =
     \<lparr>cuda_status = (\<lambda>_. 0),
      device_sgemm = (\<lambda>call args L R C. C),
      elapsed_ms = (\<lambda>_. msec),
      sdkCompareL2fe = (\<lambda>reference data len epsilon. reference 0 = data 0),
      rand_value = (\<lambda>seed n. 2147483647),
      RAND_MAX = 2147483647,
      fresh = (\<lambda>r p. fill),
      on_failure = (\<lambda>site held_then. held_then)\<rparr>"

definition failing_at :: "callsite \<Rightarrow> real runtime" where
  "failing_at site = (sample_runtime 0 2)\<lparr>cuda_status := (\<lambda>x. if x = site then 1 else 0)\<rparr>"

definition releasing_at :: "callsite \<Rightarrow> real runtime" where
  "releasing_at site = (failing_at site)\<lparr>on_failure := (\<lambda>site held_then. [])\<rparr>"

definition marking_runtime :: "real runtime" where
  "marking_runtime = (sample_runtime 0 2)\<lparr>device_sgemm := (\<lambda>call args L R C p. 5)\<rparr>"

definition three_failing :: "real runtime" where
  "three_failing =
     (sample_runtime 0 2000)
       \<lparr>device_sgemm := (\<lambda>call args L R C p. if 1 \<le> call \<and> call \<le> 3 then 1 else 0)\<rparr>"

definition start_state :: "'f \<Rightarrow> ('f, 'd) state" where
  "start_state fill =
     \<lparr>h_A = (\<lambda>_. fill), h_B = (\<lambda>_. fill), h_C = (\<lambda>_. fill), h_C2 = (\<lambda>_. fill),
      d_A = (\<lambda>_. fill), d_B = (\<lambda>_. fill), d_C = (\<lambda>_. fill), d_C2 = (\<lambda>_. fill),
      held = [], power_ctl = machine0 38500, stdout = [], rand_seed = 1, rand_count = 0,
      msecTotal = fill, fail_count = 0, total_perf = fill\<rparr>"

text \<open>
  The state and the resources held when the run ends, and the call at which it was
  aborted, if any.
\<close>

definition state_at_exit ::
  "(callsite \<times> ('f, 'd) state) + (int \<times> ('f, 'd) state) \<Rightarrow> ('f, 'd) state" where
  "state_at_exit r = (case r of Inl (site, s) \<Rightarrow> s | Inr (v, s) \<Rightarrow> s)"

definition held_at_exit ::
  "(callsite \<times> ('f, 'd) state) + (int \<times> ('f, 'd) state) \<Rightarrow> resource list" where
  "held_at_exit r = (case r of Inl (site, s) \<Rightarrow> held s | Inr (v, s) \<Rightarrow> held s)"

definition abort_site ::
  "(callsite \<times> ('f, 'd) state) + (int \<times> ('f, 'd) state) \<Rightarrow> callsite option" where
  "abort_site r = (case r of Inl (site, s) \<Rightarrow> Some site | Inr (v, s) \<Rightarrow> None)"

text \<open>
  The element \<open>randomInit\<close> writes for the \<open>c\<close>-th value drawn.
\<close>

definition random_value :: "('f, 'd) fpu \<Rightarrow> 'f runtime \<Rightarrow> nat \<Rightarrow> nat \<Rightarrow> 'f" where
  "random_value fp rt seed c =
     f_div fp (f_of_real fp (real_of_int (rand_value rt seed c)))
              (f_of_real fp (real_of_int (RAND_MAX rt)))"

text \<open>
  A start of the run on a device that a completed \<open>undervolte\<close> has left in the
  Constrained state.
\<close>

definition constrained_start :: "(real, real) state" where
  "constrained_start = (start_state 0)\<lparr>power_ctl := snd (undervolte nvml_ok (machine0 38500))\<rparr>"

section \<open>The column-major multiply primitive\<close>

text \<open>
  The general matrix multiply of the dense linear-algebra library (\<open>cublasSgemm\<close>) is not
  in the repository. The rounding and the summation order of the library are not
  specified, so its arithmetic is a parameter: \<open>ga_inner\<close> is the inner product of a row
  of the left operand with a column of the right operand, each given as the list of its
  elements, and \<open>ga_axpby alpha x beta c\<close> is \<open>alpha * x + beta * c\<close>.
\<close>

record 'f gemm_arith =
  ga_inner :: "'f list \<Rightarrow> 'f list \<Rightarrow> 'f"
  ga_axpby :: "'f \<Rightarrow> 'f \<Rightarrow> 'f \<Rightarrow> 'f \<Rightarrow> 'f"

text \<open>
  Modelled from the spec: the general matrix multiply, which the spec describes as a
  column-major primitive taking operand layout flags, dimensions, leading dimensions,
  the factors \<open>alpha\<close> and \<open>beta\<close>, and pointers. In column-major storage with leading
  dimension \<open>ld\<close> the element in row \<open>r\<close> and column \<open>c\<close> is at offset \<open>r + c * ld\<close>, and a
  transposed operand is read with row and column exchanged. The primitive stores
  \<open>alpha * (\<Sum>l<k. op(L)(r,l) * op(R)(l,c)) + beta * C(r,c)\<close> at every row \<open>r < m\<close> and
  column \<open>c < n\<close> of \<open>C\<close>; a dimension that is not positive leaves nothing to store.
\<close>

definition op_elem :: "cublasOperation_t \<Rightarrow> 'f buffer \<Rightarrow> nat \<Rightarrow> nat \<Rightarrow> nat \<Rightarrow> 'f" where
  "op_elem flag M ld r c =
     (case flag of CUBLAS_OP_N \<Rightarrow> M (r + c * ld) | CUBLAS_OP_T \<Rightarrow> M (c + r * ld))"

definition cublasSgemm_spec ::
  "'f gemm_arith \<Rightarrow> 'f sgemm_call \<Rightarrow> 'f buffer \<Rightarrow> 'f buffer \<Rightarrow> 'f buffer \<Rightarrow> 'f buffer" where
  "cublasSgemm_spec ar call L R C =
     foldl (\<lambda>C' (c, r).
              C'(r + c * nat (sg_ldc call) :=
                   ga_axpby ar (sg_alpha call)
                     (ga_inner ar
                        (map (\<lambda>l. op_elem (sg_transa call) L (nat (sg_lda call)) r l)
                           [0..<nat (sg_k call)])
                        (map (\<lambda>l. op_elem (sg_transb call) R (nat (sg_ldb call)) l c)
                           [0..<nat (sg_k call)]))
                     (sg_beta call) (C' (r + c * nat (sg_ldc call)))))
       C (List.product [0..<nat (sg_n call)] [0..<nat (sg_m call)])"

text \<open>
  Two arithmetics for the examples: one that multiplies and adds from left to right and
  rounds every result with \<open>rf\<close>, and the exact one. \<open>reference_inner\<close> is the inner product
  as \<open>matrixMulCPU\<close> forms it: the elements promoted to double precision, multiplied and
  added from left to right starting from 0, and the sum narrowed.
\<close>

definition single_gemm :: "(real \<Rightarrow> real) \<Rightarrow> real gemm_arith" where
  "single_gemm rf =
     \<lparr>ga_inner = (\<lambda>xs ys. foldl (\<lambda>s (x, y). rf (s + rf (x * y))) 0 (zip xs ys)),
      ga_axpby = (\<lambda>a x b c. rf (rf (a * x) + rf (b * c)))\<rparr>"

definition exact_gemm :: "real gemm_arith" where
  "exact_gemm = single_gemm (\<lambda>x. x)"

definition reference_inner :: "('f, 'd) fpu \<Rightarrow> 'f list \<Rightarrow> 'f list \<Rightarrow> 'f" where
  "reference_inner fp xs ys =
     f_of_d fp
       (foldl (\<lambda>s (x, y). d_add fp s (d_mul fp (d_of_f fp x) (d_of_f fp y)))
          (d_of_real fp 0) (zip xs ys))"

text \<open>
  The invariants of a descriptor (\<open>width(A) = height(B)\<close>, \<open>height(C) = height(A)\<close>,
  \<open>width(C) = width(B)\<close>); the condition that no buffer has more than \<open>2^32\<close> elements;
  four descriptors for the examples, and a runtime whose device multiplies as the exact
  primitive does.
\<close>

definition valid_descriptor :: "sMatrixSize \<Rightarrow> bool" where
  "valid_descriptor ms = (uiWA ms = uiHB ms \<and> uiHC ms = uiHA ms \<and> uiWC ms = uiWB ms)"

definition sizes_fit :: "sMatrixSize \<Rightarrow> bool" where
  "sizes_fit ms =
     (unat (uiHA ms) * unat (uiWA ms) \<le> 2 ^ 32
      \<and> unat (uiHB ms) * unat (uiWB ms) \<le> 2 ^ 32
      \<and> unat (uiHC ms) * unat (uiWC ms) \<le> 2 ^ 32)"

definition descriptor_3x2_2x4 :: sMatrixSize where
  "descriptor_3x2_2x4 = \<lparr>uiWA = 2, uiHA = 3, uiWB = 4, uiHB = 2, uiWC = 4, uiHC = 3\<rparr>"

definition descriptor_wide :: sMatrixSize where
  "descriptor_wide =
     \<lparr>uiWA = 1, uiHA = 3, uiWB = 2147483647, uiHB = 1, uiWC = 2147483647, uiHC = 3\<rparr>"

definition descriptor_huge :: sMatrixSize where
  "descriptor_huge =
     \<lparr>uiWA = 1, uiHA = 1, uiWB = 2147483648, uiHB = 1, uiWC = 2147483648, uiHC = 1\<rparr>"

definition descriptor_1x3_3x1 :: sMatrixSize where
  "descriptor_1x3_3x1 = \<lparr>uiWA = 3, uiHA = 1, uiWB = 1, uiHB = 3, uiWC = 1, uiHC = 1\<rparr>"

definition gemm_runtime :: "real runtime" where
  "gemm_runtime = (sample_runtime 1 2)\<lparr>device_sgemm := (\<lambda>call. cublasSgemm_spec exact_gemm)\<rparr>"

section \<open>Auxiliary facts\<close>

subsection \<open>The loops of \<open>matrixMulCPU\<close> as folds\<close>

text \<open>
  Each loop is the fold of its body over the values of its counter; a fold of stores
  leaves at an index the value of the last store to it.
\<close>

declare matrixMulCPU_k.simps [simp del] matrixMulCPU_j.simps [simp del] matrixMulCPU_i.simps [simp del]

lemma unat_succ_below: "(k::u32) < w \<Longrightarrow> unat (k + 1) = Suc (unat k)"
proof -
  assume "k < w"
  then have "unat k < unat w" by (simp add: word_less_nat_alt)
  moreover have "unat w < 2 ^ 32" using unsigned_less [of w] by simp
  ultimately have "unat k + unat (1::u32) < 2 ^ LENGTH(32)" by simp
  then have "unat (k + 1) = unat k + unat (1::u32)"
    by (simp only: unat_add_lem [THEN iffD1])
  then show ?thesis by simp
qed

lemma upt_word_step: "(k::u32) < w \<Longrightarrow> [unat k..<unat w] = unat k # [unat (k + 1)..<unat w]"
  by (simp add: unat_succ_below [of k w] upt_conv_Cons word_less_nat_alt)

lemma upt_word_done: "\<not> (k::u32) < w \<Longrightarrow> [unat k..<unat w] = []"
  by (simp add: word_less_nat_alt)

lemma matrixMulCPU_k_foldl:
  "matrixMulCPU_k fp A B wA wB i j k s =
     foldl (\<lambda>s k. d_add fp s
              (d_mul fp (d_of_f fp (A (unat (i * wA + k)))) (d_of_f fp (B (unat (k * wB + j))))))
       s (map of_nat [unat k..<unat wA])"
proof (induction fp A B wA wB i j k s rule: matrixMulCPU_k.induct)
  case (1 fp A B wA wB i j k s)
  show ?case
  proof (cases "k < wA")
    case True
    then show ?thesis
      using "1.IH" [OF True refl refl]
      by (subst matrixMulCPU_k.simps) (simp add: upt_word_step [OF True] Let_def)
  next
    case False
    then show ?thesis
      by (subst matrixMulCPU_k.simps) (simp add: upt_word_done)
  qed
qed

lemma matrixMulCPU_k_cell:
  "f_of_d fp (matrixMulCPU_k fp A B wA wB i j 0 (d_of_real fp 0)) = product_cell fp A B wA wB i j"
  by (simp add: product_cell_def matrixMulCPU_k_foldl)

lemma matrixMulCPU_j_foldl:
  "matrixMulCPU_j fp C A B wA wB i j =
     foldl (\<lambda>C j. C(unat (i * wB + j) := product_cell fp A B wA wB i j))
       C (map of_nat [unat j..<unat wB])"
proof (induction fp C A B wA wB i j rule: matrixMulCPU_j.induct)
  case (1 fp C A B wA wB i j)
  show ?case
  proof (cases "j < wB")
    case True
    have "matrixMulCPU_j fp C A B wA wB i j =
        matrixMulCPU_j fp (C(unat (i * wB + j) := product_cell fp A B wA wB i j)) A B wA wB i (j + 1)"
      by (subst matrixMulCPU_j.simps) (simp only: True if_True Let_def matrixMulCPU_k_cell)
    also have "\<dots> = foldl (\<lambda>C j. C(unat (i * wB + j) := product_cell fp A B wA wB i j))
        (C(unat (i * wB + j) := product_cell fp A B wA wB i j)) (map of_nat [unat (j + 1)..<unat wB])"
      using "1.IH" [OF True refl] by (simp only: matrixMulCPU_k_cell)
    also have "\<dots> = foldl (\<lambda>C j. C(unat (i * wB + j) := product_cell fp A B wA wB i j))
        C (map of_nat [unat j..<unat wB])"
      by (simp add: upt_word_step [OF True] del: fun_upd_apply)
    finally show ?thesis .
  next
    case False
    then show ?thesis
      by (subst matrixMulCPU_j.simps) (simp add: upt_word_done)
  qed
qed

lemma matrixMulCPU_i_foldl:
  "matrixMulCPU_i fp C A B hA wA wB i =
     foldl (\<lambda>C i. matrixMulCPU_j fp C A B wA wB i 0) C (map of_nat [unat i..<unat hA])"
proof (induction fp C A B hA wA wB i rule: matrixMulCPU_i.induct)
  case (1 fp C A B hA wA wB i)
  show ?case
  proof (cases "i < hA")
    case True
    then show ?thesis
      using "1.IH" [OF True]
      by (subst matrixMulCPU_i.simps) (simp add: upt_word_step [OF True])
  next
    case False
    then show ?thesis
      by (subst matrixMulCPU_i.simps) (simp add: upt_word_done)
  qed
qed

lemma foldl_upd_miss:
  "p \<notin> g ` set xs \<Longrightarrow> foldl (\<lambda>C x. C(g x := v x)) C xs p = C p"
  by (induction xs arbitrary: C) auto

lemma foldl_upd_hit:
  "distinct (map g xs) \<Longrightarrow> x \<in> set xs \<Longrightarrow> foldl (\<lambda>C x. C(g x := v x)) C xs (g x) = v x"
proof (induction xs arbitrary: C)
  case Nil
  then show ?case by simp
next
  case (Cons y ys)
  show ?case
  proof (cases "x = y")
    case True
    with Cons.prems have "g x \<notin> g ` set ys" by auto
    then have "foldl (\<lambda>C x. C(g x := v x)) (C(g x := v x)) ys (g x) = (C(g x := v x)) (g x)"
      by (rule foldl_upd_miss)
    then show ?thesis using True by (simp del: fun_upd_apply) simp
  next
    case False
    with Cons show ?thesis by auto
  qed
qed

lemma distinct_word_upt: "distinct (map (\<lambda>n. (of_nat n :: u32)) [a..<unat (w::u32)])"
proof -
  have "inj_on (\<lambda>n. (of_nat n :: u32)) {a..<unat w}"
  proof (rule inj_onI)
    fix x y assume x: "x \<in> {a..<unat w}" and y: "y \<in> {a..<unat w}"
      and eq: "(of_nat x :: u32) = of_nat y"
    from x have "x \<le> unat w" by simp
    then have ux: "unat (of_nat x :: u32) = x" by (rule le_unat_uoi)
    from y have "y \<le> unat w" by simp
    then have uy: "unat (of_nat y :: u32) = y" by (rule le_unat_uoi)
    from eq have "unat (of_nat x :: u32) = unat (of_nat y :: u32)" by (rule arg_cong)
    then show "x = y" by (simp only: ux uy)
  qed
  then show ?thesis by (simp add: distinct_map)
qed

lemma word_mem_upt: "(j::u32) < w \<Longrightarrow> j \<in> set (map of_nat [0..<unat w])"
proof -
  assume "j < w"
  then have "unat j \<in> set [0..<unat w]" by (simp add: word_less_nat_alt)
  then have "of_nat (unat j) \<in> (of_nat ` set [0..<unat w] :: u32 set)" by (rule imageI)
  then show ?thesis by simp
qed

lemma matrixMulCPU_row_hit:
  assumes "j < wB"
  shows "matrixMulCPU_j fp C A B wA wB i 0 (unat (i * wB + j)) = product_cell fp A B wA wB i j"
proof -
  let ?js = "map of_nat [0..<unat wB] :: u32 list"
  have "inj (\<lambda>j. unat (i * wB + j))"
    by (rule injI) (simp add: word_unat_eq_iff [symmetric])
  then have "distinct (map (\<lambda>j. unat (i * wB + j)) ?js)"
    using distinct_word_upt [of 0 wB] by (simp add: distinct_map inj_on_def del: map_map)
  moreover have "j \<in> set ?js" using assms by (rule word_mem_upt)
  ultimately show ?thesis
    unfolding matrixMulCPU_j_foldl
    using foldl_upd_hit [of "\<lambda>j. unat (i * wB + j)" ?js j "\<lambda>j. product_cell fp A B wA wB i j" C]
    by simp
qed

lemma matrixMulCPU_row_miss:
  assumes "\<forall>j. j < wB \<longrightarrow> p \<noteq> unat (i * wB + j)"
  shows "matrixMulCPU_j fp C A B wA wB i 0 p = C p"
proof -
  have "p \<notin> (\<lambda>j. unat (i * wB + j)) ` set (map of_nat [0..<unat wB])"
  proof
    assume "p \<in> (\<lambda>j. unat (i * wB + j)) ` set (map of_nat [0..<unat wB])"
    then obtain n where n: "n < unat wB" and p: "p = unat (i * wB + of_nat n)" by auto
    have "unat (of_nat n :: u32) = n"
      using n by (intro le_unat_uoi [of n wB]) simp
    then have "(of_nat n :: u32) < wB" using n by (simp add: word_less_nat_alt)
    with assms p show False by blast
  qed
  then show ?thesis
    unfolding matrixMulCPU_j_foldl
    using foldl_upd_miss [of p "\<lambda>j. unat (i * wB + j)" "map of_nat [0..<unat wB]"
        "\<lambda>j. product_cell fp A B wA wB i j" C]
    by simp
qed


lemma word_upt_less: "(i::u32) \<in> set (map of_nat [0..<unat w]) \<Longrightarrow> i < (w::u32)"
proof -
  assume "i \<in> set (map of_nat [0..<unat w])"
  then obtain n where n: "n < unat w" and i: "i = of_nat n" by auto
  from n have "unat (of_nat n :: u32) = n" by (intro le_unat_uoi [of n w]) simp
  with n i show ?thesis by (simp add: word_less_nat_alt)
qed

lemma index_no_wrap:
  assumes fit: "unat hA * unat wB \<le> 2 ^ 32" and i: "i < hA" and j: "j < (wB::u32)"
  shows "unat (i * wB + j) = unat i * unat wB + unat j"
proof -
  from i have "Suc (unat i) \<le> unat hA" by (simp add: word_less_nat_alt)
  then have "Suc (unat i) * unat wB \<le> unat hA * unat wB" by (rule mult_le_mono1)
  moreover from j have "unat i * unat wB + unat j < Suc (unat i) * unat wB"
    by (simp add: word_less_nat_alt)
  ultimately have lt: "unat i * unat wB + unat j < 2 ^ LENGTH(32)" using fit by simp
  then have "unat i * unat wB < 2 ^ LENGTH(32)" by simp
  then have m: "unat (i * wB) = unat i * unat wB" by (simp only: unat_mult_lem [THEN iffD1])
  with lt have "unat (i * wB) + unat j < 2 ^ LENGTH(32)" by simp
  then have "unat (i * wB + j) = unat (i * wB) + unat j" by (simp only: unat_add_lem [THEN iffD1])
  with m show ?thesis by simp
qed

lemma index_inj:
  assumes fit: "unat hA * unat wB \<le> 2 ^ 32"
    and "i < hA" "j < wB" "i' < hA" "j' < (wB::u32)"
    and eq: "unat (i' * wB + j') = unat (i * wB + j)"
  shows "i' = i \<and> j' = j"
proof -
  have e: "unat i' * unat wB + unat j' = unat i * unat wB + unat j"
    using eq assms(2-5) by (simp add: index_no_wrap [OF fit])
  have j: "unat j < unat wB" and j': "unat j' < unat wB"
    using assms(3,5) by (simp_all add: word_less_nat_alt)
  have "(unat i' * unat wB + unat j') div unat wB = unat i'"
    using j' by simp
  moreover have "(unat i * unat wB + unat j) div unat wB = unat i"
    using j by simp
  ultimately have ii: "unat i' = unat i" using e by simp
  with e have "unat j' = unat j" by simp
  with ii show ?thesis by (simp add: word_unat_eq_iff)
qed

lemma rows_miss:
  "(\<forall>i'\<in>set xs. \<forall>j'. j' < wB \<longrightarrow> p \<noteq> unat (i' * wB + j')) \<Longrightarrow>
     foldl (\<lambda>C i. matrixMulCPU_j fp C A B wA wB i 0) C xs p = C p"
  by (induction xs arbitrary: C) (simp_all add: matrixMulCPU_row_miss)

lemma rows_hit:
  assumes "i \<in> set xs" and "j < wB"
    and "\<forall>i'\<in>set xs. i' \<noteq> i \<longrightarrow> (\<forall>j'. j' < wB \<longrightarrow> unat (i * wB + j) \<noteq> unat (i' * wB + j'))"
  shows "foldl (\<lambda>C i. matrixMulCPU_j fp C A B wA wB i 0) C xs (unat (i * wB + j)) =
           product_cell fp A B wA wB i j"
  using assms
proof (induction xs arbitrary: C)
  case Nil
  then show ?case by simp
next
  case (Cons y ys)
  show ?case
  proof (cases "i \<in> set ys")
    case True
    with Cons show ?thesis by simp
  next
    case False
    with Cons.prems have y: "y = i" by simp
    have "\<forall>i'\<in>set ys. \<forall>j'. j' < wB \<longrightarrow> unat (i * wB + j) \<noteq> unat (i' * wB + j')"
      using Cons.prems(3) False by auto
    then have "foldl (\<lambda>C i. matrixMulCPU_j fp C A B wA wB i 0) (matrixMulCPU_j fp C A B wA wB i 0) ys
          (unat (i * wB + j)) = matrixMulCPU_j fp C A B wA wB i 0 (unat (i * wB + j))"
      by (rule rows_miss)
    then show ?thesis
      using y matrixMulCPU_row_hit [OF Cons.prems(2)] by simp
  qed
qed

lemma matrixMulCPU_no_wrap:
  assumes fit: "unat hA * unat wB \<le> 2 ^ 32" and i: "i < hA" and j: "j < wB"
  shows "matrixMulCPU fp C A B hA wA wB (unat (i * wB + j)) = product_cell fp A B wA wB i j"
proof -
  have "\<forall>i'\<in>set (map of_nat [0..<unat hA]). i' \<noteq> i \<longrightarrow>
          (\<forall>j'. j' < wB \<longrightarrow> unat (i * wB + j) \<noteq> unat (i' * wB + j'))"
    using index_inj [OF fit i j] word_upt_less [of _ hA] by metis
  then show ?thesis
    unfolding matrixMulCPU_def matrixMulCPU_i_foldl
    using rows_hit [OF word_mem_upt [OF i] j] by simp
qed

lemma matrixMulCPU_two_rows:
  "matrixMulCPU fp C A B 2 wA wB =
     matrixMulCPU_j fp (matrixMulCPU_j fp C A B wA wB 0 0) A B wA wB 1 0"
  by (simp add: matrixMulCPU_def matrixMulCPU_i.simps [of _ _ _ _ 2])

lemma matrixMulCPU_three_rows:
  "matrixMulCPU fp C A B 3 wA wB =
     matrixMulCPU_j fp (matrixMulCPU_j fp (matrixMulCPU_j fp C A B wA wB 0 0) A B wA wB 1 0)
       A B wA wB 2 0"
  by (simp add: matrixMulCPU_def matrixMulCPU_i.simps [of _ _ _ _ 3])

subsection \<open>Runs of the driver\<close>

text \<open>
  A run in which every checked call succeeds is the composition of the effects of its
  statements; its output, statistics and buffers have closed forms. A run that aborts
  reaches the macro with what \<open>held_at\<close> gives for the failing call.
\<close>

lemma run_append:
  "run (xs @ ys) s = (case run xs s of Inl e \<Rightarrow> Inl e | Inr s' \<Rightarrow> run ys s')"
  by (induction xs arbitrary: s) (auto split: sum.splits)

lemma prologue_ok:
  assumes "all_succeed rt"
  shows "\<exists>s'. run (prologue fp rt) s = Inr s'
       \<and> held s' = held s @ acquisition_order
       \<and> stdout s' = stdout s \<and> power_ctl s' = power_ctl s
       \<and> h_A s' = fst (input_A fp rt) \<and> h_B s' = fst (input_B fp rt)
       \<and> h_C s' = fresh rt Host_C \<and> h_C2 s' = fresh rt Host_C2
       \<and> d_A s' = device_A fp rt \<and> d_B s' = device_B fp rt
       \<and> d_C s' = fresh rt Dev_C \<and> d_C2 s' = fresh rt Dev_C2"
  using assms
  by (simp add: prologue_def all_succeed_def checkCudaErrors_def stmt_def acquire_def
      fill_h_A_def fill_h_B_def split_beta input_A_def input_B_def device_A_def device_B_def
      acquisition_order_def)


lemma trial_ok:
  "all_succeed rt \<Longrightarrow> run (trial fp rt j) s = Inr (trial_effect fp rt j s)"
  by (simp add: trial_def trial_effect_def all_succeed_def checkCudaErrors_def stmt_def Let_def
      cublasSgemm_into_C_def)

lemma check_result_held [simp]: "held (check_result fp rt s) = held s"
  by (simp add: check_result_def printf_def Let_def)


lemma keeps_held_check:
  "(\<And>s. held (effect s) = held s) \<Longrightarrow> held_at site = acquisition_order \<Longrightarrow>
     keeps_held rt (checkCudaErrors rt site effect)"
  by (simp add: keeps_held_def checkCudaErrors_def)

lemma keeps_held_stmt:
  "(\<And>s. held (effect s) = held s) \<Longrightarrow> keeps_held rt (stmt effect)"
  by (simp add: keeps_held_def stmt_def)

lemma keeps_held_run:
  "(\<And>f. f \<in> set fs \<Longrightarrow> keeps_held rt f) \<Longrightarrow> keeps_held rt (run fs)"
proof (induction fs)
  case Nil
  show ?case by (simp add: keeps_held_def)
next
  case (Cons f fs)
  have f: "keeps_held rt f" and rest: "keeps_held rt (run fs)"
    using Cons by simp_all
  show ?case
    unfolding keeps_held_def
  proof
    fix s
    show "case run (f # fs) s of
            Inl (site, s') \<Rightarrow>
              cuda_status rt site \<noteq> 0 \<and> held_at site = acquisition_order
              \<and> held s' = on_failure rt site (held s)
          | Inr s' \<Rightarrow> held s' = held s"
    proof (cases "f s")
      case (Inl e)
      with f [unfolded keeps_held_def, rule_format, of s] show ?thesis
        by (simp split: prod.splits)
    next
      case (Inr s1)
      with f [unfolded keeps_held_def, rule_format, of s]
        rest [unfolded keeps_held_def, rule_format, of s1]
      show ?thesis by (simp split: sum.splits prod.splits)
    qed
  qed
qed

lemma keeps_held_InrD: "keeps_held rt f \<Longrightarrow> f s = Inr s' \<Longrightarrow> held s' = held s"
  by (auto simp: keeps_held_def split: sum.splits dest!: spec [of _ s])

lemma keeps_held_InlD:
  "keeps_held rt f \<Longrightarrow> f s = Inl (site, s') \<Longrightarrow>
     cuda_status rt site \<noteq> 0 \<and> held_at site = acquisition_order
     \<and> held s' = on_failure rt site (held s)"
  by (auto simp: keeps_held_def split: sum.splits dest!: spec [of _ s])

lemma accumulate_perf_held [simp]: "held (accumulate_perf fp s) = held s"
  by (simp add: accumulate_perf_def)

lemma report_performance_held [simp]: "held (report_performance fp l s) = held s"
  by (simp add: report_performance_def printf_def)

lemma printf_held [simp]: "held (printf l s) = held s"
  by (simp add: printf_def)

lemma cublasSgemm_into_C_held [simp]: "held (cublasSgemm_into_C fp rt c s) = held s"
  by (simp add: cublasSgemm_into_C_def)

lemma cublasSgemm_into_C2_held [simp]: "held (cublasSgemm_into_C2 fp rt c s) = held s"
  by (simp add: cublasSgemm_into_C2_def)

lemma keeps_held_trial: "keeps_held rt (run (trial fp rt j))"
  by (rule keeps_held_run)
     (auto simp: trial_def Let_def intro!: keeps_held_check keeps_held_stmt)

lemma keeps_held_baseline: "keeps_held rt (run (baseline fp rt))"
  by (rule keeps_held_run)
     (auto simp: baseline_def intro!: keeps_held_check keeps_held_stmt)

lemmas trial_held = keeps_held_InrD [OF keeps_held_trial]
lemmas trial_abort = keeps_held_InlD [OF keeps_held_trial]

lemma trials_held:
  "trials fp rt j s = Inr s' \<Longrightarrow> held s' = held s"
proof (induction fp rt j s rule: trials.induct)
  case (1 fp rt j s)
  show ?case
  proof (cases "j < nIter")
    case True
    with "1.prems" obtain s1 where s1: "run (trial fp rt j) s = Inr s1"
      and rest: "trials fp rt (j + 1) s1 = Inr s'"
      by (subst (asm) trials.simps) (auto split: sum.splits)
    from "1.IH" [OF True s1 rest] trial_held [OF s1] show ?thesis by simp
  next
    case False
    with "1.prems" show ?thesis by (subst (asm) trials.simps) simp
  qed
qed

lemma trials_abort:
  "trials fp rt j s = Inl (site, s') \<Longrightarrow>
     cuda_status rt site \<noteq> 0 \<and> held_at site = acquisition_order
     \<and> held s' = on_failure rt site (held s)"
proof (induction fp rt j s rule: trials.induct)
  case (1 fp rt j s)
  show ?case
  proof (cases "j < nIter")
    case True
    show ?thesis
    proof (cases "run (trial fp rt j) s")
      case (Inl e)
      with True "1.prems" have "run (trial fp rt j) s = Inl (site, s')"
        by (subst (asm) trials.simps) simp
      then show ?thesis by (rule trial_abort)
    next
      case (Inr s1)
      with True "1.prems" have rest: "trials fp rt (j + 1) s1 = Inl (site, s')"
        by (subst (asm) trials.simps) simp
      from "1.IH" [OF True Inr rest] trial_held [OF Inr] show ?thesis by simp
    qed
  next
    case False
    with "1.prems" show ?thesis by (subst (asm) trials.simps) simp
  qed
qed

lemma trials_ok:
  assumes ok: "all_succeed rt"
  shows "n \<le> 100 \<Longrightarrow> trials fp rt (int n) s =
           Inr (foldl (\<lambda>s j. trial_effect fp rt (int j) s) s [n..<100])"
proof (induction "100 - n" arbitrary: n s)
  case 0
  then have "n = 100" by simp
  then show ?case by (subst trials.simps) (simp add: nIter_def)
next
  case (Suc d)
  then have lt: "n < 100" by simp
  have step: "[n..<100] = n # [Suc n..<100]" using lt by (simp add: upt_conv_Cons)
  have "trials fp rt (int n) s = trials fp rt (int n + 1) (trial_effect fp rt (int n) s)"
    using lt by (subst trials.simps) (simp add: nIter_def trial_ok [OF ok])
  also have "int n + 1 = int (Suc n)" by simp
  also have "trials fp rt (int (Suc n)) (trial_effect fp rt (int n) s) =
      Inr (foldl (\<lambda>s j. trial_effect fp rt (int j) s) (trial_effect fp rt (int n) s) [Suc n..<100])"
    using Suc.hyps(2) lt by (intro Suc.hyps(1)) simp_all
  finally show ?case by (simp add: step)
qed

lemma trials_ok_all:
  "all_succeed rt \<Longrightarrow> trials fp rt 0 s = Inr (after_trials fp rt s 100)"
  using trials_ok [of rt 0 fp s] by (simp add: after_trials_def)

lemma setup_ok:
  assumes "all_succeed rt"
  shows "\<exists>s1. run (prologue fp rt @ baseline fp rt) s = Inr s1
       \<and> held s1 = held s @ acquisition_order
       \<and> stdout s1 = stdout s @
            [Text ''Computing result using CUBLAS (normal power)...\<newline>'',
             Performance None (gigaFlops fp (elapsed_ms rt 0)) (d_of_f fp (elapsed_ms rt 0))
               (flopsPerMatrixMul fp),
             Text ''Computing result using CUBLAS (low power)...\<newline>'']
       \<and> trial_ready fp rt s1
       \<and> (d_C s1, h_C s1) = trial_buffers fp rt 0
       \<and> fail_count s1 = 0 \<and> total_perf s1 = f_of_d fp (d_of_real fp 0)
       \<and> power_ctl s1 = power_ctl s"
proof -
  from prologue_ok [OF assms, of fp s] obtain s0 where
    s0: "run (prologue fp rt) s = Inr s0" "held s0 = held s @ acquisition_order"
      "stdout s0 = stdout s" "power_ctl s0 = power_ctl s"
      "h_C s0 = fresh rt Host_C" "h_C2 s0 = fresh rt Host_C2"
      "d_A s0 = device_A fp rt" "d_B s0 = device_B fp rt"
      "d_C s0 = fresh rt Dev_C" "d_C2 s0 = fresh rt Dev_C2"
    by blast
  show ?thesis
    using assms s0
    by (simp add: run_append baseline_def all_succeed_def checkCudaErrors_def stmt_def
        printf_def report_performance_def cublasSgemm_into_C2_def trial_ready_def
        baseline_copy_def first_result_def call_args_def)
qed

lemma trial_effect_fields:
  assumes "trial_ready fp rt s" and "(d_C s, h_C s) = trial_buffers fp rt j"
  shows "trial_ready fp rt (trial_effect fp rt (int j) s)"
    and "(d_C (trial_effect fp rt (int j) s), h_C (trial_effect fp rt (int j) s)) =
           trial_buffers fp rt (Suc j)"
    and "fail_count (trial_effect fp rt (int j) s) =
           fail_count s + (if verdict fp rt j then 0 else 1)"
    and "total_perf (trial_effect fp rt (int j) s) =
           f_of_d fp (d_add fp (d_of_f fp (total_perf s)) (gigaFlops fp (elapsed_ms rt (Suc j))))"
    and "stdout (trial_effect fp rt (int j) s) = stdout s @ trial_lines fp rt j"
    and "held (trial_effect fp rt (int j) s) = held s"
    and "power_ctl (trial_effect fp rt (int j) s) = power_ctl s"
  using assms
  by (simp_all add: trial_effect_def trial_ready_def check_result_def accumulate_perf_def
      report_performance_def printf_def cublasSgemm_into_C_def Let_def call_args_def
      verdict_def candidate_def trial_lines_def prod_eq_iff)

lemma after_trials_Suc:
  "after_trials fp rt s (Suc n) = trial_effect fp rt (int n) (after_trials fp rt s n)"
  by (simp add: after_trials_def)

lemma after_trials_fields:
  assumes "trial_ready fp rt s" and "(d_C s, h_C s) = trial_buffers fp rt 0"
    and "fail_count s = 0" and "total_perf s = f_of_d fp (d_of_real fp 0)"
  shows "trial_ready fp rt (after_trials fp rt s n)
       \<and> (d_C (after_trials fp rt s n), h_C (after_trials fp rt s n)) = trial_buffers fp rt n
       \<and> fail_count (after_trials fp rt s n) = failures fp rt n
       \<and> total_perf (after_trials fp rt s n) = perf_sum fp rt n
       \<and> stdout (after_trials fp rt s n) = stdout s @ concat (map (trial_lines fp rt) [0..<n])
       \<and> held (after_trials fp rt s n) = held s
       \<and> power_ctl (after_trials fp rt s n) = power_ctl s"
proof (induction n)
  case 0
  show ?case using assms by (simp add: after_trials_def failures_def perf_sum_def)
next
  case (Suc n)
  then have r: "trial_ready fp rt (after_trials fp rt s n)"
    and b: "(d_C (after_trials fp rt s n), h_C (after_trials fp rt s n)) = trial_buffers fp rt n"
    by simp_all
  show ?case
    using Suc
    by (simp only: after_trials_Suc trial_effect_fields [OF r b])
       (simp add: failures_def perf_sum_def)
qed


lemma epilogue_ok:
  assumes "all_succeed rt"
  shows "\<exists>s'. run (epilogue fp rt) s = Inr s'
       \<and> stdout s' = stdout s @ summary_lines fp (fail_count s) (total_perf s)
       \<and> held s' = remove1 Dev_C2 (remove1 Dev_C (remove1 Dev_B (remove1 Dev_A
            (remove1 Host_C2 (remove1 Host_C (remove1 Host_B (remove1 Host_A
              (remove1 Cublas_handle (held s)))))))))
       \<and> fail_count s' = fail_count s \<and> total_perf s' = total_perf s \<and> h_C2 s' = h_C2 s
       \<and> power_ctl s' = power_ctl s"
  using assms
  by (simp add: epilogue_def all_succeed_def checkCudaErrors_def stmt_def printf_def
      release_def summary_lines_def)

lemma matrixMultiply_ok:
  assumes ok: "all_succeed rt"
  shows "\<exists>s'. matrixMultiply fp rt s = Inr (0, s')
       \<and> stdout s' = stdout s @
            [Text ''Computing result using CUBLAS (normal power)...\<newline>'',
             Performance None (gigaFlops fp (elapsed_ms rt 0)) (d_of_f fp (elapsed_ms rt 0))
               (flopsPerMatrixMul fp),
             Text ''Computing result using CUBLAS (low power)...\<newline>'']
            @ concat (map (trial_lines fp rt) [0..<100])
            @ summary_lines fp (failures fp rt 100) (perf_sum fp rt 100)
       \<and> fail_count s' = failures fp rt 100
       \<and> total_perf s' = perf_sum fp rt 100
       \<and> h_C2 s' = baseline_copy fp rt
       \<and> (held s = [] \<longrightarrow> held s' = [Event_start, Event_stop])
       \<and> power_ctl s' = power_ctl s"
proof -
  from setup_ok [OF ok, of fp s] obtain s1 where
    s1: "run (prologue fp rt @ baseline fp rt) s = Inr s1"
    and h1: "held s1 = held s @ acquisition_order"
    and o1: "stdout s1 = stdout s @
            [Text ''Computing result using CUBLAS (normal power)...\<newline>'',
             Performance None (gigaFlops fp (elapsed_ms rt 0)) (d_of_f fp (elapsed_ms rt 0))
               (flopsPerMatrixMul fp),
             Text ''Computing result using CUBLAS (low power)...\<newline>'']"
    and r1: "trial_ready fp rt s1" and b1: "(d_C s1, h_C s1) = trial_buffers fp rt 0"
    and f1: "fail_count s1 = 0" and t1: "total_perf s1 = f_of_d fp (d_of_real fp 0)"
    and p1: "power_ctl s1 = power_ctl s"
    by blast
  let ?s2 = "after_trials fp rt s1 100"
  note s2 = after_trials_fields [OF r1 b1 f1 t1, of 100]
  from epilogue_ok [OF ok, of fp ?s2] obtain s3 where
    s3: "run (epilogue fp rt) ?s2 = Inr s3"
    and o3: "stdout s3 = stdout ?s2 @ summary_lines fp (fail_count ?s2) (total_perf ?s2)"
    and h3: "held s3 = remove1 Dev_C2 (remove1 Dev_C (remove1 Dev_B (remove1 Dev_A
            (remove1 Host_C2 (remove1 Host_C (remove1 Host_B (remove1 Host_A
              (remove1 Cublas_handle (held ?s2)))))))))"
    and f3: "fail_count s3 = fail_count ?s2" and t3: "total_perf s3 = total_perf ?s2"
    and c3: "h_C2 s3 = h_C2 ?s2"
    and p3: "power_ctl s3 = power_ctl ?s2"
    by blast
  have run: "matrixMultiply fp rt s = Inr (0, s3)"
    using s1 s3 trials_ok_all [OF ok, of fp s1]
    by (simp add: matrixMultiply_def run_append [of "prologue fp rt @ baseline fp rt", simplified])
  have "held s = [] \<longrightarrow> held s3 = [Event_start, Event_stop]"
    using h3 s2 h1 by (simp add: acquisition_order_def)
  with run o3 f3 t3 c3 p3 p1 s2 o1 show ?thesis
    by (simp add: trial_ready_def)
qed


lemma fill_h_A_held [simp]: "held (fill_h_A fp rt s) = held s"
  by (simp add: fill_h_A_def split_beta)

lemma fill_h_B_held [simp]: "held (fill_h_B fp rt s) = held s"
  by (simp add: fill_h_B_def split_beta)

lemma prologue_abort:
  assumes "run (prologue fp rt) s = Inl (site, s')"
  shows "cuda_status rt site \<noteq> 0 \<and> held s' = on_failure rt site (held s @ held_at site)"
  using assms
  by (simp add: prologue_def checkCudaErrors_def stmt_def acquire_def split: if_splits)
     auto

lemma baseline_abort:
  "run (baseline fp rt) s = Inl (site, s') \<Longrightarrow>
     cuda_status rt site \<noteq> 0 \<and> held_at site = acquisition_order
     \<and> held s' = on_failure rt site (held s)"
  by (rule keeps_held_InlD [OF keeps_held_baseline])

lemma epilogue_abort:
  assumes "run (epilogue fp rt) s = Inl (site, s')" and "held s = acquisition_order"
  shows "cuda_status rt site \<noteq> 0 \<and> held s' = on_failure rt site (held_at site)"
  using assms
  by (simp add: epilogue_def checkCudaErrors_def stmt_def release_def printf_def
      acquisition_order_def split: if_splits)
     auto

lemma prologue_held:
  assumes "run (prologue fp rt) s = Inr s1"
  shows "held s1 = held s @ acquisition_order"
  using assms
  by (simp add: prologue_def checkCudaErrors_def stmt_def acquire_def acquisition_order_def
      split: if_splits)
     auto

lemma baseline_held:
  "run (baseline fp rt) s = Inr s' \<Longrightarrow> held s' = held s"
  by (rule keeps_held_InrD [OF keeps_held_baseline])

lemma matrixMultiply_abort:
  assumes ab: "matrixMultiply fp rt s = Inl (site, s')" and start: "held s = []"
  shows "cuda_status rt site \<noteq> 0 \<and> held s' = on_failure rt site (held_at site)"
proof -
  from ab have ab': "run (prologue fp rt @ baseline fp rt @ [trials fp rt 0] @ epilogue fp rt) s
      = Inl (site, s')"
    by (simp add: matrixMultiply_def split: sum.splits)
  show ?thesis
  proof (cases "run (prologue fp rt) s")
    case (Inl e)
    with ab' have "run (prologue fp rt) s = Inl (site, s')" by (simp add: run_append)
    from prologue_abort [OF this] start show ?thesis by simp
  next
    case s1: (Inr s1)
    from prologue_held [OF s1] start have h1: "held s1 = acquisition_order" by simp
    show ?thesis
    proof (cases "run (baseline fp rt) s1")
      case (Inl e)
      with ab' s1 have "run (baseline fp rt) s1 = Inl (site, s')" by (simp add: run_append)
      from baseline_abort [OF this] h1 show ?thesis by simp
    next
      case s2: (Inr s2)
      from baseline_held [OF s2] h1 have h2: "held s2 = acquisition_order" by simp
      show ?thesis
      proof (cases "trials fp rt 0 s2")
        case (Inl e)
        with ab' s1 s2 have "trials fp rt 0 s2 = Inl (site, s')" by (simp add: run_append)
        from trials_abort [OF this] h2 show ?thesis by simp
      next
        case s3: (Inr s3)
        from trials_held [OF s3] h2 have h3: "held s3 = acquisition_order" by simp
        from ab' s1 s2 s3 have "run (epilogue fp rt) s3 = Inl (site, s')"
          by (simp add: run_append)
        from epilogue_abort [OF this h3] show ?thesis .
      qed
    qed
  qed
qed

lemma verdicts_printed_append:
  "verdicts_printed (xs @ ys) = verdicts_printed xs @ verdicts_printed ys"
  by (induction xs rule: verdicts_printed.induct) simp_all

lemma verdicts_printed_trial: "verdicts_printed (trial_lines fp rt j) = [verdict fp rt j]"
  by (simp add: trial_lines_def)

lemma verdicts_printed_trials:
  "verdicts_printed (concat (map (trial_lines fp rt) [0..<n])) = map (verdict fp rt) [0..<n]"
  by (induction n) (simp_all add: verdicts_printed_append verdicts_printed_trial)

lemma verdicts_printed_summary: "verdicts_printed (summary_lines fp a b) = []"
  by (simp add: summary_lines_def)

lemma all_succeed_sample: "all_succeed (sample_runtime fill msec)"
  by (simp add: all_succeed_def sample_runtime_def)

lemma randomInit_loop_closed:
  "0 \<le> i \<Longrightarrow> i \<le> size_n \<Longrightarrow>
   randomInit_loop fp rt seed (data, c) i size_n =
     ((\<lambda>p. if nat i \<le> p \<and> int p < size_n then random_value fp rt seed (c + (p - nat i)) else data p),
      c + nat (size_n - i))"
proof (induction "nat (size_n - i)" arbitrary: i data c)
  case 0
  then have "i = size_n" by simp
  have run: "randomInit_loop fp rt seed (data, c) i size_n = (data, c)"
    by (subst randomInit_loop.simps) (simp add: \<open>i = size_n\<close>)
  have "(\<lambda>p. if nat i \<le> p \<and> int p < size_n
             then random_value fp rt seed (c + (p - nat i)) else data p) = data"
  proof (rule ext)
    fix p
    have "\<not> (nat i \<le> p \<and> int p < size_n)" using \<open>i = size_n\<close> by linarith
    then show "(if nat i \<le> p \<and> int p < size_n
             then random_value fp rt seed (c + (p - nat i)) else data p) = data p"
      by (simp only: if_False)
  qed
  with run show ?case using \<open>i = size_n\<close> by simp
next
  case (Suc d)
  then have lt: "i < size_n" by simp
  have "randomInit_loop fp rt seed (data, c) i size_n =
      randomInit_loop fp rt seed (data(nat i := random_value fp rt seed c), Suc c) (i + 1) size_n"
    by (subst randomInit_loop.simps) (simp add: lt random_value_def)
  also have "\<dots> =
      ((\<lambda>p. if nat (i + 1) \<le> p \<and> int p < size_n
             then random_value fp rt seed (Suc c + (p - nat (i + 1)))
             else (data(nat i := random_value fp rt seed c)) p),
       Suc c + nat (size_n - (i + 1)))"
    using Suc.prems Suc.hyps(2) lt by (intro Suc.hyps(1)) simp_all
  also have "\<dots> =
      ((\<lambda>p. if nat i \<le> p \<and> int p < size_n then random_value fp rt seed (c + (p - nat i))
             else data p),
       c + nat (size_n - i))"
  proof -
    have "(if nat (i + 1) \<le> p \<and> int p < size_n
             then random_value fp rt seed (Suc c + (p - nat (i + 1)))
             else (data(nat i := random_value fp rt seed c)) p) =
          (if nat i \<le> p \<and> int p < size_n then random_value fp rt seed (c + (p - nat i))
             else data p)" for p
    proof -
      have n: "nat (i + 1) = Suc (nat i)" using Suc.prems by simp
      show ?thesis
      proof (cases "p = nat i")
        case True
        then show ?thesis using lt Suc.prems by (simp add: n)
      next
        case False
        then show ?thesis using Suc.prems
          by (auto simp: n Suc_diff_Suc)
      qed
    qed
    moreover have "Suc c + nat (size_n - (i + 1)) = c + nat (size_n - i)"
      using lt by simp
    ultimately show ?thesis by simp
  qed
  finally show ?case .
qed

lemma randomInit_closed:
  "0 \<le> size_n \<Longrightarrow>
   randomInit fp rt seed (data, c) size_n =
     ((\<lambda>p. if int p < size_n then random_value fp rt seed (c + p) else data p),
      c + nat size_n)"
  by (simp add: randomInit_def randomInit_loop_closed cong: if_cong)

lemma random_value_unit:
  assumes rf: "mono rf" "rf 0 = 0" "rf 1 = 1"
    and rng: "0 \<le> rand_value rt seed c" "rand_value rt seed c \<le> RAND_MAX rt" "1 \<le> RAND_MAX rt"
  shows "0 \<le> random_value (rounded_fpu rf rd) rt seed c
       \<and> random_value (rounded_fpu rf rd) rt seed c \<le> 1"
proof -
  let ?r = "rf (real_of_int (rand_value rt seed c))"
  let ?m = "rf (real_of_int (RAND_MAX rt))"
  have r0: "0 \<le> ?r" using monoD [OF rf(1), of 0 "real_of_int (rand_value rt seed c)"] rng(1) rf(2)
    by simp
  have rm: "?r \<le> ?m"
    using monoD [OF rf(1), of "real_of_int (rand_value rt seed c)" "real_of_int (RAND_MAX rt)"] rng(2)
    by simp
  have m1: "1 \<le> ?m" using monoD [OF rf(1), of 1 "real_of_int (RAND_MAX rt)"] rng(3) rf(3)
    by simp
  have "0 \<le> ?r / ?m" using r0 m1 by simp
  then have lo: "0 \<le> rf (?r / ?m)" using monoD [OF rf(1), of 0 "?r / ?m"] rf(2) by simp
  have "?r / ?m \<le> 1" using rm m1 by simp
  then have hi: "rf (?r / ?m) \<le> 1" using monoD [OF rf(1), of "?r / ?m" 1] rf(3) by simp
  from lo hi show ?thesis by (simp add: random_value_def rounded_fpu_def)
qed

subsection \<open>The transitions as sequences of calls\<close>

lemma undervolte_trace:
  "(case first_failure lib (length (nvml_calls w)) to_constrained of
      None \<Rightarrow>
        nvml_calls (snd (undervolte lib w)) = nvml_calls w @ to_constrained
        \<and> gpu0 (snd (undervolte lib w)) = applied to_constrained (gpu0 w)
        \<and> console (snd (undervolte lib w)) = console w
    | Some k \<Rightarrow>
        nvml_calls (snd (undervolte lib w)) = nvml_calls w @ take (Suc k) to_constrained
        \<and> gpu0 (snd (undervolte lib w)) = applied (take k to_constrained) (gpu0 w)
        \<and> console (snd (undervolte lib w)) = console w @
            [[Cout ''init error'',
              Printf ''Failed to get handle for device %i: %s\<newline>'' 0
                (nvmlErrorString lib (nvml_result lib (length (nvml_calls w) + k) (to_constrained ! k))),
              Printf ''Failed to set power limit of device %i: %s\<newline>'' 0
                (nvmlErrorString lib (nvml_result lib (length (nvml_calls w) + k) (to_constrained ! k))),
              Printf ''Failed to set clock of device %i: %s\<newline>'' 0
                (nvmlErrorString lib (nvml_result lib (length (nvml_calls w) + k) (to_constrained ! k))),
              Printf ''Failed to disable autoboost of device %i: %s\<newline>'' 0
                (nvmlErrorString lib (nvml_result lib (length (nvml_calls w) + k) (to_constrained ! k)))] ! k])"
  by (simp add: undervolte_def to_constrained_def nvml_issue_def print_line_def applied_def
      nvml_effect_def Let_def split: option.splits)


lemma resetvolte_trace:
  "(case first_failure lib (length (nvml_calls w)) to_normal of
      None \<Rightarrow>
        nvml_calls (snd (resetvolte lib w)) = nvml_calls w @ to_normal
        \<and> gpu0 (snd (resetvolte lib w)) = applied to_normal (gpu0 w)
        \<and> console (snd (resetvolte lib w)) = console w
    | Some k \<Rightarrow>
        nvml_calls (snd (resetvolte lib w)) = nvml_calls w @ take (Suc k) to_normal
        \<and> gpu0 (snd (resetvolte lib w)) = applied (take k to_normal) (gpu0 w)
        \<and> (\<exists>fmt. console (snd (resetvolte lib w)) = console w @
            [[Cout ''init error'',
              Printf ''Failed to get handle for device %i: %s\<newline>'' 0
                (nvmlErrorString lib (nvml_result lib (length (nvml_calls w) + k) (to_normal ! k))),
              Printf ''Failed to set power limit of device %i: %s\<newline>'' 0
                (nvmlErrorString lib (nvml_result lib (length (nvml_calls w) + k) (to_normal ! k))),
              Printf ''Failed to reset clock of device %i: %s\<newline>'' 0
                (nvmlErrorString lib (nvml_result lib (length (nvml_calls w) + k) (to_normal ! k))),
              Printf fmt 0
                (nvmlErrorString lib (nvml_result lib (length (nvml_calls w) + k) (to_normal ! k)))] ! k]))"
  by (simp add: resetvolte_def to_normal_def nvml_issue_def print_line_def applied_def
      nvml_effect_def Let_def split: option.splits)

subsection \<open>The primitive at the call of the driver\<close>

lemma sint_small: "unat (x::u32) < 2 ^ 31 \<Longrightarrow> nat (sint x) = unat x"
proof -
  assume small: "unat x < 2 ^ 31"
  from small have "int (unat x) < int (2 ^ 31)" by (simp only: of_nat_less_iff)
  then have "uint x < 2 ^ 31" by simp
  moreover have "- (2 ^ 31) \<le> uint x"
  proof -
    have "0 \<le> uint x" by simp
    moreover have "- (2 ^ 31) \<le> (0::int)" by simp
    ultimately show ?thesis by (rule order_trans [rotated])
  qed
  ultimately have "signed_take_bit (LENGTH(32) - Suc 0) (uint x) = uint x"
    by (intro signed_take_bit_int_eq_self) simp_all
  then have "sint x = uint x" by (simp only: sint_uint)
  then show ?thesis by simp
qed

lemma colmajor_index_inj:
  "inj_on (\<lambda>(c, r). r + c * m) (set (List.product [0..<n] [0..<m]))"
proof (rule inj_onI)
  fix x y assume x: "x \<in> set (List.product [0..<n] [0..<m])"
    and y: "y \<in> set (List.product [0..<n] [0..<m])"
    and eq: "(case x of (c, r) \<Rightarrow> r + c * m) = (case y of (c, r) \<Rightarrow> r + c * m)"
  obtain c r where xx: "x = (c, r)" by (cases x)
  obtain c' r' where yy: "y = (c', r')" by (cases y)
  from x y xx yy have r: "r < m" and r': "r' < m" by auto
  from eq xx yy have e: "r + c * m = r' + c' * m" by simp
  have "(r + c * m) div m = c" using r by simp
  moreover have "(r' + c' * m) div m = c'" using r' by simp
  ultimately have "c = c'" using e by simp
  with e have "r = r'" by simp
  with \<open>c = c'\<close> xx yy show "x = y" by simp
qed

lemma foldl_add_sum_list:
  "(\<And>x. x \<in> set xs \<Longrightarrow> f x = g x) \<Longrightarrow>
     foldl (\<lambda>s x. s + f x) (a::real) xs = a + sum_list (map g xs)"
  by (induction xs arbitrary: a) (simp_all add: add.assoc)

lemma gemm_invoker_cell:
  assumes dims: "unat (uiHA ms) < 2 ^ 31" "unat (uiWA ms) < 2 ^ 31" "unat (uiWB ms) < 2 ^ 31"
    and r: "r < unat (uiHA ms)" and c: "c < unat (uiWB ms)"
    and unit: "\<And>xs ys old. ga_axpby ar al (ga_inner ar xs ys) be old = ga_inner ar xs ys"
  shows "cublasSgemm_spec ar (invoker_call al be ms) B A C (r * unat (uiWB ms) + c) =
           ga_inner ar (map (\<lambda>k. B (k * unat (uiWB ms) + c)) [0..<unat (uiWA ms)])
                       (map (\<lambda>k. A (r * unat (uiWA ms) + k)) [0..<unat (uiWA ms)])"
proof -
  let ?g = "\<lambda>(c, r). r + c * unat (uiWB ms)"
  let ?v = "\<lambda>(c, r). ga_inner ar (map (\<lambda>l. B (r + l * unat (uiWB ms))) [0..<unat (uiWA ms)])
                                   (map (\<lambda>l. A (l + c * unat (uiWA ms))) [0..<unat (uiWA ms)])"
  let ?xs = "List.product [0..<unat (uiHA ms)] [0..<unat (uiWB ms)]"
  have run: "cublasSgemm_spec ar (invoker_call al be ms) B A C = foldl (\<lambda>C' x. C'(?g x := ?v x)) C ?xs"
    by (simp add: cublasSgemm_spec_def invoker_call_def op_elem_def split_def unit
        sint_small [OF dims(1)] sint_small [OF dims(2)] sint_small [OF dims(3)])
  have "distinct (map ?g ?xs)"
    using colmajor_index_inj [of "unat (uiWB ms)" "unat (uiHA ms)"]
    by (simp add: distinct_map distinct_product)
  moreover have "(r, c) \<in> set ?xs" using r c by simp
  ultimately have "foldl (\<lambda>C' x. C'(?g x := ?v x)) C ?xs (?g (r, c)) = ?v (r, c)"
    by (rule foldl_upd_hit)
  then have "cublasSgemm_spec ar (invoker_call al be ms) B A C (c + r * unat (uiWB ms)) =
      ga_inner ar (map (\<lambda>l. B (c + l * unat (uiWB ms))) [0..<unat (uiWA ms)])
                  (map (\<lambda>l. A (l + r * unat (uiWA ms))) [0..<unat (uiWA ms)])"
    by (simp add: run)
  then show ?thesis by (simp add: ac_simps)
qed

lemma reference_inner_maps:
  "reference_inner fp (map f xs) (map g xs) =
     f_of_d fp (foldl (\<lambda>s k. d_add fp s (d_mul fp (d_of_f fp (f k)) (d_of_f fp (g k))))
                  (d_of_real fp 0) xs)"
proof -
  have "zip (map f xs) (map g xs) = map (\<lambda>k. (f k, g k)) xs"
    by (induction xs) simp_all
  then show ?thesis
    by (simp add: reference_inner_def foldl_map)
qed

lemma exact_inner_maps:
  "ga_inner exact_gemm (map f xs) (map g xs) = (\<Sum>k\<leftarrow>xs. g k * f k)"
proof -
  have z: "zip (map f xs) (map g xs) = map (\<lambda>k. (f k, g k)) xs"
    by (induction xs) simp_all
  have "foldl (\<lambda>s k. s + f k * g k) (0::real) xs = 0 + (\<Sum>k\<leftarrow>xs. g k * f k)"
    by (rule foldl_add_sum_list) (simp add: mult.commute)
  then show ?thesis
    by (simp add: exact_gemm_def single_gemm_def z foldl_map)
qed

lemma exact_unit: "ga_axpby exact_gemm 1 x 0 old = x"
  by (simp add: exact_gemm_def single_gemm_def)

lemma word_of_nat_below:
  assumes "n < unat (w::u32)"
  shows "(of_nat n :: u32) < w" and "unat (of_nat n :: u32) = n"
proof -
  from assms show u: "unat (of_nat n :: u32) = n" by (intro le_unat_uoi [of n w]) simp
  with assms show "(of_nat n :: u32) < w" by (simp add: word_less_nat_alt)
qed

lemma product_cell_exact:
  assumes fitA: "unat hA * unat wA \<le> 2 ^ 32" and fitB: "unat wA * unat wB \<le> 2 ^ 32"
    and i: "i < hA" and j: "j < wB"
  shows "product_cell exact_fpu A B wA wB i j =
           (\<Sum>k\<leftarrow>[0..<unat wA]. A (unat i * unat wA + k) * B (k * unat wB + unat j))"
proof -
  have el: "A (unat (i * wA + of_nat n)) * B (unat (of_nat n * wB + j)) =
        A (unat i * unat wA + n) * B (n * unat wB + unat j)"
    if "n \<in> set [0..<unat wA]" for n
  proof -
    from that have n: "n < unat wA" by simp
    note w = word_of_nat_below [OF n]
    show ?thesis
      by (simp add: index_no_wrap [OF fitA i w(1)] index_no_wrap [OF fitB w(1) j] w(2))
  qed
  have "product_cell exact_fpu A B wA wB i j =
      foldl (\<lambda>s n. s + A (unat (i * wA + of_nat n)) * B (unat (of_nat n * wB + j))) 0 [0..<unat wA]"
    by (simp add: product_cell_def exact_fpu_def rounded_fpu_def foldl_map)
  also have "\<dots> = 0 + (\<Sum>k\<leftarrow>[0..<unat wA]. A (unat i * unat wA + k) * B (k * unat wB + unat j))"
    by (rule foldl_add_sum_list) (rule el)
  finally show ?thesis by simp
qed

lemma reference_inner_commute:
  assumes "\<forall>x y. d_mul fp x y = d_mul fp y x"
  shows "reference_inner fp xs ys = reference_inner fp ys xs"
proof -
  have "zip ys xs = map (\<lambda>(x, y). (y, x)) (zip xs ys)"
    by (induction xs ys rule: list_induct2') simp_all
  then show ?thesis
    using assms by (simp add: reference_inner_def foldl_map split_def)
qed

lemma exact_inner_reference: "ga_inner exact_gemm = reference_inner exact_fpu"
  by (intro ext)
     (simp add: exact_gemm_def single_gemm_def reference_inner_def exact_fpu_def rounded_fpu_def)

lemma exact_commute: "\<forall>x y. d_mul exact_fpu x y = d_mul exact_fpu y x"
  by (simp add: exact_fpu_def rounded_fpu_def mult.commute)

subsection \<open>The reference routine when no index wraps\<close>

text \<open>
  When none of the three buffers has more than \<open>2^32\<close> elements, the unsigned index
  expressions of \<open>matrixMulCPU\<close> have their mathematical values.
\<close>

lemma product_cell_no_wrap:
  assumes fitA: "unat hA * unat wA \<le> 2 ^ 32" and fitB: "unat wA * unat wB \<le> 2 ^ 32"
    and i: "i < hA" and j: "j < wB"
  shows "product_cell fp A B wA wB i j =
           f_of_d fp
             (foldl (\<lambda>s k. d_add fp s
                       (d_mul fp (d_of_f fp (A (unat i * unat wA + k)))
                                 (d_of_f fp (B (k * unat wB + unat j)))))
                (d_of_real fp 0) [0..<unat wA])"
proof -
  have el: "d_add fp s (d_mul fp (d_of_f fp (A (unat (i * wA + of_nat n))))
                                 (d_of_f fp (B (unat (of_nat n * wB + j))))) =
        d_add fp s (d_mul fp (d_of_f fp (A (unat i * unat wA + n)))
                             (d_of_f fp (B (n * unat wB + unat j))))"
    if "n \<in> set [0..<unat wA]" for n s
  proof -
    from that have n: "n < unat wA" by simp
    note w = word_of_nat_below [OF n]
    show ?thesis
      by (simp add: index_no_wrap [OF fitA i w(1)] index_no_wrap [OF fitB w(1) j] w(2))
  qed
  have "foldl (\<lambda>s n. d_add fp s (d_mul fp (d_of_f fp (A (unat (i * wA + of_nat n))))
                                 (d_of_f fp (B (unat (of_nat n * wB + j))))))
          (d_of_real fp 0) [0..<unat wA] =
        foldl (\<lambda>s k. d_add fp s (d_mul fp (d_of_f fp (A (unat i * unat wA + k)))
                                 (d_of_f fp (B (k * unat wB + unat j)))))
          (d_of_real fp 0) [0..<unat wA]"
    by (rule foldl_cong [OF refl refl]) (rule el)
  then show ?thesis
    by (simp add: product_cell_def foldl_map)
qed

lemma sum_list_single:
  assumes "\<And>k. k < n \<Longrightarrow> f k = (0::real)"
  shows "sum_list (map f [0..<Suc n]) = f n"
proof -
  have "map f [0..<n] = map (\<lambda>k. 0) [0..<n]"
    by (rule map_cong [OF refl]) (simp add: assms)
  then have "sum_list (map f [0..<n]) = sum_list (map (\<lambda>k. 0::real) [0..<n])"
    by (rule arg_cong)
  then show ?thesis by simp
qed

lemma sum_list_zero:
  assumes "\<And>k. k < n \<Longrightarrow> f k = (0::real)"
  shows "sum_list (map f [0..<n]) = 0"
proof -
  have "map f [0..<n] = map (\<lambda>k. 0) [0..<n]"
    by (rule map_cong [OF refl]) (simp add: assms)
  then have "sum_list (map f [0..<n]) = sum_list (map (\<lambda>k. 0::real) [0..<n])"
    by (rule arg_cong)
  then show ?thesis by simp
qed

text \<open>
  Three products in which one buffer has more than \<open>2^32\<close> elements: the output of a
  2 by 1 times 1 by \<open>2^32 - 1\<close> product, the left input of a \<open>2^31 + 1\<close> by 2 times 2 by 1
  product and the right input of a 1 by \<open>2^31 + 1\<close> times \<open>2^31 + 1\<close> by 2 product.
\<close>

lemma wrap_of_output:
  "matrixMulCPU exact_fpu (\<lambda>_. 0) (\<lambda>n. if n = 0 then 1 else 2) (\<lambda>_. 1) 2 1 4294967295 0 = 2"
proof -
  have "matrixMulCPU_j exact_fpu
          (matrixMulCPU_j exact_fpu (\<lambda>_. 0) (\<lambda>n. if n = 0 then 1 else 2) (\<lambda>_. 1) 1 4294967295 0 0)
          (\<lambda>n. if n = 0 then 1 else 2) (\<lambda>_. 1) 1 4294967295 1 0 (unat (1 * 4294967295 + 1 :: u32))
        = product_cell exact_fpu (\<lambda>n. if n = 0 then 1 else 2) (\<lambda>_. 1) 1 4294967295 1 1"
    by (rule matrixMulCPU_row_hit) simp
  then show ?thesis
    by (simp add: matrixMulCPU_two_rows product_cell_def exact_fpu_def rounded_fpu_def)
qed

lemma wrap_of_left_input:
  "matrixMulCPU exact_fpu (\<lambda>_. 0) (\<lambda>n. if n < 2 then 1 else 0) (\<lambda>_. 1) 2147483649 2 1 2147483648 = 2"
proof -
  have fit: "unat (2147483649::u32) * unat (1::u32) \<le> 2 ^ 32" by simp
  have i: "(2147483648::u32) < 2147483649" and j: "(0::u32) < 1" by simp_all
  from matrixMulCPU_no_wrap [OF fit i j, of exact_fpu "\<lambda>_. 0" "\<lambda>n. if n < 2 then 1 else 0" "\<lambda>_. 1" 2]
  show ?thesis
    by (simp add: product_cell_def exact_fpu_def rounded_fpu_def upt_conv_Cons)
qed

lemma wrap_of_right_input:
  "matrixMulCPU exact_fpu (\<lambda>_. 0) (\<lambda>n. if n = 2147483648 then 1 else 0)
     (\<lambda>n. if n = 0 then 1 else 0) 1 2147483649 2 0 = 1"
proof -
  let ?A = "\<lambda>n::nat. if n = 2147483648 then 1 else 0 :: real"
  let ?B = "\<lambda>n::nat. if n = 0 then 1 else 0 :: real"
  let ?f = "\<lambda>n. ?A (unat (0 * 2147483649 + of_nat n :: u32)) * ?B (unat (of_nat n * 2 + 0 :: u32))"
  have fit: "unat (1::u32) * unat (2::u32) \<le> 2 ^ 32" by simp
  have i: "(0::u32) < 1" and j: "(0::u32) < 2" by simp_all
  have small: "?f k = 0" if "k < 2147483648" for k
  proof -
    from that have "unat (of_nat k :: u32) = k"
      by (intro le_unat_uoi [of k "2147483648::u32"]) simp
    with that show ?thesis by simp
  qed
  have top: "?f 2147483648 = 1" by simp
  have "matrixMulCPU exact_fpu (\<lambda>_. 0) ?A ?B 1 2147483649 2 (unat (0 * 2 + 0 :: u32)) =
      product_cell exact_fpu ?A ?B 2147483649 2 0 0"
    by (rule matrixMulCPU_no_wrap [OF fit i j])
  also have "\<dots> = foldl (\<lambda>s n. s + ?f n) 0 [0..<Suc 2147483648]"
    by (simp add: product_cell_def exact_fpu_def rounded_fpu_def foldl_map)
  also have "\<dots> = 0 + sum_list (map ?f [0..<Suc 2147483648])"
    by (rule foldl_add_sum_list) (rule refl)
  also have "sum_list (map ?f [0..<Suc 2147483648]) = ?f 2147483648"
    by (rule sum_list_single) (rule small)
  finally show ?thesis by (simp only: top) simp
qed

lemma product_beyond_right_input:
  "(\<Sum>k\<leftarrow>[0..<2147483649].
      (if 0 * 2147483649 + k = 2147483648 then 1 else 0) *
      (if k * 2 + 0 = (0::nat) then 1 else 0 :: real)) = 0"
  by (rule sum_list_zero) simp

subsection \<open>The inputs of a run whose generator always returns \<open>RAND_MAX\<close>\<close>

text \<open>
  When every call of \<open>rand\<close> returns \<open>RAND_MAX\<close>, both inputs hold 1 everywhere in exact
  arithmetic, and the first cell of the product computed by \<open>matrixMulCPU\<close> is 10240.
\<close>

lemma inputs_one:
  assumes r: "\<And>seed c. rand_value rt seed c = RAND_MAX rt" and m: "RAND_MAX rt \<noteq> 0"
    and p: "p < 104857600"
  shows "fst (input_A exact_fpu rt) p = 1"
    and "fst (input_B exact_fpu rt) p = 1"
proof -
  have sz: "sint size_A = 104857600" "sint size_B = 104857600"
    by (simp_all add: size_A_def size_B_def matrix_size_def)
  have v: "random_value exact_fpu rt seed c = 1" for seed c
    using m by (simp add: random_value_def exact_fpu_def rounded_fpu_def r)
  show "fst (input_A exact_fpu rt) p = 1"
    using p by (simp add: input_A_def sz randomInit_closed v)
  show "fst (input_B exact_fpu rt) p = 1"
    using p by (simp add: input_B_def sz randomInit_closed v)
qed

lemma cpu_cell_of_ones:
  assumes r: "\<And>seed c. rand_value rt seed c = RAND_MAX rt" and m: "RAND_MAX rt \<noteq> 0"
  shows "matrixMulCPU exact_fpu (\<lambda>_. 0) (fst (input_A exact_fpu rt))
     (fst (input_B exact_fpu rt)) 10240 10240 10240 0 = 10240"
proof -
  let ?A = "fst (input_A exact_fpu rt)"
  let ?B = "fst (input_B exact_fpu rt)"
  have fit: "unat (10240::u32) * unat (10240::u32) \<le> 2 ^ 32" by simp
  have lt: "(0::u32) < 10240" by simp
  have "matrixMulCPU exact_fpu (\<lambda>_. 0) ?A ?B 10240 10240 10240 (unat (0 * 10240 + 0 :: u32)) =
      product_cell exact_fpu ?A ?B 10240 10240 0 0"
    by (rule matrixMulCPU_no_wrap [OF fit lt lt])
  also have "\<dots> = (\<Sum>k\<leftarrow>[0..<10240]. ?A k * ?B (k * 10240))"
    using product_cell_exact [OF fit fit lt lt, of ?A ?B] by simp
  also have "\<dots> = (\<Sum>k\<leftarrow>[0..<10240]. (1::real))"
  proof -
    have "?A k * ?B (k * 10240) = 1" if "k \<in> set [0..<10240]" for k
    proof -
      from that have k: "k < 10240" by simp
      then have "k * 10240 < 104857600" by simp
      with k show ?thesis by (simp add: inputs_one [OF r m])
    qed
    then have "map (\<lambda>k. ?A k * ?B (k * 10240)) [0..<10240] = map (\<lambda>k. 1) [0..<10240]"
      by (rule map_cong [OF refl])
    then show ?thesis by (rule arg_cong)
  qed
  also have "\<dots> = 10240"
    by (simp add: sum_list_triv)
  finally show ?thesis by simp
qed

lemma size_C_value: "size_C = 104857600"
  by (simp add: size_C_def matrix_size_def)

lemma copy_of_result:
  "p < 104857600 \<Longrightarrow> cudaMemcpy dst src mem_size_C p = src p"
  by (simp add: cudaMemcpy_def mem_size_C_def size_C_def matrix_size_def)

lemma all_succeed_marking: "all_succeed marking_runtime"
  by (simp add: all_succeed_def marking_runtime_def sample_runtime_def)

subsection \<open>A run in IEEE arithmetic\<close>

text \<open>
  The roundings are evaluated by unfolding; a loop whose body does not depend on the
  counter is an iterated function, and a hundredfold iteration is unfolded in two steps
  of ten.
\<close>

lemmas round_eval = binary32_def binary64_def round_to_def exponent_def bit_length.simps
  round_even_def Let_def power_int_minus

lemma foldl_const_funpow: "foldl (\<lambda>t j. F t) a [m..<n] = (F ^^ (n - m)) a"
proof (induction n)
  case 0
  show ?case by simp
next
  case (Suc n)
  show ?case
  proof (cases "m \<le> n")
    case True
    then show ?thesis using Suc by (simp add: Suc_diff_le)
  next
    case False
    then show ?thesis by simp
  qed
qed

lemma funpow_ten: "((f :: 'a \<Rightarrow> 'a) ^^ 10) x = f (f (f (f (f (f (f (f (f (f x)))))))))"
  by (simp add: eval_nat_numeral)

lemma funpow_hundred: "((f :: 'a \<Rightarrow> 'a) ^^ 100) x = ((f ^^ 10) ^^ 10) x"
proof -
  have "(100::nat) = 10 * 10" by simp
  then have "f ^^ 100 = f ^^ (10 * 10)" by (rule arg_cong)
  also have "\<dots> = (f ^^ 10) ^^ 10" by (rule funpow_mult [symmetric])
  finally show ?thesis by (rule fun_cong)
qed

lemma flops_ieee: "flopsPerMatrixMul ieee_fpu = 2147483648000"
  by (simp add: flopsPerMatrixMul_def ieee_fpu_def rounded_fpu_def matrix_size_def round_eval)

lemma gigaFlops_ieee: "gigaFlops ieee_fpu 2000 = 1125899875 / 1048576"
  by (simp add: gigaFlops_def flops_ieee) (simp add: ieee_fpu_def rounded_fpu_def round_eval)

lemma perf_sum_ieee: "perf_sum ieee_fpu three_failing 100 = 13743899 / 128"
proof -
  let ?acc = "\<lambda>t. binary32 (binary64 (t + 1125899875 / 1048576))"
  have "perf_sum ieee_fpu three_failing 100 = foldl (\<lambda>t j. ?acc t) 0 [0..<100]"
    by (simp add: perf_sum_def three_failing_def sample_runtime_def gigaFlops_ieee)
       (simp add: ieee_fpu_def rounded_fpu_def binary32_def binary64_def round_to_def)
  also have "\<dots> = (?acc ^^ 100) 0"
    by (simp only: foldl_const_funpow diff_zero)
  also have "\<dots> = 13743899 / 128"
    apply (simp only: funpow_hundred)
    apply (simp only: funpow_ten)
    apply (simp add: round_eval)
    done
  finally show ?thesis .
qed

lemma all_succeed_three_failing: "all_succeed three_failing"
  by (simp add: all_succeed_def three_failing_def sample_runtime_def)

lemma verdict_three_failing: "verdict fp three_failing j = (3 \<le> j)"
  by (auto simp: verdict_def baseline_copy_def first_result_def candidate_def Let_def
      copy_of_result three_failing_def sample_runtime_def)

lemma failures_three_failing: "failures fp three_failing 100 = 3"
proof -
  have e: "(3::nat) + 97 = 100" by simp
  have "[0..<3 + 97] = [0..<3] @ [3..<3 + 97]" by (rule upt_add_eq_append) simp
  then have split: "[0..<100] = [0..<3] @ [3..<100]" unfolding e .
  have f1: "filter (\<lambda>j. \<not> 3 \<le> j) [0..<3] = [0..<3]"
    by (rule filter_True) simp
  have f2: "filter (\<lambda>j. \<not> 3 \<le> j) [3..<100] = []"
    by (simp only: filter_empty_conv) simp
  have "filter (\<lambda>j. \<not> 3 \<le> j) [0..<100] = [0..<3]"
    by (simp only: split filter_append f1 f2 append_Nil2)
  then show ?thesis
    by (simp add: failures_def verdict_three_failing)
qed

lemma summary_printed_lines:
  "summary_printed (xs @ summary_lines fp a b) = summary_lines fp a b"
  by (simp add: summary_printed_def summary_lines_def)

section \<open>The claims\<close>

subsection \<open>Claim C1: the operand order of the accelerated multiply\<close>

text \<open>
  C1 (as amended). Let the descriptor be valid and let its dimensions be below \<open>2^31\<close>, so
  that they keep their value as the \<open>int\<close> parameters of the primitive. With row-major
  \<open>A\<close> and \<open>B\<close>, the column-major primitive called as the source calls it (no transpose
  flags, left operand \<open>B\<close> with leading dimension \<open>uiWB\<close>, right operand \<open>A\<close> with leading
  dimension \<open>uiWA\<close>, output leading dimension \<open>uiWB\<close>, and factors that leave an inner
  product as it is, as 1 and 0 do) writes at every row-major position \<open>(i, j)\<close> of \<open>C\<close> the
  inner product, as the primitive computes inner products, of column \<open>j\<close> of \<open>B\<close> with
  row \<open>i\<close> of \<open>A\<close>. When no buffer has more than \<open>2^32\<close> elements and the primitive forms
  inner products as \<open>matrixMulCPU\<close> does (products and sums in double precision, from
  left to right, narrowed once, the product being commutative), this is what
  \<open>matrixMulCPU\<close> leaves at that position. Both hold in exact arithmetic, where the value
  is the entry \<open>\<Sum>k. A[i*uiWA+k] * B[k*uiWB+j]\<close> of the product. The two multiplications of
  the driver are such calls, for the descriptor of the run and the factors \<open>1.0f\<close> and
  \<open>0.0f\<close>, on a device whose multiply is the primitive.
\<close>

theorem C1_operand_order:
  assumes valid: "valid_descriptor ms"
    and dims: "unat (uiHA ms) < 2 ^ 31" "unat (uiWA ms) < 2 ^ 31" "unat (uiWB ms) < 2 ^ 31"
    and i: "i < uiHC ms" and j: "j < uiWC ms"
    and unit: "\<And>xs ys old. ga_axpby ar al (ga_inner ar xs ys) be old = ga_inner ar xs ys"
  shows "cublasSgemm_spec ar (invoker_call al be ms) B A C (unat i * unat (uiWC ms) + unat j) =
           ga_inner ar (map (\<lambda>k. B (k * unat (uiWB ms) + unat j)) [0..<unat (uiWA ms)])
                       (map (\<lambda>k. A (unat i * unat (uiWA ms) + k)) [0..<unat (uiWA ms)])
       \<and> (sizes_fit ms \<and> ga_inner ar = reference_inner fp
            \<and> (\<forall>x y. d_mul fp x y = d_mul fp y x) \<longrightarrow>
            cublasSgemm_spec ar (invoker_call al be ms) B A C (unat i * unat (uiWC ms) + unat j) =
              matrixMulCPU fp C' A B (uiHA ms) (uiWA ms) (uiWB ms)
                (unat i * unat (uiWC ms) + unat j))
       \<and> cublasSgemm_spec exact_gemm (invoker_call 1 0 ms) Br Ar Cr
             (unat i * unat (uiWC ms) + unat j) =
           (\<Sum>k\<leftarrow>[0..<unat (uiWA ms)].
               Ar (unat i * unat (uiWA ms) + k) * Br (k * unat (uiWB ms) + unat j))
       \<and> (sizes_fit ms \<longrightarrow>
            cublasSgemm_spec exact_gemm (invoker_call 1 0 ms) Br Ar Cr
                (unat i * unat (uiWC ms) + unat j) =
              matrixMulCPU exact_fpu Cr' Ar Br (uiHA ms) (uiWA ms) (uiWB ms)
                (unat i * unat (uiWC ms) + unat j))
       \<and> (ms = matrix_size \<and> al = f_of_real fp 1 \<and> be = f_of_real fp 0
            \<and> device_sgemm rt call = cublasSgemm_spec ar \<and> d_B s = B \<and> d_A s = A \<longrightarrow>
            d_C2 (cublasSgemm_into_C2 fp rt call s) (unat i * unat (uiWC ms) + unat j) =
              ga_inner ar (map (\<lambda>k. B (k * unat (uiWB ms) + unat j)) [0..<unat (uiWA ms)])
                          (map (\<lambda>k. A (unat i * unat (uiWA ms) + k)) [0..<unat (uiWA ms)])
            \<and> d_C (cublasSgemm_into_C fp rt call s) (unat i * unat (uiWC ms) + unat j) =
              ga_inner ar (map (\<lambda>k. B (k * unat (uiWB ms) + unat j)) [0..<unat (uiWA ms)])
                          (map (\<lambda>k. A (unat i * unat (uiWA ms) + k)) [0..<unat (uiWA ms)]))"
proof -
  from valid have eqs: "uiWA ms = uiHB ms" "uiHC ms = uiHA ms" "uiWC ms = uiWB ms"
    by (simp_all add: valid_descriptor_def)
  from i j eqs have i': "i < uiHA ms" and j': "j < uiWB ms" by simp_all
  have r: "unat i < unat (uiHA ms)" and c: "unat j < unat (uiWB ms)"
    using i' j' by (simp_all add: word_less_nat_alt)
  have cell: "cublasSgemm_spec ar (invoker_call al be ms) B A C0 (unat i * unat (uiWB ms) + unat j) =
      ga_inner ar (map (\<lambda>k. B (k * unat (uiWB ms) + unat j)) [0..<unat (uiWA ms)])
                  (map (\<lambda>k. A (unat i * unat (uiWA ms) + k)) [0..<unat (uiWA ms)])" for C0
    by (rule gemm_invoker_cell [OF dims r c unit])
  have reference: "ga_inner ar' (map (\<lambda>k. B' (k * unat (uiWB ms) + unat j)) [0..<unat (uiWA ms)])
                  (map (\<lambda>k. A' (unat i * unat (uiWA ms) + k)) [0..<unat (uiWA ms)]) =
      matrixMulCPU fp' C0 A' B' (uiHA ms) (uiWA ms) (uiWB ms) (unat i * unat (uiWB ms) + unat j)"
    if fit: "sizes_fit ms" and same: "ga_inner ar' = reference_inner fp'"
      and comm: "\<forall>x y. d_mul fp' x y = d_mul fp' y x"
    for ar' :: "'x gemm_arith" and fp' :: "('x, 'y) fpu" and A' B' C0
  proof -
    from fit eqs have fitA: "unat (uiHA ms) * unat (uiWA ms) \<le> 2 ^ 32"
      and fitB: "unat (uiWA ms) * unat (uiWB ms) \<le> 2 ^ 32"
      and fitC: "unat (uiHA ms) * unat (uiWB ms) \<le> 2 ^ 32"
      by (simp_all add: sizes_fit_def)
    have idx: "unat (i * uiWB ms + j) = unat i * unat (uiWB ms) + unat j"
      by (rule index_no_wrap [OF fitC i' j'])
    let ?col = "map (\<lambda>k. B' (k * unat (uiWB ms) + unat j)) [0..<unat (uiWA ms)]"
    let ?row = "map (\<lambda>k. A' (unat i * unat (uiWA ms) + k)) [0..<unat (uiWA ms)]"
    have "ga_inner ar' ?col ?row = reference_inner fp' ?col ?row"
      by (simp only: same)
    also have "\<dots> = reference_inner fp' ?row ?col"
      by (rule reference_inner_commute [OF comm])
    also have "\<dots> = product_cell fp' A' B' (uiWA ms) (uiWB ms) i j"
      by (simp only: reference_inner_maps product_cell_no_wrap [OF fitA fitB i' j'])
    also have "\<dots> = matrixMulCPU fp' C0 A' B' (uiHA ms) (uiWA ms) (uiWB ms) (unat (i * uiWB ms + j))"
      by (rule matrixMulCPU_no_wrap [OF fitC i' j', symmetric])
    finally show ?thesis by (simp only: idx)
  qed
  have exact: "cublasSgemm_spec exact_gemm (invoker_call 1 0 ms) Br Ar Cr
        (unat i * unat (uiWB ms) + unat j) =
      (\<Sum>k\<leftarrow>[0..<unat (uiWA ms)].
          Ar (unat i * unat (uiWA ms) + k) * Br (k * unat (uiWB ms) + unat j))"
    by (simp only: gemm_invoker_cell [OF dims r c exact_unit] exact_inner_maps)
  have exact_ref: "cublasSgemm_spec exact_gemm (invoker_call 1 0 ms) Br Ar Cr
        (unat i * unat (uiWB ms) + unat j) =
      matrixMulCPU exact_fpu Cr' Ar Br (uiHA ms) (uiWA ms) (uiWB ms)
        (unat i * unat (uiWB ms) + unat j)"
    if fit: "sizes_fit ms"
    using reference [OF fit exact_inner_reference exact_commute, of Br Ar Cr']
    by (simp only: gemm_invoker_cell [OF dims r c exact_unit])
  show ?thesis
    unfolding eqs(3)
  proof (intro conjI impI)
    show "cublasSgemm_spec ar (invoker_call al be ms) B A C (unat i * unat (uiWB ms) + unat j) =
        ga_inner ar (map (\<lambda>k. B (k * unat (uiWB ms) + unat j)) [0..<unat (uiWA ms)])
                    (map (\<lambda>k. A (unat i * unat (uiWA ms) + k)) [0..<unat (uiWA ms)])"
      by (rule cell)
  next
    assume "sizes_fit ms \<and> ga_inner ar = reference_inner fp
      \<and> (\<forall>x y. d_mul fp x y = d_mul fp y x)"
    then have "sizes_fit ms" and "ga_inner ar = reference_inner fp"
      and "\<forall>x y. d_mul fp x y = d_mul fp y x"
      by simp_all
    from reference [OF this, of B A C']
    show "cublasSgemm_spec ar (invoker_call al be ms) B A C (unat i * unat (uiWB ms) + unat j) =
        matrixMulCPU fp C' A B (uiHA ms) (uiWA ms) (uiWB ms) (unat i * unat (uiWB ms) + unat j)"
      by (simp only: cell)
  next
    show "cublasSgemm_spec exact_gemm (invoker_call 1 0 ms) Br Ar Cr
          (unat i * unat (uiWB ms) + unat j) =
        (\<Sum>k\<leftarrow>[0..<unat (uiWA ms)].
            Ar (unat i * unat (uiWA ms) + k) * Br (k * unat (uiWB ms) + unat j))"
      by (rule exact)
  next
    assume "sizes_fit ms"
    then show "cublasSgemm_spec exact_gemm (invoker_call 1 0 ms) Br Ar Cr
          (unat i * unat (uiWB ms) + unat j) =
        matrixMulCPU exact_fpu Cr' Ar Br (uiHA ms) (uiWA ms) (uiWB ms)
          (unat i * unat (uiWB ms) + unat j)"
      by (rule exact_ref)
  next
    assume drv: "ms = matrix_size \<and> al = f_of_real fp 1 \<and> be = f_of_real fp 0
      \<and> device_sgemm rt call = cublasSgemm_spec ar \<and> d_B s = B \<and> d_A s = A"
    then have "d_C2 (cublasSgemm_into_C2 fp rt call s) =
        cublasSgemm_spec ar (invoker_call al be ms) B A (d_C2 s)"
      by (simp add: cublasSgemm_into_C2_def)
    then show "d_C2 (cublasSgemm_into_C2 fp rt call s) (unat i * unat (uiWB ms) + unat j) =
        ga_inner ar (map (\<lambda>k. B (k * unat (uiWB ms) + unat j)) [0..<unat (uiWA ms)])
                    (map (\<lambda>k. A (unat i * unat (uiWA ms) + k)) [0..<unat (uiWA ms)])"
      by (simp only: cell)
  next
    assume drv: "ms = matrix_size \<and> al = f_of_real fp 1 \<and> be = f_of_real fp 0
      \<and> device_sgemm rt call = cublasSgemm_spec ar \<and> d_B s = B \<and> d_A s = A"
    then have "d_C (cublasSgemm_into_C fp rt call s) =
        cublasSgemm_spec ar (invoker_call al be ms) B A (d_C s)"
      by (simp add: cublasSgemm_into_C_def)
    then show "d_C (cublasSgemm_into_C fp rt call s) (unat i * unat (uiWB ms) + unat j) =
        ga_inner ar (map (\<lambda>k. B (k * unat (uiWB ms) + unat j)) [0..<unat (uiWA ms)])
                    (map (\<lambda>k. A (unat i * unat (uiWA ms) + k)) [0..<unat (uiWA ms)])"
      by (simp only: cell)
  qed
qed

text \<open>
  Witness for C1, in exact arithmetic. Entry (1,2) of the 3 by 2 times 2 by 4 product of
  \<open>A = [[0,1],[2,3],[4,5]]\<close> and \<open>B = [[1,2,3,4],[5,6,7,8]]\<close> is \<open>2*3 + 3*7 = 27\<close>, at
  position \<open>1 * 4 + 2 = 6\<close>, from the primitive and from \<open>matrixMulCPU\<close>. And the first
  multiplication of the driver, on a device whose multiply is the primitive and whose
  input buffers hold 1 everywhere, leaves 10240 at position \<open>(1, 2)\<close> of \<open>d_C2\<close>.
\<close>

theorem C1_operand_order_witness:
  "cublasSgemm_spec exact_gemm (invoker_call 1 0 descriptor_3x2_2x4)
      (\<lambda>n. real n + 1) (\<lambda>n. real n) (\<lambda>_. 0) 6 = 27
   \<and> matrixMulCPU exact_fpu (\<lambda>_. 0) (\<lambda>n. real n) (\<lambda>n. real n + 1) 3 2 4 6 = 27
   \<and> d_C2 (cublasSgemm_into_C2 exact_fpu gemm_runtime 0 (start_state 1)) (1 * 10240 + 2) = 10240"
proof -
  have v: "valid_descriptor descriptor_3x2_2x4"
    and d: "unat (uiHA descriptor_3x2_2x4) < 2 ^ 31" "unat (uiWA descriptor_3x2_2x4) < 2 ^ 31"
      "unat (uiWB descriptor_3x2_2x4) < 2 ^ 31"
    and ij: "(1::u32) < uiHC descriptor_3x2_2x4" "(2::u32) < uiWC descriptor_3x2_2x4"
    and f: "sizes_fit descriptor_3x2_2x4"
    by (simp_all add: valid_descriptor_def descriptor_3x2_2x4_def sizes_fit_def)
  note at_small = C1_operand_order [OF v d ij exact_unit,
      of "\<lambda>n. real n + 1" "\<lambda>n. real n" "\<lambda>_. 0" exact_fpu "\<lambda>_. 0"
         "\<lambda>n. real n + 1" "\<lambda>n. real n" "\<lambda>_. 0" "\<lambda>_. 0"]
  from at_small f exact_inner_reference exact_commute
  have same: "cublasSgemm_spec exact_gemm (invoker_call 1 0 descriptor_3x2_2x4)
        (\<lambda>n. real n + 1) (\<lambda>n. real n) (\<lambda>_. 0)
        (unat (1::u32) * unat (uiWC descriptor_3x2_2x4) + unat (2::u32)) =
      matrixMulCPU exact_fpu (\<lambda>_. 0) (\<lambda>n. real n) (\<lambda>n. real n + 1)
        (uiHA descriptor_3x2_2x4) (uiWA descriptor_3x2_2x4) (uiWB descriptor_3x2_2x4)
        (unat (1::u32) * unat (uiWC descriptor_3x2_2x4) + unat (2::u32))"
    by blast
  from at_small
  have "cublasSgemm_spec exact_gemm (invoker_call 1 0 descriptor_3x2_2x4)
        (\<lambda>n. real n + 1) (\<lambda>n. real n) (\<lambda>_. 0)
        (unat (1::u32) * unat (uiWC descriptor_3x2_2x4) + unat (2::u32)) =
      (\<Sum>k\<leftarrow>[0..<unat (uiWA descriptor_3x2_2x4)].
          real (unat (1::u32) * unat (uiWA descriptor_3x2_2x4) + k) *
          (real (k * unat (uiWB descriptor_3x2_2x4) + unat (2::u32)) + 1))"
    by blast
  with same
  have small: "cublasSgemm_spec exact_gemm (invoker_call 1 0 descriptor_3x2_2x4)
      (\<lambda>n. real n + 1) (\<lambda>n. real n) (\<lambda>_. 0) 6 = 27
   \<and> matrixMulCPU exact_fpu (\<lambda>_. 0) (\<lambda>n. real n) (\<lambda>n. real n + 1) 3 2 4 6 = 27"
    by (simp add: descriptor_3x2_2x4_def upt_conv_Cons)
  have v': "valid_descriptor matrix_size"
    and d': "unat (uiHA matrix_size) < 2 ^ 31" "unat (uiWA matrix_size) < 2 ^ 31"
      "unat (uiWB matrix_size) < 2 ^ 31"
    and ij': "(1::u32) < uiHC matrix_size" "(2::u32) < uiWC matrix_size"
    by (simp_all add: valid_descriptor_def matrix_size_def)
  have unit': "ga_axpby exact_gemm (f_of_real exact_fpu 1) (ga_inner exact_gemm xs ys)
      (f_of_real exact_fpu 0) old = ga_inner exact_gemm xs ys" for xs ys old
    by (simp add: exact_gemm_def single_gemm_def exact_fpu_def rounded_fpu_def)
  have call: "device_sgemm gemm_runtime 0 = cublasSgemm_spec exact_gemm"
    and buffers: "d_B (start_state 1 :: (real, real) state) = (\<lambda>_. 1)"
      "d_A (start_state 1 :: (real, real) state) = (\<lambda>_. 1)"
    by (simp_all add: gemm_runtime_def start_state_def)
  from C1_operand_order [OF v' d' ij' unit',
      of "\<lambda>_. 1" "\<lambda>_. 1" "\<lambda>_. 1" exact_fpu "\<lambda>_. 1" "\<lambda>_. 1" "\<lambda>_. 1" "\<lambda>_. 1" "\<lambda>_. 1"
         gemm_runtime 0 "start_state 1"] call buffers
  have "d_C2 (cublasSgemm_into_C2 exact_fpu gemm_runtime 0 (start_state 1)) (1 * 10240 + 2) =
      ga_inner exact_gemm (map (\<lambda>k. 1) [0..<10240]) (map (\<lambda>k. 1) [0..<10240])"
    by (simp add: matrix_size_def)
  also have "\<dots> = (\<Sum>k\<leftarrow>[0..<10240]. 1 * (1::real))"
    by (rule exact_inner_maps)
  also have "\<dots> = 10240"
    by (simp add: sum_list_triv)
  finally have driver: "d_C2 (cublasSgemm_into_C2 exact_fpu gemm_runtime 0 (start_state 1))
      (1 * 10240 + 2) = 10240" .
  from small driver show ?thesis by simp
qed

text \<open>
  Counterexample to C1 as stated (for every valid descriptor; exactly the product; equal
  to the reference routine's result). First, the descriptor of a 1 by 1 times 1 by \<open>2^31\<close>
  product is valid, but its width \<open>uiWB = 2^31\<close> reaches the primitive as the \<open>int\<close> \<open>-2^31\<close>:
  there is no row to compute and position (0,0) keeps its old content 0, where the
  product has \<open>A[0] * B[0] = 1\<close>. Second, the descriptor of a 3 by 1 times 1 by \<open>2^31 - 1\<close>
  product is valid and its dimensions are below \<open>2^31\<close>. The primitive leaves that same
  \<open>A[0] * B[0] = 1\<close> at position (0,0); in \<open>matrixMulCPU\<close> the index of position (2,2) is
  \<open>2 * (2^31 - 1) + 2 = 2^32\<close>, which wraps to 0, so the routine leaves \<open>A[2] * B[2] = 3\<close>
  there. Third, in IEEE arithmetic, for the 1 by 3 times 3 by 1 product of
  \<open>A = [1, 2^-24, 2^-24]\<close> and \<open>B = [1, 1, 1]\<close>, whose entries are single precision numbers
  and whose product is \<open>1 + 2^-23\<close>: a primitive that adds the products in single
  precision writes 1, while \<open>matrixMulCPU\<close>, adding in double precision, leaves \<open>1 + 2^-23\<close>.
\<close>

theorem C1_reference_counterexample:
  "valid_descriptor descriptor_huge
   \<and> sg_m (invoker_call (1::real) 0 descriptor_huge) = - 2147483648
   \<and> cublasSgemm_spec exact_gemm (invoker_call 1 0 descriptor_huge) (\<lambda>_. 1) (\<lambda>n. real n + 1)
        (\<lambda>_. 0) 0 = 0
   \<and> (\<Sum>k\<leftarrow>[0..<1]. (real (0 * 1 + k) + 1) * (1::real)) = 1
   \<and> valid_descriptor descriptor_wide
   \<and> cublasSgemm_spec exact_gemm (invoker_call 1 0 descriptor_wide) (\<lambda>_. 1) (\<lambda>n. real n + 1)
        (\<lambda>_. 0) 0 = 1
   \<and> matrixMulCPU exact_fpu (\<lambda>_. 0) (\<lambda>n. real n + 1) (\<lambda>_. 1)
        (uiHA descriptor_wide) (uiWA descriptor_wide) (uiWB descriptor_wide) 0 = 3
   \<and> valid_descriptor descriptor_1x3_3x1
   \<and> binary32 (1 / 16777216) = 1 / 16777216
   \<and> cublasSgemm_spec (single_gemm binary32) (invoker_call 1 0 descriptor_1x3_3x1)
        (\<lambda>_. 1) (\<lambda>n. if n = 0 then 1 else 1 / 16777216) (\<lambda>_. 0) 0 = 1
   \<and> matrixMulCPU ieee_fpu (\<lambda>_. 0) (\<lambda>n. if n = 0 then 1 else 1 / 16777216) (\<lambda>_. 1)
        (uiHA descriptor_1x3_3x1) (uiWA descriptor_1x3_3x1) (uiWB descriptor_1x3_3x1) 0
       = 8388609 / 8388608
   \<and> (\<Sum>k\<leftarrow>[0..<3]. (if 0 * 3 + k = 0 then 1 else 1 / 16777216) * (1::real)) = 8388609 / 8388608"
proof -
  have d: "unat (uiHA descriptor_wide) < 2 ^ 31" "unat (uiWA descriptor_wide) < 2 ^ 31"
      "unat (uiWB descriptor_wide) < 2 ^ 31"
    and rc: "0 < unat (uiHA descriptor_wide)" "0 < unat (uiWB descriptor_wide)"
    by (simp_all add: descriptor_wide_def)
  from gemm_invoker_cell [OF d rc exact_unit, of "\<lambda>_. 1" "\<lambda>n. real n + 1" "\<lambda>_. 0"]
  have g: "cublasSgemm_spec exact_gemm (invoker_call 1 0 descriptor_wide) (\<lambda>_. 1) (\<lambda>n. real n + 1)
      (\<lambda>_. 0) 0 = 1"
    by (simp add: descriptor_wide_def exact_gemm_def single_gemm_def)
  have "matrixMulCPU_j exact_fpu
          (matrixMulCPU_j exact_fpu
             (matrixMulCPU_j exact_fpu (\<lambda>_. 0) (\<lambda>n. real n + 1) (\<lambda>_. 1) 1 2147483647 0 0)
             (\<lambda>n. real n + 1) (\<lambda>_. 1) 1 2147483647 1 0)
          (\<lambda>n. real n + 1) (\<lambda>_. 1) 1 2147483647 2 0 (unat (2 * 2147483647 + 2 :: u32))
        = product_cell exact_fpu (\<lambda>n. real n + 1) (\<lambda>_. 1) 1 2147483647 2 2"
    by (rule matrixMulCPU_row_hit) simp
  then have m: "matrixMulCPU exact_fpu (\<lambda>_. 0) (\<lambda>n. real n + 1) (\<lambda>_. 1) 3 1 2147483647 0 = 3"
    by (simp add: matrixMulCPU_three_rows product_cell_def exact_fpu_def rounded_fpu_def)
  have h: "sg_m (invoker_call (1::real) 0 descriptor_huge) = - 2147483648"
    by (simp add: invoker_call_def descriptor_huge_def)
  have h0: "cublasSgemm_spec exact_gemm (invoker_call 1 0 descriptor_huge) (\<lambda>_. 1)
      (\<lambda>n. real n + 1) (\<lambda>_. 0) 0 = 0"
    by (simp add: cublasSgemm_spec_def invoker_call_def descriptor_huge_def)
  have rep: "binary32 (1 / 16777216) = 1 / 16777216"
    by (simp add: round_eval)
  have single: "cublasSgemm_spec (single_gemm binary32) (invoker_call 1 0 descriptor_1x3_3x1)
        (\<lambda>_. 1) (\<lambda>n. if n = 0 then 1 else 1 / 16777216) (\<lambda>_. 0) 0 = 1"
    by (simp add: cublasSgemm_spec_def invoker_call_def descriptor_1x3_3x1_def op_elem_def
        single_gemm_def upt_conv_Cons round_eval)
  have fit: "unat (1::u32) * unat (1::u32) \<le> 2 ^ 32" and z: "(0::u32) < 1" by simp_all
  from matrixMulCPU_no_wrap [OF fit z z, of ieee_fpu "\<lambda>_. 0"
      "\<lambda>n. if n = 0 then 1 else 1 / 16777216" "\<lambda>_. 1" 3]
  have double: "matrixMulCPU ieee_fpu (\<lambda>_. 0) (\<lambda>n. if n = 0 then 1 else 1 / 16777216) (\<lambda>_. 1)
      1 3 1 0 = 8388609 / 8388608"
    by (simp add: product_cell_def ieee_fpu_def rounded_fpu_def upt_conv_Cons round_eval)
  have prod: "(\<Sum>k\<leftarrow>[0..<3]. (if 0 * 3 + k = 0 then 1 else 1 / 16777216) * (1::real))
      = 8388609 / 8388608"
    by (simp add: upt_conv_Cons)
  have one: "(\<Sum>k\<leftarrow>[0..<1]. (real (0 * 1 + k) + 1) * (1::real)) = 1"
    by simp
  from h h0 one g m rep single double prod show ?thesis
    by (simp add: descriptor_wide_def descriptor_huge_def descriptor_1x3_3x1_def
        valid_descriptor_def)
qed

subsection \<open>Claim C2: what the reference routine stores\<close>

text \<open>
  C2 (as amended). Let none of the three buffers have more than \<open>2^32\<close> elements:
  \<open>hA * wA \<le> 2^32\<close>, \<open>wA * wB \<le> 2^32\<close> and \<open>hA * wB \<le> 2^32\<close>, so that no unsigned 32-bit index
  of the routine wraps. Then for every row \<open>i < hA\<close> and column \<open>j < wB\<close> the buffer returned
  by \<open>matrixMulCPU\<close> holds at position \<open>i * wB + j\<close> the value
  \<open>(float)(\<Sum>k<wA. (double)A[i*wA+k] * (double)B[k*wB+j])\<close>, the indices being the
  mathematical ones: the products are accumulated from left to right in double precision,
  starting from 0, and the sum is narrowed once, on the store. In exact arithmetic this
  is the entry \<open>(i, j)\<close> of the row-major product of \<open>A\<close> and \<open>B\<close>.
\<close>

theorem C2_matrixMulCPU_cell:
  assumes fitA: "unat hA * unat wA \<le> 2 ^ 32" and fitB: "unat wA * unat wB \<le> 2 ^ 32"
    and fitC: "unat hA * unat wB \<le> 2 ^ 32" and i: "i < hA" and j: "j < wB"
  shows "matrixMulCPU fp C A B hA wA wB (unat i * unat wB + unat j) =
           f_of_d fp
             (foldl (\<lambda>s k. d_add fp s
                       (d_mul fp (d_of_f fp (A (unat i * unat wA + k)))
                                 (d_of_f fp (B (k * unat wB + unat j)))))
                (d_of_real fp 0) [0..<unat wA])
       \<and> matrixMulCPU exact_fpu C' A' B' hA wA wB (unat i * unat wB + unat j) =
           (\<Sum>k\<leftarrow>[0..<unat wA]. A' (unat i * unat wA + k) * B' (k * unat wB + unat j))"
proof -
  have idx: "unat (i * wB + j) = unat i * unat wB + unat j"
    by (rule index_no_wrap [OF fitC i j])
  have "matrixMulCPU fp C A B hA wA wB (unat (i * wB + j)) = product_cell fp A B wA wB i j"
    by (rule matrixMulCPU_no_wrap [OF fitC i j])
  then have general: "matrixMulCPU fp C A B hA wA wB (unat i * unat wB + unat j) =
           f_of_d fp
             (foldl (\<lambda>s k. d_add fp s
                       (d_mul fp (d_of_f fp (A (unat i * unat wA + k)))
                                 (d_of_f fp (B (k * unat wB + unat j)))))
                (d_of_real fp 0) [0..<unat wA])"
    by (simp only: idx product_cell_no_wrap [OF fitA fitB i j])
  have "matrixMulCPU exact_fpu C' A' B' hA wA wB (unat (i * wB + j)) =
      product_cell exact_fpu A' B' wA wB i j"
    by (rule matrixMulCPU_no_wrap [OF fitC i j])
  then have exact: "matrixMulCPU exact_fpu C' A' B' hA wA wB (unat i * unat wB + unat j) =
           (\<Sum>k\<leftarrow>[0..<unat wA]. A' (unat i * unat wA + k) * B' (k * unat wB + unat j))"
    by (simp only: idx product_cell_exact [OF fitA fitB i j])
  from general exact show ?thesis ..
qed

text \<open>
  Witness for C2: a 2 by 2 product in exact arithmetic; entry (1,1) of
  \<open>[[0,1],[2,3]] * [[1,2],[3,4]]\<close> is \<open>2*2 + 3*4 = 16\<close>, at position \<open>1 * 2 + 1 = 3\<close>.
\<close>

theorem C2_matrixMulCPU_cell_witness:
  "matrixMulCPU exact_fpu (\<lambda>_. 0) (\<lambda>n. real n) (\<lambda>n. real n + 1) 2 2 2 3 = 16
   \<and> (\<Sum>k\<leftarrow>[0..<2]. real (1 * 2 + k) * (real (k * 2 + 1) + 1)) = 16"
proof -
  have fit: "unat (2::u32) * unat (2::u32) \<le> 2 ^ 32" and lt: "(1::u32) < 2" by simp_all
  from C2_matrixMulCPU_cell [OF fit fit fit lt lt,
      of exact_fpu "\<lambda>_. 0" "\<lambda>n. real n" "\<lambda>n. real n + 1" "\<lambda>_. 0" "\<lambda>n. real n" "\<lambda>n. real n + 1"]
  show ?thesis
    by (simp add: exact_fpu_def rounded_fpu_def upt_conv_Cons)
qed

text \<open>
  Counterexample to C2 as stated (for every \<open>hA\<close>, \<open>wA\<close>, \<open>wB\<close>), one for each buffer.
  With \<open>hA = 2\<close>, \<open>wA = 1\<close>, \<open>wB = 2^32 - 1\<close> the index of position (1,1) is \<open>2^32\<close>, which
  wraps to 0, the index of position (0,0): with \<open>A = [1, 2]\<close> and \<open>B\<close> all ones the routine
  leaves \<open>A[1] * B[1] = 2\<close> there, where the product has \<open>A[0] * B[0] = 1\<close>.
  With \<open>hA = 2^31 + 1\<close>, \<open>wA = 2\<close>, \<open>wB = 1\<close> the output has \<open>2^31 + 1\<close> elements, but in row
  \<open>2^31\<close> the index \<open>i * wA + k\<close> of \<open>A\<close> wraps to \<open>k\<close>: with \<open>A\<close> one on its first two
  elements and zero elsewhere the routine leaves 2 at position \<open>2^31\<close>, where the product
  has \<open>A[2^32] * B[0] + A[2^32 + 1] * B[1] = 0\<close>.
  With \<open>hA = 1\<close>, \<open>wA = 2^31 + 1\<close>, \<open>wB = 2\<close> the index \<open>k * wB + j\<close> of \<open>B\<close> wraps to 0 at
  \<open>k = 2^31\<close>: with \<open>A\<close> one at \<open>2^31\<close> only and \<open>B\<close> one at 0 only the routine leaves 1 at
  position 0, where the product has 0.
\<close>

theorem C2_matrixMulCPU_wrap_counterexample:
  "matrixMulCPU exact_fpu (\<lambda>_. 0) (\<lambda>n. if n = 0 then 1 else 2) (\<lambda>_. 1) 2 1 4294967295 0 = 2
   \<and> (\<Sum>k\<leftarrow>[0..<1]. (if 0 * 1 + k = 0 then 1 else 2) * (1::real)) = 1
   \<and> matrixMulCPU exact_fpu (\<lambda>_. 0) (\<lambda>n. if n < 2 then 1 else 0) (\<lambda>_. 1)
        2147483649 2 1 2147483648 = 2
   \<and> (\<Sum>k\<leftarrow>[0..<2]. (if 2147483648 * 2 + k < (2::nat) then 1 else 0) * (1::real)) = 0
   \<and> matrixMulCPU exact_fpu (\<lambda>_. 0) (\<lambda>n. if n = 2147483648 then 1 else 0)
        (\<lambda>n. if n = 0 then 1 else 0) 1 2147483649 2 0 = 1
   \<and> (\<Sum>k\<leftarrow>[0..<2147483649].
         (if 0 * 2147483649 + k = 2147483648 then 1 else 0) *
         (if k * 2 + 0 = (0::nat) then 1 else 0 :: real)) = 0"
proof -
  have a: "(\<Sum>k\<leftarrow>[0..<1]. (if 0 * 1 + k = 0 then 1 else 2) * (1::real)) = 1"
    by simp
  have b: "(\<Sum>k\<leftarrow>[0..<2]. (if 2147483648 * 2 + k < (2::nat) then 1 else 0) * (1::real)) = 0"
    by (simp add: upt_conv_Cons)
  from wrap_of_output a wrap_of_left_input b wrap_of_right_input product_beyond_right_input
  show ?thesis by (intro conjI)
qed

subsection \<open>Claim C3: the reference of every trial is the first device result\<close>

text \<open>
  C3 (as amended). In a run in which every checked runtime call succeeds, the buffer
  \<open>h_C2\<close> holds, on all \<open>10240 * 10240\<close> elements of the result, what the first
  \<open>cublasSgemm\<close> call of the run (call number 0) wrote into \<open>d_C2\<close>, and the verdicts
  printed by the 100 trials are, in order, the results of the comparator applied to that
  buffer as reference and to the host copy of the trial's own result as candidate, over
  those \<open>10240 * 10240\<close> elements. \<open>matrixMulCPU\<close> takes no part in the run. The first
  call is announced as "normal power" and the trials as "low power", but the run makes no
  device-management call: the device is, during the first call as during every trial,
  in the power state in which the run found it. The comparator, the device and the
  statuses are arbitrary, so the equations fix the arguments the comparator receives.
\<close>

theorem C3_baseline_is_first_device_result:
  assumes "all_succeed rt"
  shows "\<exists>s' rest. matrixMultiply fp rt s = Inr (0, s')
       \<and> power_ctl s' = power_ctl s
       \<and> stdout s' = stdout s @
           Text ''Computing result using CUBLAS (normal power)...\<newline>'' #
           Performance None (gigaFlops fp (elapsed_ms rt 0)) (d_of_f fp (elapsed_ms rt 0))
             (flopsPerMatrixMul fp) #
           Text ''Computing result using CUBLAS (low power)...\<newline>'' # rest
       \<and> (\<forall>p<104857600.
             h_C2 s' p = device_sgemm rt 0 (call_args fp) (device_B fp rt) (device_A fp rt)
                           (fresh rt Dev_C2) p)
       \<and> verdicts_printed (stdout s') =
           verdicts_printed (stdout s) @
           map (\<lambda>j. sdkCompareL2fe rt (h_C2 s') (candidate fp rt j) 104857600
                        (f_of_real fp (1 / 10 ^ 10)))
             [0..<100]
       \<and> (\<forall>j<100. \<forall>p<104857600.
             candidate fp rt j p =
               device_sgemm rt (Suc j) (call_args fp) (device_B fp rt) (device_A fp rt)
                 (fst (trial_buffers fp rt j)) p)"
proof -
  let ?rest = "concat (map (trial_lines fp rt) [0..<100])
            @ summary_lines fp (failures fp rt 100) (perf_sum fp rt 100)"
  from matrixMultiply_ok [OF assms, of fp s] obtain s' where
    run: "matrixMultiply fp rt s = Inr (0, s')"
    and out: "stdout s' = stdout s @
            [Text ''Computing result using CUBLAS (normal power)...\<newline>'',
             Performance None (gigaFlops fp (elapsed_ms rt 0)) (d_of_f fp (elapsed_ms rt 0))
               (flopsPerMatrixMul fp),
             Text ''Computing result using CUBLAS (low power)...\<newline>'']
            @ concat (map (trial_lines fp rt) [0..<100])
            @ summary_lines fp (failures fp rt 100) (perf_sum fp rt 100)"
    and ref: "h_C2 s' = baseline_copy fp rt"
    and pow: "power_ctl s' = power_ctl s"
    by blast
  have out': "stdout s' = stdout s @
           Text ''Computing result using CUBLAS (normal power)...\<newline>'' #
           Performance None (gigaFlops fp (elapsed_ms rt 0)) (d_of_f fp (elapsed_ms rt 0))
             (flopsPerMatrixMul fp) #
           Text ''Computing result using CUBLAS (low power)...\<newline>'' # ?rest"
    by (simp add: out)
  have first: "\<forall>p<104857600.
      h_C2 s' p = device_sgemm rt 0 (call_args fp) (device_B fp rt) (device_A fp rt)
                    (fresh rt Dev_C2) p"
    by (simp add: ref baseline_copy_def first_result_def copy_of_result)
  have "verdicts_printed (stdout s') =
      verdicts_printed (stdout s) @ map (verdict fp rt) [0..<100]"
    by (simp add: out verdicts_printed_append verdicts_printed_trials verdicts_printed_summary)
  then have verdicts: "verdicts_printed (stdout s') =
           verdicts_printed (stdout s) @
           map (\<lambda>j. sdkCompareL2fe rt (h_C2 s') (candidate fp rt j) 104857600
                        (f_of_real fp (1 / 10 ^ 10)))
             [0..<100]"
    by (simp add: verdict_def ref size_C_value)
  have cand: "\<forall>j<100. \<forall>p<104857600.
             candidate fp rt j p =
               device_sgemm rt (Suc j) (call_args fp) (device_B fp rt) (device_A fp rt)
                 (fst (trial_buffers fp rt j)) p"
    by (simp add: candidate_def Let_def copy_of_result)
  from run pow out' first verdicts cand show ?thesis by blast
qed

text \<open>
  Witness for C3: a runtime whose calls all succeed and whose device writes 5 everywhere
  at every multiplication, on memory that holds 0 when allocated and inputs that hold 1.
  The reference starts with 5, the first device result, while the product \<open>matrixMulCPU\<close>
  computes from the same inputs starts with 10240; the device is left as the run found
  it.
\<close>

theorem C3_baseline_is_first_device_result_witness:
  "\<exists>s'. matrixMultiply exact_fpu marking_runtime (start_state 0) = Inr (0, s')
       \<and> power_ctl s' = machine0 38500
       \<and> h_C2 s' 0 = 5
       \<and> fresh marking_runtime Host_C2 0 = 0
       \<and> matrixMulCPU exact_fpu (\<lambda>_. 0) (fst (input_A exact_fpu marking_runtime))
           (fst (input_B exact_fpu marking_runtime)) 10240 10240 10240 0 = 10240
       \<and> verdicts_printed (stdout s') =
           map (\<lambda>j. sdkCompareL2fe marking_runtime (h_C2 s') (candidate exact_fpu marking_runtime j)
                        104857600 (1 / 10 ^ 10))
             [0..<100]"
proof -
  from C3_baseline_is_first_device_result [OF all_succeed_marking, of exact_fpu "start_state 0"]
  obtain s' where
    a: "matrixMultiply exact_fpu marking_runtime (start_state 0) = Inr (0, s')"
    and b: "power_ctl s' = power_ctl (start_state 0 :: (real, real) state)"
    and c: "\<forall>p<104857600.
             h_C2 s' p = device_sgemm marking_runtime 0 (call_args exact_fpu)
                           (device_B exact_fpu marking_runtime) (device_A exact_fpu marking_runtime)
                           (fresh marking_runtime Dev_C2) p"
    and d: "verdicts_printed (stdout s') =
           verdicts_printed (stdout (start_state 0 :: (real, real) state)) @
           map (\<lambda>j. sdkCompareL2fe marking_runtime (h_C2 s') (candidate exact_fpu marking_runtime j)
                        104857600 (f_of_real exact_fpu (1 / 10 ^ 10)))
             [0..<100]"
    by blast
  have b': "power_ctl s' = machine0 38500"
    using b by (simp add: start_state_def)
  have c': "h_C2 s' 0 = 5"
    using c by (simp add: marking_runtime_def)
  have e: "fresh marking_runtime Host_C2 0 = 0"
    by (simp add: marking_runtime_def sample_runtime_def)
  have f: "matrixMulCPU exact_fpu (\<lambda>_. 0) (fst (input_A exact_fpu marking_runtime))
           (fst (input_B exact_fpu marking_runtime)) 10240 10240 10240 0 = 10240"
    by (rule cpu_cell_of_ones) (simp_all add: marking_runtime_def sample_runtime_def)
  have d': "verdicts_printed (stdout s') =
           map (\<lambda>j. sdkCompareL2fe marking_runtime (h_C2 s') (candidate exact_fpu marking_runtime j)
                        104857600 (1 / 10 ^ 10))
             [0..<100]"
    using d by (simp add: start_state_def exact_fpu_def rounded_fpu_def)
  from a b' c' e f d' show ?thesis by blast
qed

text \<open>
  Counterexample to C3 as stated (the first invocation is performed under the Normal
  power regime). Let the device be in the Constrained state when the run starts, as a
  completed \<open>undervolte\<close> leaves it: power limit 30000 mW, clocks locked, auto-boost
  disabled. The run completes; the calls of \<open>undervolte\<close> are still the only
  device-management calls made, so the first multiplication, whose result 5 is the
  reference, was performed in the Constrained state.
\<close>

theorem C3_power_regime_counterexample:
  "gpu0 (power_ctl constrained_start) =
     \<lparr>power_limit = 30000, applications_clocks = Some (3510, 1885),
      auto_boost = NVML_FEATURE_DISABLED\<rparr>
   \<and> nvml_calls (power_ctl constrained_start) = to_constrained
   \<and> abort_site (matrixMultiply exact_fpu marking_runtime constrained_start) = None
   \<and> power_ctl (state_at_exit (matrixMultiply exact_fpu marking_runtime constrained_start))
       = power_ctl constrained_start
   \<and> h_C2 (state_at_exit (matrixMultiply exact_fpu marking_runtime constrained_start)) 0 = 5"
proof -
  have dev: "gpu0 (power_ctl constrained_start) =
     \<lparr>power_limit = 30000, applications_clocks = Some (3510, 1885),
      auto_boost = NVML_FEATURE_DISABLED\<rparr>"
    and calls: "nvml_calls (power_ctl constrained_start) = to_constrained"
    by (simp_all add: constrained_start_def undervolte_def nvml_issue_def nvml_ok_def
        machine0_def nvml_effect_def to_constrained_def Let_def)
  from matrixMultiply_ok [OF all_succeed_marking, of exact_fpu constrained_start]
  obtain s' where
    run: "matrixMultiply exact_fpu marking_runtime constrained_start = Inr (0, s')"
    and ref: "h_C2 s' = baseline_copy exact_fpu marking_runtime"
    and pow: "power_ctl s' = power_ctl constrained_start"
    by blast
  have "h_C2 s' 0 = 5"
    by (simp add: ref baseline_copy_def first_result_def copy_of_result marking_runtime_def)
  with run pow dev calls show ?thesis
    by (simp add: abort_site_def state_at_exit_def)
qed

subsection \<open>Claim C4: failure rate and average throughput\<close>

text \<open>
  C4 (as amended). A run whose checked calls all succeed makes 100 trials. At its end
  \<open>fail_count\<close> is the number of trials for which the comparator, applied to the host copy
  of the first device result and to the host copy of the trial's result, did not return
  true (one increment per failing trial), the verdicts printed are those results, and
  \<open>total_perf\<close> is the accumulation of every trial's \<open>gigaFlops\<close> in trial order, each
  addition carried out in double precision and stored back into the \<open>float\<close>. The last
  three lines printed are the trial count 100 with \<open>fail_count\<close>, the failure rate
  \<open>(float)fail_count / nIter\<close> and the average \<open>total_perf / nIter\<close>: both are single
  precision quotients by 100, promoted to double for printing. They are the quotients
  \<open>F / K\<close> and \<open>sum / K\<close> as single precision computes them, not the exact ones.
\<close>

theorem C4_statistics:
  assumes "all_succeed rt"
  shows "\<exists>s' before. matrixMultiply fp rt s = Inr (0, s')
       \<and> (\<forall>p<104857600.
             h_C2 s' p = device_sgemm rt 0 (call_args fp) (device_B fp rt) (device_A fp rt)
                           (fresh rt Dev_C2) p)
       \<and> verdicts_printed before =
           map (\<lambda>j. sdkCompareL2fe rt (h_C2 s') (candidate fp rt j) 104857600
                        (f_of_real fp (1 / 10 ^ 10)))
             [0..<100]
       \<and> fail_count s' =
           int (length (filter
             (\<lambda>j. \<not> sdkCompareL2fe rt (h_C2 s') (candidate fp rt j) 104857600
                          (f_of_real fp (1 / 10 ^ 10)))
             [0..<100]))
       \<and> total_perf s' =
           foldl (\<lambda>t j. f_of_d fp (d_add fp (d_of_f fp t) (gigaFlops fp (elapsed_ms rt (Suc j)))))
             (f_of_d fp (d_of_real fp 0)) [0..<100]
       \<and> stdout s' = stdout s @ before @
           [Total_test 100 (fail_count s'),
            Failure_rate (d_of_f fp (f_div fp (f_of_real fp (real_of_int (fail_count s')))
                                              (f_of_real fp 100))),
            Average_perf (d_of_f fp (f_div fp (total_perf s') (f_of_real fp 100)))]"
proof -
  let ?before = "[Text ''Computing result using CUBLAS (normal power)...\<newline>'',
             Performance None (gigaFlops fp (elapsed_ms rt 0)) (d_of_f fp (elapsed_ms rt 0))
               (flopsPerMatrixMul fp),
             Text ''Computing result using CUBLAS (low power)...\<newline>'']
            @ concat (map (trial_lines fp rt) [0..<100])"
  from matrixMultiply_ok [OF assms, of fp s] obtain s' where
    run: "matrixMultiply fp rt s = Inr (0, s')"
    and out: "stdout s' = stdout s @ ?before
                @ summary_lines fp (failures fp rt 100) (perf_sum fp rt 100)"
    and f: "fail_count s' = failures fp rt 100"
    and p: "total_perf s' = perf_sum fp rt 100"
    and ref: "h_C2 s' = baseline_copy fp rt"
    by auto
  have first: "\<forall>p<104857600.
      h_C2 s' p = device_sgemm rt 0 (call_args fp) (device_B fp rt) (device_A fp rt)
                    (fresh rt Dev_C2) p"
    by (simp add: ref baseline_copy_def first_result_def copy_of_result)
  have cmp: "verdict fp rt =
      (\<lambda>j. sdkCompareL2fe rt (h_C2 s') (candidate fp rt j) 104857600 (f_of_real fp (1 / 10 ^ 10)))"
    by (rule ext) (simp add: verdict_def ref size_C_value)
  have v: "verdicts_printed ?before =
           map (\<lambda>j. sdkCompareL2fe rt (h_C2 s') (candidate fp rt j) 104857600
                        (f_of_real fp (1 / 10 ^ 10)))
             [0..<100]"
    by (simp add: verdicts_printed_append verdicts_printed_trials cmp)
  have c: "fail_count s' =
           int (length (filter
             (\<lambda>j. \<not> sdkCompareL2fe rt (h_C2 s') (candidate fp rt j) 104857600
                          (f_of_real fp (1 / 10 ^ 10)))
             [0..<100]))"
    by (simp add: f failures_def cmp)
  have t: "total_perf s' =
           foldl (\<lambda>t j. f_of_d fp (d_add fp (d_of_f fp t) (gigaFlops fp (elapsed_ms rt (Suc j)))))
             (f_of_d fp (d_of_real fp 0)) [0..<100]"
    by (simp only: p perf_sum_def)
  have l: "stdout s' = stdout s @ ?before @
           [Total_test 100 (fail_count s'),
            Failure_rate (d_of_f fp (f_div fp (f_of_real fp (real_of_int (fail_count s')))
                                              (f_of_real fp 100))),
            Average_perf (d_of_f fp (f_div fp (total_perf s') (f_of_real fp 100)))]"
    by (simp add: out f p summary_lines_def nIter_def)
  from run first v c t l show ?thesis by blast
qed

text \<open>
  Witness for C4, in exact arithmetic: a run in which the first three trials fail and
  every trial takes 2000 ms, so that each has a throughput of
  \<open>2 * 10240^3 / 10^9 / 2 = 16777216 / 15625\<close>. The run reports \<open>3 / 100\<close> and the exact
  average.
\<close>

theorem C4_statistics_witness:
  "\<exists>s' before. matrixMultiply exact_fpu three_failing (start_state 0) = Inr (0, s')
       \<and> fail_count s' = 3
       \<and> total_perf s' = 100 * (16777216 / 15625)
       \<and> stdout s' = before @
           [Total_test 100 3, Failure_rate (3 / 100), Average_perf (16777216 / 15625)]"
proof -
  from C4_statistics [OF all_succeed_three_failing, of exact_fpu "start_state 0"]
  obtain s' before where
    a: "matrixMultiply exact_fpu three_failing (start_state 0) = Inr (0, s')"
    and b: "\<forall>p<104857600.
             h_C2 s' p = device_sgemm three_failing 0 (call_args exact_fpu)
                           (device_B exact_fpu three_failing) (device_A exact_fpu three_failing)
                           (fresh three_failing Dev_C2) p"
    and c: "fail_count s' =
           int (length (filter
             (\<lambda>j. \<not> sdkCompareL2fe three_failing (h_C2 s') (candidate exact_fpu three_failing j)
                          104857600 (f_of_real exact_fpu (1 / 10 ^ 10)))
             [0..<100]))"
    and d: "total_perf s' =
           foldl (\<lambda>t j. f_of_d exact_fpu (d_add exact_fpu (d_of_f exact_fpu t)
                    (gigaFlops exact_fpu (elapsed_ms three_failing (Suc j)))))
             (f_of_d exact_fpu (d_of_real exact_fpu 0)) [0..<100]"
    and e: "stdout s' = stdout (start_state 0 :: (real, real) state) @ before @
           [Total_test 100 (fail_count s'),
            Failure_rate (d_of_f exact_fpu (f_div exact_fpu
               (f_of_real exact_fpu (real_of_int (fail_count s'))) (f_of_real exact_fpu 100))),
            Average_perf (d_of_f exact_fpu (f_div exact_fpu (total_perf s') (f_of_real exact_fpu 100)))]"
    by blast
  have ref: "h_C2 s' 0 = 0"
    using b by (simp add: three_failing_def)
  have cmp: "sdkCompareL2fe three_failing (h_C2 s') (candidate exact_fpu three_failing j) n eps
      = (3 \<le> j)" for j n eps
    by (auto simp: ref candidate_def Let_def copy_of_result three_failing_def sample_runtime_def)
  have c': "fail_count s' = 3"
    using failures_three_failing [of exact_fpu]
    by (simp add: c cmp failures_def verdict_three_failing)
  have g: "gigaFlops exact_fpu 2000 = 16777216 / 15625"
    by (simp add: gigaFlops_def flopsPerMatrixMul_def matrix_size_def exact_fpu_def rounded_fpu_def)
  have "total_perf s' = foldl (\<lambda>t j. t + 16777216 / 15625) 0 [0..<100]"
    by (simp add: d three_failing_def sample_runtime_def g) (simp add: exact_fpu_def rounded_fpu_def)
  also have "\<dots> = 100 * (16777216 / 15625)"
    by (simp add: foldl_const_funpow funpow_hundred funpow_ten)
  finally have d': "total_perf s' = 100 * (16777216 / 15625)" .
  have e': "stdout s' = before @
           [Total_test 100 3, Failure_rate (3 / 100), Average_perf (16777216 / 15625)]"
    using e by (simp add: c' d' start_state_def exact_fpu_def rounded_fpu_def)
  from a c' d' e' show ?thesis by blast
qed

text \<open>
  Counterexample to C4 as stated (the two values are exactly \<open>F / K\<close> and \<open>sum / K\<close>): the
  same run in IEEE arithmetic, \<open>float\<close> rounding to 24 and \<open>double\<close> to 53 significant bits.
  Three trials fail and the run reports the failure rate \<open>16106127 / 2^29\<close>, which is
  0.0299999993: it is not \<open>3 / 100\<close>, and not the double nearest to \<open>3 / 100\<close> either.
  Every trial has the throughput \<open>1125899875 / 2^20\<close>, about 1073.74179, so the sum of
  the hundred throughputs divided by 100 is that value; the run reports the average
  \<open>8796095 / 2^13\<close>, about 1073.74207.
\<close>

theorem C4_rounding_counterexample:
  "abort_site (matrixMultiply ieee_fpu three_failing (start_state 0)) = None
   \<and> fail_count (state_at_exit (matrixMultiply ieee_fpu three_failing (start_state 0))) = 3
   \<and> map (\<lambda>j. gigaFlops ieee_fpu (elapsed_ms three_failing (Suc j))) [0..<100]
       = replicate 100 (1125899875 / 1048576)
   \<and> summary_printed (stdout (state_at_exit (matrixMultiply ieee_fpu three_failing (start_state 0))))
       = [Total_test 100 3, Failure_rate (16106127 / 536870912), Average_perf (8796095 / 8192)]
   \<and> (16106127 / 536870912 :: real) \<noteq> 3 / 100
   \<and> (16106127 / 536870912 :: real) \<noteq> binary64 (3 / 100)
   \<and> (8796095 / 8192 :: real) \<noteq> sum_list (replicate 100 (1125899875 / 1048576)) / 100"
proof -
  from matrixMultiply_ok [OF all_succeed_three_failing, of ieee_fpu "start_state 0"]
  obtain s' where
    run: "matrixMultiply ieee_fpu three_failing (start_state 0) = Inr (0, s')"
    and out: "stdout s' = stdout (start_state 0 :: (real, real) state) @
            [Text ''Computing result using CUBLAS (normal power)...\<newline>'',
             Performance None (gigaFlops ieee_fpu (elapsed_ms three_failing 0))
               (d_of_f ieee_fpu (elapsed_ms three_failing 0)) (flopsPerMatrixMul ieee_fpu),
             Text ''Computing result using CUBLAS (low power)...\<newline>'']
            @ concat (map (trial_lines ieee_fpu three_failing) [0..<100])
            @ summary_lines ieee_fpu (failures ieee_fpu three_failing 100)
                (perf_sum ieee_fpu three_failing 100)"
    and f: "fail_count s' = failures ieee_fpu three_failing 100"
    by blast
  have lines: "summary_lines ieee_fpu 3 (13743899 / 128) =
      [Total_test 100 3, Failure_rate (16106127 / 536870912), Average_perf (8796095 / 8192)]"
    by (simp add: summary_lines_def nIter_def ieee_fpu_def rounded_fpu_def round_eval)
  have s: "summary_printed (stdout s') =
      [Total_test 100 3, Failure_rate (16106127 / 536870912), Average_perf (8796095 / 8192)]"
    unfolding out failures_three_failing perf_sum_ieee append_assoc [symmetric]
    by (simp only: summary_printed_lines) (rule lines)
  have g: "map (\<lambda>j. gigaFlops ieee_fpu (elapsed_ms three_failing (Suc j))) [0..<100]
       = replicate 100 (1125899875 / 1048576)"
    by (simp add: three_failing_def sample_runtime_def gigaFlops_ieee map_replicate_const)
  have n: "(16106127 / 536870912 :: real) \<noteq> 3 / 100"
    "(8796095 / 8192 :: real) \<noteq> sum_list (replicate 100 (1125899875 / 1048576)) / 100"
    by (simp_all add: sum_list_replicate)
  have n': "(16106127 / 536870912 :: real) \<noteq> binary64 (3 / 100)"
    by (simp add: round_eval)
  from run f s g n n' show ?thesis
    by (simp add: abort_site_def state_at_exit_def failures_three_failing)
qed

subsection \<open>Claim C6: the steps of a power-state transition\<close>

text \<open>
  C6 (as amended). Both transitions issue their library calls in the fixed order
  initialise, resolve the handle of device 0, set the power limit, set or reset the
  application clocks, disable or enable auto-boost. At the first call that fails the
  transition stops: no later call is issued, the calls that succeeded before keep their
  effect on the device (nothing is rolled back), and exactly one line is printed. For
  every step but initialisation that line carries the device index 0 and the library's
  text for the error; for the handle, power-limit and clock steps of both transitions
  and for the auto-boost step of \<open>undervolte\<close> its format names the failing operation.
  Both functions return nothing: the value the caller receives is the same whether the
  transition completed or failed.
\<close>

theorem C6_transition_steps:
  "(case first_failure lib (length (nvml_calls w)) to_constrained of
      None \<Rightarrow>
        nvml_calls (snd (undervolte lib w)) = nvml_calls w @ to_constrained
        \<and> gpu0 (snd (undervolte lib w)) = applied to_constrained (gpu0 w)
        \<and> console (snd (undervolte lib w)) = console w
    | Some k \<Rightarrow>
        nvml_calls (snd (undervolte lib w)) = nvml_calls w @ take (Suc k) to_constrained
        \<and> gpu0 (snd (undervolte lib w)) = applied (take k to_constrained) (gpu0 w)
        \<and> console (snd (undervolte lib w)) = console w @
            [[Cout ''init error'',
              Printf ''Failed to get handle for device %i: %s\<newline>'' 0
                (nvmlErrorString lib (nvml_result lib (length (nvml_calls w) + k) (to_constrained ! k))),
              Printf ''Failed to set power limit of device %i: %s\<newline>'' 0
                (nvmlErrorString lib (nvml_result lib (length (nvml_calls w) + k) (to_constrained ! k))),
              Printf ''Failed to set clock of device %i: %s\<newline>'' 0
                (nvmlErrorString lib (nvml_result lib (length (nvml_calls w) + k) (to_constrained ! k))),
              Printf ''Failed to disable autoboost of device %i: %s\<newline>'' 0
                (nvmlErrorString lib (nvml_result lib (length (nvml_calls w) + k) (to_constrained ! k)))] ! k])
   \<and> (case first_failure lib (length (nvml_calls w)) to_normal of
      None \<Rightarrow>
        nvml_calls (snd (resetvolte lib w)) = nvml_calls w @ to_normal
        \<and> gpu0 (snd (resetvolte lib w)) = applied to_normal (gpu0 w)
        \<and> console (snd (resetvolte lib w)) = console w
    | Some k \<Rightarrow>
        nvml_calls (snd (resetvolte lib w)) = nvml_calls w @ take (Suc k) to_normal
        \<and> gpu0 (snd (resetvolte lib w)) = applied (take k to_normal) (gpu0 w)
        \<and> (\<exists>fmt. console (snd (resetvolte lib w)) = console w @
            [[Cout ''init error'',
              Printf ''Failed to get handle for device %i: %s\<newline>'' 0
                (nvmlErrorString lib (nvml_result lib (length (nvml_calls w) + k) (to_normal ! k))),
              Printf ''Failed to set power limit of device %i: %s\<newline>'' 0
                (nvmlErrorString lib (nvml_result lib (length (nvml_calls w) + k) (to_normal ! k))),
              Printf ''Failed to reset clock of device %i: %s\<newline>'' 0
                (nvmlErrorString lib (nvml_result lib (length (nvml_calls w) + k) (to_normal ! k))),
              Printf fmt 0
                (nvmlErrorString lib (nvml_result lib (length (nvml_calls w) + k) (to_normal ! k)))] ! k]))
   \<and> fst (undervolte lib w) = () \<and> fst (resetvolte lib w) = ()"
  using undervolte_trace [of lib w] resetvolte_trace [of lib w] by simp

text \<open>
  Witness for C6: \<open>undervolte\<close> with the power-limit call failing, and \<open>resetvolte\<close> with
  the clock reset failing after the power limit was already raised.
\<close>

theorem C6_transition_steps_witness:
  "nvml_calls (snd (undervolte (nvml_failing_at 2) (machine0 38500))) =
     [Init, DeviceGetHandleByIndex 0, DeviceSetPowerManagementLimit 30000]
   \<and> gpu0 (snd (undervolte (nvml_failing_at 2) (machine0 38500))) = gpu0 (machine0 38500)
   \<and> console (snd (undervolte (nvml_failing_at 2) (machine0 38500))) =
       [Printf ''Failed to set power limit of device %i: %s\<newline>'' 0 ''Insufficient Permissions'']
   \<and> nvml_calls (snd (resetvolte (nvml_failing_at 3) (machine0 30000))) =
       [Init, DeviceGetHandleByIndex 0, DeviceSetPowerManagementLimit 38500,
        DeviceResetApplicationsClocks]
   \<and> power_limit (gpu0 (snd (resetvolte (nvml_failing_at 3) (machine0 30000)))) = 38500
   \<and> console (snd (resetvolte (nvml_failing_at 3) (machine0 30000))) =
       [Printf ''Failed to reset clock of device %i: %s\<newline>'' 0 ''Insufficient Permissions'']"
  using C6_transition_steps [of "nvml_failing_at 2" "machine0 38500"]
    C6_transition_steps [of "nvml_failing_at 3" "machine0 30000"]
  by (simp add: nvml_failing_at_def nvml_ok_def machine0_def to_constrained_def to_normal_def
      applied_def nvml_effect_def)

text \<open>
  Counterexample to C6 as stated (the caller observes a "transition failed" outcome): a
  transition that fails at the power-limit step and a transition that completes return
  the same value to the caller, although the first printed a failure and left the device
  at its old limit.
\<close>

theorem C6_no_outcome_counterexample:
  "fst (undervolte (nvml_failing_at 2) (machine0 38500)) = fst (undervolte nvml_ok (machine0 38500))
   \<and> console (snd (undervolte (nvml_failing_at 2) (machine0 38500))) =
       [Printf ''Failed to set power limit of device %i: %s\<newline>'' 0 ''Insufficient Permissions'']
   \<and> console (snd (undervolte nvml_ok (machine0 38500))) = []
   \<and> power_limit (gpu0 (snd (undervolte (nvml_failing_at 2) (machine0 38500)))) = 38500
   \<and> power_limit (gpu0 (snd (undervolte nvml_ok (machine0 38500)))) = 30000"
  by (simp add: undervolte_def nvml_failing_at_def nvml_ok_def machine0_def nvml_issue_def
      print_line_def nvml_effect_def Let_def)

subsection \<open>Claim C7: the power limit after Constrained then Normal\<close>

text \<open>
  C7 (as amended). When every library call succeeds, \<open>undervolte\<close> leaves the power limit
  at 30000 and \<open>resetvolte\<close> after it leaves the power limit at 38500, whatever the limit
  was before; the limit is back at its earlier value exactly when that value was 38500.
\<close>

theorem C7_power_limit_after_round_trip:
  assumes "\<forall>n c. nvml_result lib n c = NVML_SUCCESS"
  shows "power_limit (gpu0 (snd (undervolte lib w))) = 30000
       \<and> power_limit (gpu0 (snd (resetvolte lib (snd (undervolte lib w))))) = 38500
       \<and> (power_limit (gpu0 (snd (resetvolte lib (snd (undervolte lib w))))) = power_limit (gpu0 w)
            \<longleftrightarrow> power_limit (gpu0 w) = 38500)"
  using assms
  by (simp add: undervolte_def resetvolte_def nvml_issue_def print_line_def nvml_effect_def Let_def
      eq_commute)

text \<open>Witness for C7: a device that starts at 38500.\<close>

theorem C7_power_limit_after_round_trip_witness:
  "power_limit (gpu0 (snd (undervolte nvml_ok (machine0 38500)))) = 30000
   \<and> power_limit (gpu0 (snd (resetvolte nvml_ok (snd (undervolte nvml_ok (machine0 38500)))))) = 38500
   \<and> power_limit (gpu0 (snd (resetvolte nvml_ok (snd (undervolte nvml_ok (machine0 38500))))))
       = power_limit (gpu0 (machine0 38500))"
  using C7_power_limit_after_round_trip [of nvml_ok "machine0 38500"]
  by (simp add: nvml_ok_def machine0_def)

text \<open>
  Counterexample to C7 as stated (for every initial power limit): a device that starts at
  35000 ends at 38500.
\<close>

theorem C7_round_trip_counterexample:
  "power_limit (gpu0 (machine0 35000)) = 35000
   \<and> power_limit (gpu0 (snd (resetvolte nvml_ok (snd (undervolte nvml_ok (machine0 35000)))))) = 38500"
  by (simp add: undervolte_def resetvolte_def nvml_ok_def machine0_def nvml_issue_def
      print_line_def nvml_effect_def Let_def)

subsection \<open>Claim C8: resources held when the run ends\<close>

text \<open>
  C8 (as amended). Let the run start with no resource held. When every checked call
  succeeds, the run returns 0 having released the library handle, the four host buffers
  and the four device buffers; the two timing events are the only resources it has not
  released. When the run is aborted, it is aborted at a checked call whose status is not
  success, and \<open>matrixMultiply\<close> has released nothing of its own accord: the macro
  \<open>checkCudaErrors\<close> is reached with \<open>held_at site\<close> held, which is everything acquired
  before the failing call (in the final clean-up, what the frees before the failing
  \<open>cudaFree\<close> have left), and what is held when the run ends is what the macro leaves of
  it. In particular nothing is held after an abort exactly when the macro releases all
  it is handed.
\<close>

theorem C8_release_on_exit:
  assumes "held s = []"
  shows "(all_succeed rt \<longrightarrow>
            (\<exists>s'. matrixMultiply fp rt s = Inr (0, s') \<and> held s' = [Event_start, Event_stop]))
       \<and> (\<forall>site s'. matrixMultiply fp rt s = Inl (site, s') \<longrightarrow>
            cuda_status rt site \<noteq> 0
            \<and> held s' = on_failure rt site (held_at site))"
proof (intro conjI impI allI)
  assume "all_succeed rt"
  from matrixMultiply_ok [OF this, of fp s] assms
  show "\<exists>s'. matrixMultiply fp rt s = Inr (0, s') \<and> held s' = [Event_start, Event_stop]"
    by auto
next
  fix site s'
  assume "matrixMultiply fp rt s = Inl (site, s')"
  from matrixMultiply_abort [OF this assms] show "cuda_status rt site \<noteq> 0" by simp
next
  fix site s'
  assume "matrixMultiply fp rt s = Inl (site, s')"
  from matrixMultiply_abort [OF this assms]
  show "held s' = on_failure rt site (held_at site)" by simp
qed

text \<open>
  Witness for C8: a run whose calls all succeed; a run whose second \<open>cudaMalloc\<close> fails
  under a macro that releases nothing, which ends with the four host buffers and the
  first device buffer held; and the same run under a macro that releases all it is
  handed, which ends with nothing held.
\<close>

theorem C8_release_on_exit_witness:
  "(\<exists>s'. matrixMultiply exact_fpu (sample_runtime 0 2) (start_state 0) = Inr (0, s')
        \<and> held s' = [Event_start, Event_stop])
   \<and> (\<exists>s'. matrixMultiply exact_fpu (failing_at Malloc_d_B) (start_state 0) = Inl (Malloc_d_B, s')
        \<and> held s' = [Host_A, Host_B, Host_C, Host_C2, Dev_A])
   \<and> (\<exists>s'. matrixMultiply exact_fpu (releasing_at Malloc_d_B) (start_state 0) = Inl (Malloc_d_B, s')
        \<and> held s' = [])"
proof -
  have start: "held (start_state 0 :: (real, real) state) = []"
    by (simp add: start_state_def)
  from C8_release_on_exit [OF start, of "sample_runtime 0 2" exact_fpu]
    all_succeed_sample [of "0::real" 2]
  have ok: "\<exists>s'. matrixMultiply exact_fpu (sample_runtime 0 2) (start_state 0) = Inr (0, s')
        \<and> held s' = [Event_start, Event_stop]"
    by blast
  obtain s1 where
    ab1: "matrixMultiply exact_fpu (failing_at Malloc_d_B) (start_state 0) = Inl (Malloc_d_B, s1)"
    by (simp add: matrixMultiply_def prologue_def failing_at_def sample_runtime_def
        checkCudaErrors_def stmt_def)
  from C8_release_on_exit [OF start, of "failing_at Malloc_d_B" exact_fpu] ab1
  have h1: "held s1 = [Host_A, Host_B, Host_C, Host_C2, Dev_A]"
    by (simp add: failing_at_def sample_runtime_def)
  obtain s2 where
    ab2: "matrixMultiply exact_fpu (releasing_at Malloc_d_B) (start_state 0) = Inl (Malloc_d_B, s2)"
    by (simp add: matrixMultiply_def prologue_def releasing_at_def failing_at_def
        sample_runtime_def checkCudaErrors_def stmt_def)
  from C8_release_on_exit [OF start, of "releasing_at Malloc_d_B" exact_fpu] ab2
  have h2: "held s2 = []"
    by (simp add: releasing_at_def)
  from ok ab1 h1 ab2 h2 show ?thesis by blast
qed

text \<open>
  Counterexample to C8 as stated (normal completion frees every acquired resource): the
  run whose calls all succeed is not aborted and returns with both timing events still
  held.
\<close>

theorem C8_release_counterexample:
  "abort_site (matrixMultiply exact_fpu (sample_runtime 0 2) (start_state 0)) = None
   \<and> held_at_exit (matrixMultiply exact_fpu (sample_runtime 0 2) (start_state 0))
       = [Event_start, Event_stop]"
proof -
  from matrixMultiply_ok [OF all_succeed_sample, of exact_fpu 0 2 "start_state 0"]
  obtain s2 where
    "matrixMultiply exact_fpu (sample_runtime 0 2) (start_state 0) = Inr (0, s2)"
    "held s2 = [Event_start, Event_stop]"
    by (auto simp: start_state_def)
  then show ?thesis
    by (simp add: abort_site_def held_at_exit_def)
qed

subsection \<open>Claim C9: the range of the generated inputs\<close>

text \<open>
  C9 (as amended). Let single precision be any rounding \<open>rf\<close> of the reals that is
  monotone and keeps 0 and 1, and let \<open>rand()\<close> return values between 0 and \<open>RAND_MAX\<close>,
  as the C standard requires. Then every element written by \<open>randomInit\<close> (whatever the
  seed, the buffer and the number of values drawn before) lies in the closed interval
  from 0 to 1, and it is 1 whenever \<open>rand()\<close> returned \<open>RAND_MAX\<close>. The driver fills
  \<open>h_A\<close> and \<open>h_B\<close> by two such calls after \<open>srand(2006)\<close>.
\<close>

theorem C9_randomInit_unit_interval:
  assumes "mono rf" "rf 0 = 0" "rf 1 = 1"
    and "\<forall>n. 0 \<le> rand_value rt seed n \<and> rand_value rt seed n \<le> RAND_MAX rt"
    and "1 \<le> RAND_MAX rt"
    and "int p < size_n"
  shows "0 \<le> fst (randomInit (rounded_fpu rf rd) rt seed (data, c) size_n) p
       \<and> fst (randomInit (rounded_fpu rf rd) rt seed (data, c) size_n) p \<le> 1
       \<and> (rand_value rt seed (c + p) = RAND_MAX rt \<longrightarrow>
            fst (randomInit (rounded_fpu rf rd) rt seed (data, c) size_n) p = 1)"
proof -
  from assms(6) have sz: "0 \<le> size_n" by simp
  have v: "fst (randomInit (rounded_fpu rf rd) rt seed (data, c) size_n) p =
      random_value (rounded_fpu rf rd) rt seed (c + p)"
    using assms(6) by (simp add: randomInit_closed [OF sz])
  have m1: "1 \<le> rf (real_of_int (RAND_MAX rt))"
    using monoD [OF assms(1), of 1 "real_of_int (RAND_MAX rt)"] assms(5) assms(3) by simp
  have "rand_value rt seed (c + p) = RAND_MAX rt \<longrightarrow>
      random_value (rounded_fpu rf rd) rt seed (c + p) = 1"
    using m1 assms(3) by (simp add: random_value_def rounded_fpu_def)
  with random_value_unit [OF assms(1-3), of rt seed "c + p" rd] assms(4,5) v
  show ?thesis by simp
qed

text \<open>Witness for C9, without rounding: the third of three values drawn.\<close>

theorem C9_randomInit_unit_interval_witness:
  "0 \<le> fst (randomInit exact_fpu (sample_runtime 0 2) 2006 (\<lambda>_. 0, 0) 3) 2
   \<and> fst (randomInit exact_fpu (sample_runtime 0 2) 2006 (\<lambda>_. 0, 0) 3) 2 \<le> 1"
  using C9_randomInit_unit_interval [of "\<lambda>x. x" "sample_runtime 0 2" 2006 2 3 "\<lambda>x. x" "\<lambda>_. 0" 0]
  by (simp add: exact_fpu_def sample_runtime_def mono_def)

text \<open>
  Counterexample to C9 as stated (every value strictly below 1): when \<open>rand()\<close> returns
  \<open>RAND_MAX\<close> the element written is \<open>RAND_MAX / (float)RAND_MAX = 1\<close>.
\<close>

theorem C9_randomInit_one_counterexample:
  "fst (randomInit exact_fpu (sample_runtime 0 2) 2006 (\<lambda>_. 0, 0) 1) 0 = 1
   \<and> \<not> fst (randomInit exact_fpu (sample_runtime 0 2) 2006 (\<lambda>_. 0, 0) 1) 0 < 1"
  by (simp add: randomInit_def randomInit_loop.simps exact_fpu_def rounded_fpu_def sample_runtime_def)

subsection \<open>Claim C10: the throughput division has no guard\<close>



end
